theory Spec2Isabelle
  imports Complex_Main "HOL-Library.AList" "HOL-Library.Log_Nat" "HOL-Library.Multiset" "HOL-Library.Sublist"
begin

section \<open>Instructor analytics: aggregation and classification\<close>

text \<open>
  A shallow embedding of the analytics route handlers
  \<^verbatim>\<open>ai-insights-detailed/route.ts\<close>, \<^verbatim>\<open>study-techniques-detailed/route.ts\<close> and
  \<^verbatim>\<open>export-report/route.ts\<close>.

  Conventions of the embedding:
  \<^item> A JavaScript number is a double. It is held as the \<open>rat\<close> that is its exact value,
    and every arithmetic operation rounds its exact result to the nearest double, ties to
    even (\<open>to_double\<close>, subnormal numbers included). Results beyond the largest double
    and \<^verbatim>\<open>NaN\<close> have no \<open>rat\<close>: a division whose divisor can be \<open>0\<close> returns an
    \<open>option\<close>, and overflow, which needs magnitudes near \<open>2 ^ 1024\<close>, is left out.
    Counters are \<open>nat\<close>. \<^verbatim>\<open>Math.round\<close> is \<open>\<lfloor>x + 1/2\<rfloor>\<close>, taken exactly.
  \<^item> A numeric column of an input row holds the number as the store sends it; the handler
    reads it as the nearest double (\<open>js_number\<close>).
  \<^item> A field that may be \<^verbatim>\<open>null\<close>/\<^verbatim>\<open>undefined\<close> is an \<open>option\<close>; \<^verbatim>\<open>a || d\<close> on a
    number is \<open>d\<close> when \<open>a\<close> is absent or \<open>0\<close>.
  \<^item> A plain object used as a dictionary with non-numeric string keys is an association
    list in insertion order (\<open>AList.update\<close> overwrites in place or appends), which is
    the order of \<^verbatim>\<open>Object.values\<close>/\<^verbatim>\<open>Object.entries\<close>.
  \<^item> \<^verbatim>\<open>Array.prototype.sort\<close> with a comparator is a stable insertion sort.
\<close>

subsection \<open>Numbers\<close>

text \<open>
  Rounding to the nearest integer with ties to the even one, the exponent \<open>e\<close> of a
  non-zero number (\<open>2 ^ e \<le> \<bar>x\<bar> < 2 ^ (e + 1)\<close>), the spacing of the doubles around a
  number (53 significant bits, the least exponent \<open>- 1022\<close>), and the double nearest to
  a number, computed on its numerator and denominator.
\<close>

definition round_half_even :: "rat \<Rightarrow> int" where
  "round_half_even m =
     (let f = \<lfloor>m\<rfloor>; r = m - of_int f
      in if r < 1 / 2 then f else if 1 / 2 < r then f + 1 else if even f then f else f + 1)"

definition binade :: "rat \<Rightarrow> int" where
  "binade x =
     (case quotient_of \<bar>x\<bar> of (p, q) \<Rightarrow>
        let k = bitlen p - bitlen q in if 2 powi k \<le> \<bar>x\<bar> then k else k - 1)"

definition ulp :: "rat \<Rightarrow> rat" where
  "ulp x = 2 powi (max (binade x) (- 1022) - 52)"

fun round_quotient :: "int \<times> int \<Rightarrow> rat" where
  "round_quotient (p, q) =
     (let x = of_int p / of_int q; u = ulp x in of_int (round_half_even (x / u)) * u)"

definition to_double :: "rat \<Rightarrow> rat" where
  "to_double x = round_quotient (quotient_of x)"

text \<open>The operators \<^verbatim>\<open>+\<close>, \<^verbatim>\<open>-\<close>, \<^verbatim>\<open>*\<close> and \<^verbatim>\<open>/\<close> (the last for a non-zero divisor).\<close>

definition fadd :: "rat \<Rightarrow> rat \<Rightarrow> rat" where
  "fadd a b = to_double (a + b)"

definition fsub :: "rat \<Rightarrow> rat \<Rightarrow> rat" where
  "fsub a b = to_double (a - b)"

definition fmul :: "rat \<Rightarrow> rat \<Rightarrow> rat" where
  "fmul a b = to_double (a * b)"

definition fdiv :: "rat \<Rightarrow> rat \<Rightarrow> rat" where
  "fdiv a b = to_double (a / b)"

text \<open>A numeric column as the handler reads it.\<close>

definition js_number :: "rat option \<Rightarrow> rat option" where
  "js_number a = map_option to_double a"

definition js_round :: "rat \<Rightarrow> int" where
  "js_round x = \<lfloor>x + 1 / 2\<rfloor>"

text \<open>\<^verbatim>\<open>a || d\<close> for a numeric field: absent and \<open>0\<close> are both falsy.\<close>

definition num_or :: "'a::zero option \<Rightarrow> 'a \<Rightarrow> 'a" where
  "num_or a d = (case a of None \<Rightarrow> d | Some v \<Rightarrow> if v = 0 then d else v)"

text \<open>\<^verbatim>\<open>a || b\<close> for two optional strings: the empty string is falsy.\<close>

definition str_or :: "string option \<Rightarrow> string option \<Rightarrow> string option" where
  "str_or a b = (case a of None \<Rightarrow> b | Some s \<Rightarrow> if s = [] then b else Some s)"

text \<open>
  Division where a zero divisor has to show: \<open>None\<close> stands for the
  non-finite results \<^verbatim>\<open>NaN\<close> and \<^verbatim>\<open>Infinity\<close>, which \<^verbatim>\<open>Math.round\<close> and
  multiplication by a positive constant pass on.
\<close>

definition js_div :: "rat \<Rightarrow> rat \<Rightarrow> rat option" where
  "js_div a b = (if b = 0 then None else Some (fdiv a b))"

text \<open>\<^verbatim>\<open>xs.reduce((a, b) => a + b, 0)\<close>.\<close>

definition js_sum :: "rat list \<Rightarrow> rat" where
  "js_sum xs = foldl fadd 0 xs"

subsection \<open>Strings, dictionaries, sorting\<close>

text \<open>The decimal text of an integer, as a template literal prints it.\<close>

definition digit_char :: "nat \<Rightarrow> char" where
  "digit_char d = ''0123456789'' ! (d mod 10)"

function decimal_digits :: "nat \<Rightarrow> string \<Rightarrow> string" where
  "decimal_digits n acc =
     (let acc' = digit_char n # acc
      in if n div 10 = 0 then acc' else decimal_digits (n div 10) acc')"
  by pat_completeness auto
termination
  by (relation "measure fst") auto

definition show_nat :: "nat \<Rightarrow> string" where
  "show_nat n = decimal_digits n []"

definition show_int :: "int \<Rightarrow> string" where
  "show_int i = (if 0 \<le> i then show_nat (nat i) else CHR ''-'' # show_nat (nat (- i)))"

fun insert_by :: "('a \<Rightarrow> 'a \<Rightarrow> int) \<Rightarrow> 'a \<Rightarrow> 'a list \<Rightarrow> 'a list" where
  "insert_by cmp x [] = [x]"
| "insert_by cmp x (y # ys) = (if cmp x y \<le> 0 then x # y # ys else y # insert_by cmp x ys)"

definition js_sort :: "('a \<Rightarrow> 'a \<Rightarrow> int) \<Rightarrow> 'a list \<Rightarrow> 'a list" where
  "js_sort cmp xs = foldr (insert_by cmp) xs []"

text \<open>A set of strings built by repeated \<^verbatim>\<open>add\<close>, in insertion order.\<close>

definition set_add :: "'a \<Rightarrow> 'a list \<Rightarrow> 'a list" where
  "set_add x xs = (if x \<in> set xs then xs else xs @ [x])"

subsection \<open>Alert generator (ai-insights-detailed, performanceAlerts)\<close>

record module_progress =
  mp_user_id :: string
  mp_module_id :: string
  mp_best_score :: "rat option"
  mp_status :: string
  mp_needs_remedial :: bool
  mp_modules_title :: string
  mp_modules_course_id :: string

record module_perf =
  md_title :: string
  md_scores :: "rat list"
  md_needsRemedial :: nat
  md_failing :: nat
  md_totalStudents :: nat

text \<open>The body of \<^verbatim>\<open>moduleProgressData?.forEach(mp => ...)\<close>.\<close>

definition add_module_progress ::
  "(string \<times> module_perf) list \<Rightarrow> module_progress \<Rightarrow> (string \<times> module_perf) list" where
  "add_module_progress modulePerformanceMap mp =
     (let moduleId = mp_module_id mp;
          moduleData0 = (case map_of modulePerformanceMap moduleId of
                           None \<Rightarrow> \<lparr>md_title = mp_modules_title mp, md_scores = [], md_needsRemedial = 0,
                                    md_failing = 0, md_totalStudents = 0\<rparr>
                         | Some d \<Rightarrow> d);
          moduleData1 = moduleData0\<lparr>md_totalStudents := md_totalStudents moduleData0 + 1\<rparr>;
          score = num_or (js_number (mp_best_score mp)) 0;
          moduleData2 =
            (if score > 0 then
               (let d = moduleData1\<lparr>md_scores := md_scores moduleData1 @ [score]\<rparr>
                in if score < 60 then d\<lparr>md_failing := md_failing d + 1\<rparr>
                   else if score < 70 then d\<lparr>md_needsRemedial := md_needsRemedial d + 1\<rparr>
                   else d)
             else moduleData1);
          moduleData3 =
            (if mp_needs_remedial mp
             then moduleData2\<lparr>md_needsRemedial := md_needsRemedial moduleData2 + 1\<rparr>
             else moduleData2)
      in AList.update moduleId moduleData3 modulePerformanceMap)"

definition modulePerformanceMap :: "module_progress list option \<Rightarrow> (string \<times> module_perf) list" where
  "modulePerformanceMap moduleProgressData =
     (case moduleProgressData of None \<Rightarrow> [] | Some rows \<Rightarrow> foldl add_module_progress [] rows)"

datatype alert_type = critical | warning | info
datatype severity = low | medium | high

record performance_alert =
  pa_type :: alert_type
  pa_title :: string
  pa_description :: string
  pa_moduleId :: string
  pa_moduleTitle :: string
  pa_metric :: string
  pa_value :: int
  pa_affectedStudents :: nat
  pa_totalStudents :: nat
  pa_severity :: severity

definition avgScore :: "module_perf \<Rightarrow> rat" where
  "avgScore d =
     (if length (md_scores d) > 0 then fdiv (js_sum (md_scores d)) (of_nat (length (md_scores d))) else 0)"

definition failureRate :: "module_perf \<Rightarrow> rat" where
  "failureRate d = fmul (fdiv (of_nat (md_failing d)) (of_nat (md_totalStudents d))) 100"

definition remedialRate :: "module_perf \<Rightarrow> rat" where
  "remedialRate d = fmul (fdiv (of_nat (md_needsRemedial d)) (of_nat (md_totalStudents d))) 100"

text \<open>The body of \<^verbatim>\<open>Object.entries(modulePerformanceMap).forEach\<close>: at most one alert per module.\<close>

definition module_alert :: "string \<times> module_perf \<Rightarrow> performance_alert option" where
  "module_alert e =
     (let moduleId = fst e; d = snd e in
      if failureRate d \<ge> 30 then
        Some \<lparr>pa_type = critical,
              pa_title = ''High Failure Rate in '' @ md_title d,
              pa_description = show_int (js_round (failureRate d)) @ ''% of students are failing this module'',
              pa_moduleId = moduleId, pa_moduleTitle = md_title d,
              pa_metric = ''failure_rate'', pa_value = js_round (failureRate d),
              pa_affectedStudents = md_failing d, pa_totalStudents = md_totalStudents d,
              pa_severity = high\<rparr>
      else if remedialRate d \<ge> 40 then
        Some \<lparr>pa_type = warning,
              pa_title = ''Many Students Need Remedial Help in '' @ md_title d,
              pa_description = show_int (js_round (remedialRate d)) @ ''% of students need additional support'',
              pa_moduleId = moduleId, pa_moduleTitle = md_title d,
              pa_metric = ''remedial_rate'', pa_value = js_round (remedialRate d),
              pa_affectedStudents = md_needsRemedial d, pa_totalStudents = md_totalStudents d,
              pa_severity = medium\<rparr>
      else if avgScore d < 70 then
        Some \<lparr>pa_type = info,
              pa_title = ''Below Average Performance in '' @ md_title d,
              pa_description = ''Average score of '' @ show_int (js_round (avgScore d)) @ ''% indicates room for improvement'',
              pa_moduleId = moduleId, pa_moduleTitle = md_title d,
              pa_metric = ''average_score'', pa_value = js_round (avgScore d),
              pa_affectedStudents = md_totalStudents d, pa_totalStudents = md_totalStudents d,
              pa_severity = low\<rparr>
      else None)"

definition performanceAlerts :: "module_progress list option \<Rightarrow> performance_alert list" where
  "performanceAlerts moduleProgressData =
     List.map_filter module_alert (modulePerformanceMap moduleProgressData)"


subsection \<open>Recommendation deduplicator and ranker (ai-insights-detailed, teachingRecommendations)\<close>

record recommendation =
  rec_type :: string
  rec_title :: string
  rec_description :: string
  rec_actionable_advice :: "string option"
  rec_actionableAdvice :: "string option"
  rec_priority :: "int option"
  rec_confidence_score :: "rat option"

text \<open>
  A row of \<^verbatim>\<open>study_session_analytics\<close>. \<open>as_analyzed_at\<close> is
  \<^verbatim>\<open>new Date(analyzed_at).getTime()\<close>; \<open>as_improvement_percentage\<close> is
  \<^verbatim>\<open>performance_metrics?.improvement_percentage\<close>; \<open>as_pattern_type\<close> and
  \<open>as_learning_velocity\<close> are the two fields read from \<^verbatim>\<open>learning_patterns\<close>.
\<close>

record analytics_session =
  as_user_id :: string
  as_session_type :: string
  as_analyzed_at :: int
  as_improvement_percentage :: "rat option"
  as_pattern_type :: "string option"
  as_learning_velocity :: "rat option"
  as_recommendations :: "recommendation list option"

record student_info =
  su_id :: string
  su_name :: string
  su_email :: string

text \<open>\<^verbatim>\<open>studentMap\<close>: a later row with the same id overwrites an earlier one.\<close>

definition studentMap :: "student_info list option \<Rightarrow> (string \<times> student_info) list" where
  "studentMap studentsInfo =
     foldl (\<lambda>acc student. AList.update (su_id student) student acc) []
       (case studentsInfo of None \<Rightarrow> [] | Some rows \<Rightarrow> rows)"

record rec_group =
  rg_type :: string
  rg_title :: string
  rg_description :: string
  rg_actionableAdvice :: "string option"
  rg_priority :: int
  rg_affectedStudents :: "string list"
  rg_frequency :: nat
  rg_avgConfidence :: rat
  rg_totalConfidence :: rat

definition rec_key :: "recommendation \<Rightarrow> string" where
  "rec_key rec = rec_type rec @ ''-'' @ rec_title rec"

text \<open>The body of \<^verbatim>\<open>session.recommendations.forEach(rec => ...)\<close>.\<close>

definition add_recommendation ::
  "string \<Rightarrow> (string \<times> rec_group) list \<Rightarrow> recommendation \<Rightarrow> (string \<times> rec_group) list" where
  "add_recommendation user_id recommendationCounts rec =
     (let key = rec_key rec;
          g0 = (case map_of recommendationCounts key of
                  None \<Rightarrow> \<lparr>rg_type = rec_type rec, rg_title = rec_title rec,
                           rg_description = rec_description rec,
                           rg_actionableAdvice = str_or (rec_actionable_advice rec) (rec_actionableAdvice rec),
                           rg_priority = num_or (rec_priority rec) 1,
                           rg_affectedStudents = [], rg_frequency = 0,
                           rg_avgConfidence = 0, rg_totalConfidence = 0\<rparr>
                | Some g \<Rightarrow> g);
          g1 = g0\<lparr>rg_affectedStudents := set_add user_id (rg_affectedStudents g0),
                  rg_frequency := rg_frequency g0 + 1,
                  rg_totalConfidence :=
                    fadd (rg_totalConfidence g0)
                      (num_or (js_number (rec_confidence_score rec)) (to_double (7 / 10)))\<rparr>
      in AList.update key g1 recommendationCounts)"

definition add_session_recommendations ::
  "(string \<times> rec_group) list \<Rightarrow> analytics_session \<Rightarrow> (string \<times> rec_group) list" where
  "add_session_recommendations recommendationCounts session =
     (case as_recommendations session of
        None \<Rightarrow> recommendationCounts
      | Some recs \<Rightarrow> foldl (add_recommendation (as_user_id session)) recommendationCounts recs)"

definition recommendationCounts :: "analytics_session list \<Rightarrow> (string \<times> rec_group) list" where
  "recommendationCounts analyticsData = foldl add_session_recommendations [] analyticsData"

text \<open>The first loop body of \<^verbatim>\<open>Object.values(recommendationCounts).forEach\<close>.\<close>

definition finish_group :: "rec_group \<Rightarrow> rec_group" where
  "finish_group rec =
     rec\<lparr>rg_avgConfidence :=
           (if rg_frequency rec > 0 then fdiv (rg_totalConfidence rec) (of_nat (rg_frequency rec)) else 0)\<rparr>"

record teaching_recommendation =
  tr_id :: string
  tr_type :: string
  tr_title :: string
  tr_description :: string
  tr_actionableAdvice :: "string option"
  tr_priority :: int
  tr_frequency :: nat
  tr_affectedStudentsCount :: nat
  tr_affectedStudents :: "string list"
  tr_confidence :: int
  tr_impact :: severity

text \<open>\<^verbatim>\<open>Array.from(set).map(id => studentMap[id]?.name).filter(Boolean)\<close>.\<close>

definition student_names :: "(string \<times> student_info) list \<Rightarrow> string list \<Rightarrow> string list" where
  "student_names smap ids =
     List.map_filter
       (\<lambda>i. case map_of smap i of None \<Rightarrow> None
             | Some s \<Rightarrow> if su_name s = [] then None else Some (su_name s)) ids"

text \<open>
  The object pushed for a group when \<open>n\<close> recommendations have been pushed before it
  (the second half of the loop body of \<^verbatim>\<open>Object.values(recommendationCounts).forEach\<close>).
\<close>

definition recommendation_of ::
  "(string \<times> student_info) list \<Rightarrow> nat \<Rightarrow> rec_group \<Rightarrow> teaching_recommendation" where
  "recommendation_of smap n rec0 =
     (let rec = finish_group rec0;
          affectedStudentsCount = length (rg_affectedStudents rec);
          affectedStudents = student_names smap (rg_affectedStudents rec)
      in \<lparr>tr_id = ''rec_'' @ show_nat (n + 1),
          tr_type = rg_type rec, tr_title = rg_title rec,
          tr_description = rg_description rec,
          tr_actionableAdvice = rg_actionableAdvice rec,
          tr_priority = rg_priority rec,
          tr_frequency = rg_frequency rec,
          tr_affectedStudentsCount = affectedStudentsCount,
          tr_affectedStudents = take 3 affectedStudents,
          tr_confidence = js_round (fmul (rg_avgConfidence rec) 100),
          tr_impact = (if affectedStudentsCount \<ge> 3 then high
                       else if affectedStudentsCount = 2 then medium else low)\<rparr>)"

definition push_recommendation ::
  "(string \<times> student_info) list \<Rightarrow> teaching_recommendation list \<Rightarrow> rec_group \<Rightarrow> teaching_recommendation list" where
  "push_recommendation smap teachingRecommendations rec0 =
     teachingRecommendations @ [recommendation_of smap (length teachingRecommendations) rec0]"

text \<open>The comparator of \<^verbatim>\<open>teachingRecommendations.sort\<close>.\<close>

definition compare_recommendations :: "teaching_recommendation \<Rightarrow> teaching_recommendation \<Rightarrow> int" where
  "compare_recommendations a b =
     (if tr_priority a \<noteq> tr_priority b then tr_priority a - tr_priority b
      else int (tr_frequency b) - int (tr_frequency a))"

definition teachingRecommendations ::
  "analytics_session list \<Rightarrow> student_info list option \<Rightarrow> teaching_recommendation list" where
  "teachingRecommendations analyticsData studentsInfo =
     js_sort compare_recommendations
       (foldl (push_recommendation (studentMap studentsInfo)) []
          (map snd (recommendationCounts analyticsData)))"


subsection \<open>Intervention aggregator (ai-insights-detailed, studentInterventions)\<close>

record student_analytics =
  sa_sessions :: "analytics_session list"
  sa_totalRecommendations :: nat
  sa_highPriorityIssues :: nat
  sa_criticalIssues :: nat
  sa_improvementTrend :: rat

text \<open>
  \<^verbatim>\<open>rec.priority <= 2\<close> and \<^verbatim>\<open>rec.priority === 1\<close>: both are false when the field is
  absent (\<^verbatim>\<open>undefined\<close>).
\<close>

definition count_issue :: "student_analytics \<Rightarrow> recommendation \<Rightarrow> student_analytics" where
  "count_issue d rec =
     (let d1 = (case rec_priority rec of
                  Some p \<Rightarrow> if p \<le> 2 then d\<lparr>sa_highPriorityIssues := sa_highPriorityIssues d + 1\<rparr> else d
                | None \<Rightarrow> d)
      in if rec_priority rec = Some 1 then d1\<lparr>sa_criticalIssues := sa_criticalIssues d1 + 1\<rparr> else d1)"

text \<open>The body of the second \<^verbatim>\<open>analyticsData.forEach(session => ...)\<close>.\<close>

definition add_student_session ::
  "(string \<times> student_analytics) list \<Rightarrow> analytics_session \<Rightarrow> (string \<times> student_analytics) list" where
  "add_student_session studentAnalytics session =
     (let d0 = (case map_of studentAnalytics (as_user_id session) of
                  None \<Rightarrow> \<lparr>sa_sessions = [], sa_totalRecommendations = 0, sa_highPriorityIssues = 0,
                           sa_criticalIssues = 0, sa_improvementTrend = 0\<rparr>
                | Some d \<Rightarrow> d);
          d1 = d0\<lparr>sa_sessions := sa_sessions d0 @ [session]\<rparr>;
          d2 = (case as_recommendations session of
                  None \<Rightarrow> d1
                | Some recs \<Rightarrow>
                    foldl count_issue
                      (d1\<lparr>sa_totalRecommendations := sa_totalRecommendations d1 + length recs\<rparr>) recs)
      in AList.update (as_user_id session) d2 studentAnalytics)"

definition studentAnalytics :: "analytics_session list \<Rightarrow> (string \<times> student_analytics) list" where
  "studentAnalytics analyticsData = foldl add_student_session [] analyticsData"

datatype intervention_level = level_none | level_medium | level_high | level_urgent

record student_intervention =
  si_studentId :: string
  si_studentName :: string
  si_studentEmail :: string
  si_interventionLevel :: intervention_level
  si_reasons :: "string list"
  si_recommendedActions :: "string option list"
  si_lastAnalyzed :: int
  si_sessionsAnalyzed :: nat
  si_improvementTrend :: int

text \<open>The trend written back to \<^verbatim>\<open>data.improvementTrend\<close>.\<close>

definition improvementTrend :: "student_analytics \<Rightarrow> rat" where
  "improvementTrend d =
     (let performances = filter (\<lambda>p. p \<noteq> 0)
                           (map (\<lambda>s. num_or (js_number (as_improvement_percentage s)) 0) (sa_sessions d))
      in if length performances \<ge> 2
         then fsub (performances ! (length performances - 1)) (performances ! 0)
         else sa_improvementTrend d)"

text \<open>The \<^verbatim>\<open>if / else if / else if\<close> chain that sets level and reason.\<close>

definition interventionLevel :: "student_analytics \<Rightarrow> intervention_level \<times> string list" where
  "interventionLevel d =
     (if sa_criticalIssues d > 0
        then (level_urgent, [show_nat (sa_criticalIssues d) @ '' critical issues identified''])
      else if sa_highPriorityIssues d \<ge> 3
        then (level_high, [show_nat (sa_highPriorityIssues d) @ '' high priority issues''])
      else if improvementTrend d < - 20
        then (level_medium, [''declining performance trend''])
      else (level_none, []))"

definition compare_analyzed_at :: "analytics_session \<Rightarrow> analytics_session \<Rightarrow> int" where
  "compare_analyzed_at a b = as_analyzed_at b - as_analyzed_at a"

definition high_priority :: "recommendation \<Rightarrow> bool" where
  "high_priority r = (case rec_priority r of Some p \<Rightarrow> p \<le> 2 | None \<Rightarrow> False)"

text \<open>
  The body of \<^verbatim>\<open>Object.entries(studentAnalytics).forEach\<close>: \<open>None\<close> when nothing is
  pushed. The list of sessions of an entry is never empty, so the sorted list has a head.
\<close>

definition push_intervention ::
  "(string \<times> student_info) list \<Rightarrow> string \<times> student_analytics \<Rightarrow> student_intervention option" where
  "push_intervention smap e =
     (let userId = fst e; d = snd e in
      case map_of smap userId of
        None \<Rightarrow> None
      | Some student \<Rightarrow>
          (let trend = improvementTrend d;
               lr = interventionLevel d
           in if fst lr \<noteq> level_none then
                (case js_sort compare_analyzed_at (sa_sessions d) of
                   [] \<Rightarrow> None
                 | latestSession # _ \<Rightarrow>
                     Some \<lparr>si_studentId = userId,
                           si_studentName = su_name student,
                           si_studentEmail = su_email student,
                           si_interventionLevel = fst lr,
                           si_reasons = snd lr,
                           si_recommendedActions =
                             map (\<lambda>r. str_or (rec_actionable_advice r) (rec_actionableAdvice r))
                               (take 3 (filter high_priority
                                  (case as_recommendations latestSession of None \<Rightarrow> [] | Some rs \<Rightarrow> rs))),
                           si_lastAnalyzed = as_analyzed_at latestSession,
                           si_sessionsAnalyzed = length (sa_sessions d),
                           si_improvementTrend = js_round trend\<rparr>)
              else None))"

text \<open>\<^verbatim>\<open>levelPriority\<close> has no entry for \<^verbatim>\<open>none\<close>; a \<^verbatim>\<open>NaN\<close> comparison counts as \<open>0\<close>.\<close>

definition levelPriority :: "intervention_level \<Rightarrow> int option" where
  "levelPriority l =
     (case l of level_urgent \<Rightarrow> Some 0 | level_high \<Rightarrow> Some 1 | level_medium \<Rightarrow> Some 2
      | level_none \<Rightarrow> None)"

definition compare_interventions :: "student_intervention \<Rightarrow> student_intervention \<Rightarrow> int" where
  "compare_interventions a b =
     (case (levelPriority (si_interventionLevel a), levelPriority (si_interventionLevel b)) of
        (Some x, Some y) \<Rightarrow> x - y
      | _ \<Rightarrow> 0)"

definition studentInterventions ::
  "analytics_session list \<Rightarrow> student_info list option \<Rightarrow> student_intervention list" where
  "studentInterventions analyticsData studentsInfo =
     js_sort compare_interventions
       (List.map_filter (push_intervention (studentMap studentsInfo)) (studentAnalytics analyticsData))"


subsection \<open>Study technique analytics (study-techniques-detailed)\<close>

text \<open>
  The columns of the session, attempt, cycle and explanation tables that the handler
  reads. A truthiness test on a nullable column is a test on an \<open>option\<close>.
\<close>

record session_row =
  sr_user_id :: string
  sr_status :: string
  sr_created_at :: string

record attempt_row =
  at_is_correct :: bool
  at_response_time_seconds :: "rat option"
  at_confidence_level :: "rat option"

record cycle_row =
  cy_type :: string
  cy_completed_at :: "string option"
  cy_focus_score :: "rat option"
  cy_duration_minutes :: "rat option"

record explanation_row =
  ex_overall_score :: "rat option"
  ex_word_count :: "rat option"

record technique_analytics_row =
  ta_session_type :: string
  ta_improvement_percentage :: "rat option"
  ta_post_study_accuracy :: "rat option"
  ta_overall_accuracy :: "rat option"

definition count_status :: "string \<Rightarrow> session_row list \<Rightarrow> nat" where
  "count_status st sessions = length (filter (\<lambda>s. sr_status s = st) sessions)"

text \<open>\<^verbatim>\<open>new Set(sessions.map(s => s.user_id)).size\<close>.\<close>

definition userEngagement :: "session_row list \<Rightarrow> nat" where
  "userEngagement sessions = length (remdups (map sr_user_id sessions))"

text \<open>\<^verbatim>\<open>xs.filter(x => x.f).map(x => x.f)\<close> on a nullable numeric column.\<close>

definition truthy_values :: "('a \<Rightarrow> rat option) \<Rightarrow> 'a list \<Rightarrow> rat list" where
  "truthy_values f xs =
     List.map_filter
       (\<lambda>x. case js_number (f x) of None \<Rightarrow> None | Some v \<Rightarrow> if v = 0 then None else Some v) xs"

definition rounded_mean :: "rat list \<Rightarrow> int" where
  "rounded_mean xs = js_round (fdiv (js_sum xs) (of_nat (length xs)))"

record active_recall_analytics =
  ar_totalSessions :: nat
  ar_completedSessions :: nat
  ar_averageSessionDuration :: int
  ar_totalAttempts :: nat
  ar_averageAccuracy :: int
  ar_flashcardsGenerated :: nat
  ar_improvementRate :: nat
  ar_userEngagement :: nat
  ar_sessionStatusBreakdown :: "(string \<times> nat) list"

definition activeRecallAnalytics ::
  "session_row list \<Rightarrow> attempt_row list option \<Rightarrow> active_recall_analytics" where
  "activeRecallAnalytics activeRecallSessions activeRecallAttempts =
     (let a0 = \<lparr>ar_totalSessions = length activeRecallSessions,
                 ar_completedSessions = count_status ''completed'' activeRecallSessions,
                 ar_averageSessionDuration = 0,
                 ar_totalAttempts = (case activeRecallAttempts of None \<Rightarrow> 0 | Some as \<Rightarrow> length as),
                 ar_averageAccuracy = 0,
                 ar_flashcardsGenerated = 0,
                 ar_improvementRate = 0,
                 ar_userEngagement = userEngagement activeRecallSessions,
                 ar_sessionStatusBreakdown =
                   [(''completed'', count_status ''completed'' activeRecallSessions),
                    (''preparing'', count_status ''preparing'' activeRecallSessions),
                    (''studying'', count_status ''studying'' activeRecallSessions),
                    (''paused'', count_status ''paused'' activeRecallSessions)]\<rparr>
      in case activeRecallAttempts of
           None \<Rightarrow> a0
         | Some attempts \<Rightarrow>
             if length attempts > 0 then
               (let correctAttempts = length (filter at_is_correct attempts);
                    avgResponseTime =
                      fdiv (js_sum (map (\<lambda>a. num_or (js_number (at_response_time_seconds a)) 0) attempts))
                        (of_nat (length attempts))
                in a0\<lparr>ar_averageAccuracy :=
                         js_round (fmul (fdiv (of_nat correctAttempts) (of_nat (length attempts))) 100),
                       ar_averageSessionDuration := js_round avgResponseTime\<rparr>)
             else a0)"

record pomodoro_analytics =
  po_totalSessions :: nat
  po_completedSessions :: nat
  po_totalCycles :: nat
  po_completedCycles :: nat
  po_averageFocusScore :: int
  po_averageCyclesPerSession :: int
  po_totalStudyTime :: rat
  po_breakAdherence :: int
  po_userEngagement :: nat
  po_cycleTypeBreakdown :: "(string \<times> nat) list"

definition count_cycles :: "(cycle_row \<Rightarrow> bool) \<Rightarrow> cycle_row list option \<Rightarrow> nat" where
  "count_cycles P cycles = (case cycles of None \<Rightarrow> 0 | Some cs \<Rightarrow> length (filter P cs))"

definition pomodoroAnalytics :: "session_row list \<Rightarrow> cycle_row list option \<Rightarrow> pomodoro_analytics" where
  "pomodoroAnalytics pomodoroSessions pomodoroCycles =
     (let p0 = \<lparr>po_totalSessions = length pomodoroSessions,
                 po_completedSessions = count_status ''completed'' pomodoroSessions,
                 po_totalCycles = count_cycles (\<lambda>c. True) pomodoroCycles,
                 po_completedCycles = count_cycles (\<lambda>c. cy_completed_at c \<notin> {None, Some []}) pomodoroCycles,
                 po_averageFocusScore = 0,
                 po_averageCyclesPerSession = 0,
                 po_totalStudyTime = 0,
                 po_breakAdherence = 0,
                 po_userEngagement = userEngagement pomodoroSessions,
                 po_cycleTypeBreakdown =
                   [(''work'', count_cycles (\<lambda>c. cy_type c = ''work'') pomodoroCycles),
                    (''short_break'', count_cycles (\<lambda>c. cy_type c = ''short_break'') pomodoroCycles),
                    (''long_break'', count_cycles (\<lambda>c. cy_type c = ''long_break'') pomodoroCycles)]\<rparr>
      in case pomodoroCycles of
           None \<Rightarrow> p0
         | Some cycles \<Rightarrow>
             if length cycles > 0 then
               (let focusScores = truthy_values cy_focus_score cycles;
                    p1 = (if length focusScores > 0
                          then p0\<lparr>po_averageFocusScore := rounded_mean focusScores\<rparr> else p0);
                    p2 = (if length pomodoroSessions > 0
                          then p1\<lparr>po_averageCyclesPerSession :=
                                     js_round (fdiv (of_nat (length cycles)) (of_nat (length pomodoroSessions)))\<rparr>
                          else p1);
                    studyTime = foldl (\<lambda>sum c. fadd sum (num_or (js_number (cy_duration_minutes c)) 25)) 0
                                  (filter (\<lambda>c. cy_type c = ''work'') cycles);
                    completedBreaks =
                      length (filter (\<lambda>c. cy_type c \<noteq> ''work'' \<and> cy_completed_at c \<notin> {None, Some []}) cycles);
                    totalBreaks = length (filter (\<lambda>c. cy_type c \<noteq> ''work'') cycles)
                in p2\<lparr>po_totalStudyTime := studyTime,
                       po_breakAdherence :=
                         (if totalBreaks > 0
                          then js_round (fmul (fdiv (of_nat completedBreaks) (of_nat totalBreaks)) 100) else 0)\<rparr>)
             else p0)"

record feynman_analytics =
  fe_totalSessions :: nat
  fe_completedSessions :: nat
  fe_totalExplanations :: nat
  fe_averageExplanationScore :: int
  fe_averageWordCount :: int
  fe_improvementTrend :: nat
  fe_conceptMastery :: nat
  fe_userEngagement :: nat
  fe_sessionStatusBreakdown :: "(string \<times> nat) list"

definition feynmanAnalytics ::
  "session_row list \<Rightarrow> explanation_row list option \<Rightarrow> feynman_analytics" where
  "feynmanAnalytics feynmanSessions feynmanExplanations =
     (let f0 = \<lparr>fe_totalSessions = length feynmanSessions,
                 fe_completedSessions = count_status ''completed'' feynmanSessions,
                 fe_totalExplanations = (case feynmanExplanations of None \<Rightarrow> 0 | Some es \<Rightarrow> length es),
                 fe_averageExplanationScore = 0,
                 fe_averageWordCount = 0,
                 fe_improvementTrend = 0,
                 fe_conceptMastery = 0,
                 fe_userEngagement = userEngagement feynmanSessions,
                 fe_sessionStatusBreakdown =
                   [(''completed'', count_status ''completed'' feynmanSessions),
                    (''explaining'', count_status ''explaining'' feynmanSessions),
                    (''reviewing'', count_status ''reviewing'' feynmanSessions),
                    (''preparing'', count_status ''preparing'' feynmanSessions)]\<rparr>
      in case feynmanExplanations of
           None \<Rightarrow> f0
         | Some explanations \<Rightarrow>
             if length explanations > 0 then
               (let scores = truthy_values ex_overall_score explanations;
                    f1 = (if length scores > 0
                          then f0\<lparr>fe_averageExplanationScore := rounded_mean scores\<rparr> else f0);
                    wordCounts = truthy_values ex_word_count explanations
                in if length wordCounts > 0
                   then f1\<lparr>fe_averageWordCount := rounded_mean wordCounts\<rparr> else f1)
             else f0)"

record retrieval_practice_analytics =
  rp_totalSessions :: nat
  rp_completedSessions :: nat
  rp_totalQuestions :: nat
  rp_averageAccuracy :: int
  rp_averageConfidence :: int
  rp_averageResponseTime :: int
  rp_questionsPerSession :: int
  rp_userEngagement :: nat
  rp_difficultyBreakdown :: "(string \<times> nat) list"

definition retrievalPracticeAnalytics ::
  "session_row list \<Rightarrow> attempt_row list option \<Rightarrow> retrieval_practice_analytics" where
  "retrievalPracticeAnalytics retrievalSessions retrievalAttempts =
     (let r0 = \<lparr>rp_totalSessions = length retrievalSessions,
                 rp_completedSessions = count_status ''completed'' retrievalSessions,
                 rp_totalQuestions = (case retrievalAttempts of None \<Rightarrow> 0 | Some as \<Rightarrow> length as),
                 rp_averageAccuracy = 0,
                 rp_averageConfidence = 0,
                 rp_averageResponseTime = 0,
                 rp_questionsPerSession = 0,
                 rp_userEngagement = userEngagement retrievalSessions,
                 rp_difficultyBreakdown = [(''easy'', 0), (''medium'', 0), (''hard'', 0)]\<rparr>
      in case retrievalAttempts of
           None \<Rightarrow> r0
         | Some attempts \<Rightarrow>
             if length attempts > 0 then
               (let correctAttempts = length (filter at_is_correct attempts);
                    r1 = r0\<lparr>rp_averageAccuracy :=
                              js_round (fmul (fdiv (of_nat correctAttempts) (of_nat (length attempts))) 100)\<rparr>;
                    confidenceScores = truthy_values at_confidence_level attempts;
                    r2 = (if length confidenceScores > 0
                          then r1\<lparr>rp_averageConfidence := rounded_mean confidenceScores\<rparr> else r1);
                    responseTimes = truthy_values at_response_time_seconds attempts;
                    r3 = (if length responseTimes > 0
                          then r2\<lparr>rp_averageResponseTime := rounded_mean responseTimes\<rparr> else r2)
                in if length retrievalSessions > 0
                   then r3\<lparr>rp_questionsPerSession :=
                              js_round (fdiv (of_nat (length attempts)) (of_nat (length retrievalSessions)))\<rparr>
                   else r3)
             else r0)"


record technique_comparison =
  tc_technique :: string
  tc_sessions :: nat
  tc_users :: nat
  tc_adoptionRate :: "int option"
  tc_sessionsPerUser :: "int option"
  tc_color :: string

text \<open>The function mapped over \<^verbatim>\<open>techniques\<close>; \<open>t\<close> is \<open>(name, sessions, users)\<close>.\<close>

definition compare_technique :: "nat \<Rightarrow> string \<times> nat \<times> nat \<Rightarrow> technique_comparison" where
  "compare_technique enrolled t =
     (case t of (name, sessions, users) \<Rightarrow>
       \<lparr>tc_technique = name,
        tc_sessions = sessions,
        tc_users = users,
        tc_adoptionRate =
          map_option (\<lambda>q. js_round (fmul q 100)) (js_div (of_nat users) (of_nat (max enrolled 1))),
        tc_sessionsPerUser =
          (if users > 0 then map_option js_round (js_div (of_nat sessions) (of_nat users))
           else Some 0),
        tc_color = (if name = ''Active Recall'' then ''#10B981''
                    else if name = ''Pomodoro'' then ''#3B82F6''
                    else if name = ''Feynman'' then ''#EF4444'' else ''#8B5CF6'')\<rparr>)"

definition compare_sessions_desc :: "technique_comparison \<Rightarrow> technique_comparison \<Rightarrow> int" where
  "compare_sessions_desc a b = int (tc_sessions b) - int (tc_sessions a)"

definition techniqueComparison ::
  "string list \<Rightarrow> session_row list \<Rightarrow> session_row list \<Rightarrow> session_row list \<Rightarrow> session_row list
     \<Rightarrow> technique_comparison list" where
  "techniqueComparison studentIds activeRecallSessions pomodoroSessions feynmanSessions retrievalSessions =
     (let techniques =
            [(''Active Recall'', length activeRecallSessions, userEngagement activeRecallSessions),
             (''Pomodoro'', length pomodoroSessions, userEngagement pomodoroSessions),
             (''Feynman'', length feynmanSessions, userEngagement feynmanSessions),
             (''Retrieval Practice'', length retrievalSessions, userEngagement retrievalSessions)]
      in js_sort compare_sessions_desc (map (compare_technique (length studentIds)) techniques))"

record day_bucket =
  db_date :: string
  db_activeRecall :: nat
  db_pomodoro :: nat
  db_feynman :: nat
  db_retrievalPractice :: nat
  db_total :: nat

definition range_days :: "string \<Rightarrow> nat" where
  "range_days timeRange = (if timeRange = ''week'' then 7 else if timeRange = ''month'' then 30 else 90)"

definition sessions_on :: "string \<Rightarrow> session_row list \<Rightarrow> nat" where
  "sessions_on dateStr sessions = length (filter (\<lambda>s. prefix dateStr (sr_created_at s)) sessions)"

text \<open>
  The clock and the calendar of the runtime. A time value is a number of milliseconds
  since the epoch, in UTC. The time zone of the server is its offset from UTC, in
  milliseconds, before the first change, and the changes in ascending order, each the
  time value of the change with the offset from then on. The local time of a time value
  adds the offset in force; a local time is read back with the offset in force at it,
  and one that a change repeats or skips is read with the offset before the change.
\<close>

definition msPerDay :: int where
  "msPerDay = 86400000"

record time_zone =
  tz_offset :: int
  tz_changes :: "(int \<times> int) list"

fun offset_at_utc :: "int \<Rightarrow> (int \<times> int) list \<Rightarrow> int \<Rightarrow> int" where
  "offset_at_utc a [] t = a"
| "offset_at_utc a ((c, b) # rest) t = (if t < c then a else offset_at_utc b rest t)"

fun offset_at_local :: "int \<Rightarrow> (int \<times> int) list \<Rightarrow> int \<Rightarrow> int" where
  "offset_at_local a [] t = a"
| "offset_at_local a ((c, b) # rest) t = (if t < c + max a b then a else offset_at_local b rest t)"

definition local_time :: "time_zone \<Rightarrow> int \<Rightarrow> int" where
  "local_time z t = t + offset_at_utc (tz_offset z) (tz_changes z) t"

definition utc_time :: "time_zone \<Rightarrow> int \<Rightarrow> int" where
  "utc_time z t = t - offset_at_local (tz_offset z) (tz_changes z) t"

text \<open>
  \<^verbatim>\<open>date.setDate(date.getDate() - i)\<close> on a date with time value \<open>t\<close>: the day of the month
  is a day of the local date and is counted from the first of its month, also when it
  is below 1, so the local time moves back by \<open>i\<close> days of 24 hours and is then read
  back as a time value.
\<close>

definition setDate_back :: "time_zone \<Rightarrow> int \<Rightarrow> nat \<Rightarrow> int" where
  "setDate_back z t i = utc_time z (local_time z t - int i * msPerDay)"

text \<open>
  Year, month and day of a day number (days since 1 January 1970) in the Gregorian
  calendar, counted in cycles of 400 years that begin on 1 March.
\<close>

definition civil_date :: "int \<Rightarrow> int \<times> int \<times> int" where
  "civil_date n =
     (let shifted = n + 719468;
          cycle = shifted div 146097;
          dayOfCycle = shifted mod 146097;
          yearOfCycle =
            (dayOfCycle - dayOfCycle div 1460 + dayOfCycle div 36524 - dayOfCycle div 146096) div 365;
          dayOfYear = dayOfCycle - (365 * yearOfCycle + yearOfCycle div 4 - yearOfCycle div 100);
          marchMonth = (5 * dayOfYear + 2) div 153;
          dayOfMonth = dayOfYear - (153 * marchMonth + 2) div 5 + 1;
          month = (if marchMonth < 10 then marchMonth + 3 else marchMonth - 9);
          year = yearOfCycle + cycle * 400 + (if month \<le> 2 then 1 else 0)
      in (year, month, dayOfMonth))"

definition zero_padded :: "nat \<Rightarrow> int \<Rightarrow> string" where
  "zero_padded width n =
     (let digits = show_nat (nat n) in replicate (width - length digits) CHR ''0'' @ digits)"

text \<open>The date part of the ISO text of a day number, and \<^verbatim>\<open>date.toISOString().split('T')[0]\<close>.\<close>

definition day_text :: "int \<Rightarrow> string" where
  "day_text n =
     (case civil_date n of (year, month, dayOfMonth) \<Rightarrow>
        (if 0 \<le> year \<and> year \<le> 9999 then zero_padded 4 year
         else (if year < 0 then ''-'' else ''+'') @ zero_padded 6 \<bar>year\<bar>)
        @ ''-'' @ zero_padded 2 month @ ''-'' @ zero_padded 2 dayOfMonth)"

definition iso_date :: "int \<Rightarrow> string" where
  "iso_date t = day_text (t div msPerDay)"

text \<open>
  One iteration of the \<^verbatim>\<open>for\<close> loop. \<open>now\<close> is the time value of \<^verbatim>\<open>new Date()\<close>, one
  reading of the clock for the whole loop.
\<close>

definition day_bucket_of ::
  "time_zone \<Rightarrow> int \<Rightarrow> session_row list \<Rightarrow> session_row list \<Rightarrow> session_row list \<Rightarrow> session_row list
     \<Rightarrow> nat \<Rightarrow> day_bucket" where
  "day_bucket_of zone now activeRecallSessions pomodoroSessions feynmanSessions retrievalSessions i =
     (let date = setDate_back zone now i;
          dateStr = iso_date date;
          dayActiveRecall = sessions_on dateStr activeRecallSessions;
          dayPomodoro = sessions_on dateStr pomodoroSessions;
          dayFeynman = sessions_on dateStr feynmanSessions;
          dayRetrieval = sessions_on dateStr retrievalSessions
      in \<lparr>db_date = dateStr,
          db_activeRecall = dayActiveRecall,
          db_pomodoro = dayPomodoro,
          db_feynman = dayFeynman,
          db_retrievalPractice = dayRetrieval,
          db_total = dayActiveRecall + dayPomodoro + dayFeynman + dayRetrieval\<rparr>)"

text \<open>\<^verbatim>\<open>for (let i = days - 1; i >= 0; i--)\<close>.\<close>

definition timeBasedAnalysis ::
  "time_zone \<Rightarrow> int \<Rightarrow> string \<Rightarrow> session_row list \<Rightarrow> session_row list \<Rightarrow> session_row list
     \<Rightarrow> session_row list \<Rightarrow> day_bucket list" where
  "timeBasedAnalysis zone now timeRange activeRecallSessions pomodoroSessions feynmanSessions retrievalSessions =
     map (day_bucket_of zone now activeRecallSessions pomodoroSessions feynmanSessions retrievalSessions)
       (rev [0 ..< range_days timeRange])"

record effectiveness =
  ef_averageImprovement :: int
  ef_sessionCount :: nat
  ef_effectivenessRating :: string

definition analyticsByTechnique ::
  "technique_analytics_row list \<Rightarrow> (string \<times> technique_analytics_row list) list" where
  "analyticsByTechnique rows =
     foldl (\<lambda>acc item.
              AList.update (ta_session_type item)
                ((case map_of acc (ta_session_type item) of None \<Rightarrow> [] | Some xs \<Rightarrow> xs) @ [item]) acc)
       [] rows"

definition technique_effectiveness :: "technique_analytics_row list \<Rightarrow> effectiveness" where
  "technique_effectiveness sessions =
     (let performances =
            filter (\<lambda>p. p > 0)
              (map (\<lambda>s. num_or (js_number (ta_improvement_percentage s))
                          (num_or (js_number (ta_post_study_accuracy s))
                             (num_or (js_number (ta_overall_accuracy s)) 0)))
                 sessions);
          n = length performances
      in \<lparr>ef_averageImprovement = (if n > 0 then js_round (fdiv (js_sum performances) (of_nat n)) else 0),
          ef_sessionCount = length sessions,
          ef_effectivenessRating =
            (if n > 0 \<and> fdiv (js_sum performances) (of_nat n) \<ge> 70 then ''High''
             else if n > 0 \<and> fdiv (js_sum performances) (of_nat n) \<ge> 50 then ''Medium''
             else ''Low'')\<rparr>)"

definition effectivenessMetrics ::
  "technique_analytics_row list option \<Rightarrow> (string \<times> effectiveness) list" where
  "effectivenessMetrics analyticsData =
     (case analyticsData of
        None \<Rightarrow> []
      | Some rows \<Rightarrow> foldl (\<lambda>acc e. AList.update (fst e) (technique_effectiveness (snd e)) acc) []
                      (analyticsByTechnique rows))"

subsection \<open>The handler of study-techniques-detailed\<close>

record user_profile =
  up_role :: string
  up_id :: string
  up_name :: string

record course_row =
  co_id :: string
  co_title :: string
  co_description :: string
  co_status :: string
  co_created_at :: string

record enrolled_row =
  en_student_id :: string

datatype 'a response = Error_response nat string | Success 'a

text \<open>
  What the handler reads: the request header and query parameter, the result of each
  store request that is made before the guards (\<open>None\<close> is \<^verbatim>\<open>data: null\<close>), the session
  tables, the other query results, the clock and the time zone of the server. The queries
  \<^verbatim>\<open>.in('user_id', studentIds).gte('created_at', startDate.toISOString())\<close> on the session
  tables are part of the model (\<open>select_sessions\<close>); \<open>se_since\<close> is the store's
  comparison of a \<^verbatim>\<open>created_at\<close> with the start date.
\<close>

record study_env =
  se_x_user_id :: "string option"
  se_userProfile :: "user_profile option"
  se_timeRange :: "string option"
  se_instructorCourses :: "course_row list option"
  se_enrollmentError :: bool
  se_enrolledStudents :: "enrolled_row list option"
  se_since :: "string \<Rightarrow> bool"
  se_now :: int
  se_zone :: time_zone
  se_active_recall_sessions :: "session_row list option"
  se_active_recall_attempts :: "attempt_row list option"
  se_pomodoro_sessions :: "session_row list option"
  se_pomodoro_cycles :: "cycle_row list option"
  se_feynman_sessions :: "session_row list option"
  se_feynman_explanations :: "explanation_row list option"
  se_retrieval_practice_sessions :: "session_row list option"
  se_retrieval_practice_attempts :: "attempt_row list option"
  se_study_session_analytics :: "technique_analytics_row list option"

definition select_sessions ::
  "(string \<Rightarrow> bool) \<Rightarrow> string list \<Rightarrow> session_row list option \<Rightarrow> session_row list" where
  "select_sessions since studentIds table =
     (case table of
        None \<Rightarrow> []
      | Some rows \<Rightarrow> filter (\<lambda>s. sr_user_id s \<in> set studentIds \<and> since (sr_created_at s)) rows)"

text \<open>An analytics object is \<open>None\<close> where the handler answers \<^verbatim>\<open>{}\<close>.\<close>

record study_techniques_data =
  std_activeRecallAnalytics :: "active_recall_analytics option"
  std_pomodoroAnalytics :: "pomodoro_analytics option"
  std_feynmanAnalytics :: "feynman_analytics option"
  std_retrievalPracticeAnalytics :: "retrieval_practice_analytics option"
  std_techniqueComparison :: "technique_comparison list"
  std_timeBasedAnalysis :: "day_bucket list"
  std_effectivenessMetrics :: "(string \<times> effectiveness) list"

definition empty_study_techniques_data :: study_techniques_data where
  "empty_study_techniques_data =
     \<lparr>std_activeRecallAnalytics = None, std_pomodoroAnalytics = None,
      std_feynmanAnalytics = None, std_retrievalPracticeAnalytics = None,
      std_techniqueComparison = [], std_timeBasedAnalysis = [],
      std_effectivenessMetrics = []\<rparr>"

text \<open>\<^verbatim>\<open>!userId\<close>, and \<^verbatim>\<open>searchParams.get('timeRange') || 'month'\<close>.\<close>

definition falsy_string :: "string option \<Rightarrow> bool" where
  "falsy_string s = (s = None \<or> s = Some [])"

definition not_instructor :: "user_profile option \<Rightarrow> bool" where
  "not_instructor p = (case p of None \<Rightarrow> True | Some u \<Rightarrow> up_role u \<noteq> ''instructor'')"

definition no_rows :: "'a list option \<Rightarrow> bool" where
  "no_rows rows = (case rows of None \<Rightarrow> True | Some xs \<Rightarrow> length xs = 0)"

definition GET_study_techniques :: "study_env \<Rightarrow> study_techniques_data response" where
  "GET_study_techniques env =
     (if falsy_string (se_x_user_id env) then Error_response 401 ''Authentication required''
      else if not_instructor (se_userProfile env)
        then Error_response 403 ''Access denied. Instructor role required.''
      else
        (let timeRange = (case se_timeRange env of
                           None \<Rightarrow> ''month'' | Some t \<Rightarrow> if t = [] then ''month'' else t)
         in if no_rows (se_instructorCourses env) then Success empty_study_techniques_data
            else if se_enrollmentError env then Error_response 500 ''Failed to fetch students''
            else
              (let studentIds = (case se_enrolledStudents env of
                                   None \<Rightarrow> [] | Some rows \<Rightarrow> map en_student_id rows)
               in if length studentIds = 0 then Success empty_study_techniques_data
                  else
                    (let activeRecallSessions =
                           select_sessions (se_since env) studentIds (se_active_recall_sessions env);
                         pomodoroSessions =
                           select_sessions (se_since env) studentIds (se_pomodoro_sessions env);
                         feynmanSessions =
                           select_sessions (se_since env) studentIds (se_feynman_sessions env);
                         retrievalSessions =
                           select_sessions (se_since env) studentIds (se_retrieval_practice_sessions env)
                     in Success
                          \<lparr>std_activeRecallAnalytics =
                             Some (activeRecallAnalytics activeRecallSessions (se_active_recall_attempts env)),
                           std_pomodoroAnalytics =
                             Some (pomodoroAnalytics pomodoroSessions (se_pomodoro_cycles env)),
                           std_feynmanAnalytics =
                             Some (feynmanAnalytics feynmanSessions (se_feynman_explanations env)),
                           std_retrievalPracticeAnalytics =
                             Some (retrievalPracticeAnalytics retrievalSessions
                                     (se_retrieval_practice_attempts env)),
                           std_techniqueComparison =
                             techniqueComparison studentIds activeRecallSessions pomodoroSessions
                               feynmanSessions retrievalSessions,
                           std_timeBasedAnalysis =
                             timeBasedAnalysis (se_zone env) (se_now env) timeRange
                               activeRecallSessions pomodoroSessions feynmanSessions retrievalSessions,
                           std_effectivenessMetrics =
                             effectivenessMetrics (se_study_session_analytics env)\<rparr>))))"


subsection \<open>Learning patterns, content suggestions, class insights (ai-insights-detailed)\<close>

record pattern_count =
  pc_count :: nat
  pc_students :: "string list"
  pc_avgVelocity :: rat
  pc_totalVelocity :: rat
  pc_sessions :: "analytics_session list"

definition add_pattern ::
  "(string \<times> pattern_count) list \<Rightarrow> analytics_session \<Rightarrow> (string \<times> pattern_count) list" where
  "add_pattern patternCounts session =
     (case as_pattern_type session of
        None \<Rightarrow> patternCounts
      | Some pattern \<Rightarrow>
          if pattern = [] then patternCounts
          else
            (let p0 = (case map_of patternCounts pattern of
                         None \<Rightarrow> \<lparr>pc_count = 0, pc_students = [], pc_avgVelocity = 0,
                                  pc_totalVelocity = 0, pc_sessions = []\<rparr>
                       | Some p \<Rightarrow> p);
                 p1 = p0\<lparr>pc_count := pc_count p0 + 1,
                         pc_students := set_add (as_user_id session) (pc_students p0),
                         pc_sessions := pc_sessions p0 @ [session]\<rparr>;
                 p2 = p1\<lparr>pc_totalVelocity :=
                         fadd (pc_totalVelocity p1) (num_or (js_number (as_learning_velocity session)) 0)\<rparr>
             in AList.update pattern p2 patternCounts))"

definition getPatternDescription :: "string \<Rightarrow> string" where
  "getPatternDescription pattern =
     (case map_of
        [(''strugglingConcepts'', ''Students are having difficulty with specific concepts and may need additional support''),
         (''steadyProgression'', ''Students are making consistent progress through the material''),
         (''rapidLearning'', ''Students are learning quickly and may benefit from advanced content''),
         (''inconsistentPerformance'', ''Student performance varies significantly between sessions'')]
        pattern of
        Some d \<Rightarrow> d
      | None \<Rightarrow> ''Specific learning pattern identified requiring attention'')"

definition getTeachingSuggestionForPattern :: "string \<Rightarrow> rat \<Rightarrow> string" where
  "getTeachingSuggestionForPattern pattern velocity =
     (case map_of
        [(''strugglingConcepts'', ''Consider providing additional scaffolding, breaking down complex concepts, or implementing peer tutoring''),
         (''steadyProgression'', ''Continue current teaching methods while monitoring for any changes in pace''),
         (''rapidLearning'', ''Provide enrichment activities or accelerated content to maintain engagement''),
         (''inconsistentPerformance'', ''Investigate external factors and consider more frequent check-ins with affected students'')]
        pattern of
        Some d \<Rightarrow> d
      | None \<Rightarrow> ''Monitor closely and adjust teaching strategies as needed'')"

definition getFeedbackDescription :: "string \<Rightarrow> string" where
  "getFeedbackDescription type =
     (case map_of
        [(''clarity'', ''Students need clearer explanations and simpler language in their learning materials''),
         (''completeness'', ''Learning materials may need more comprehensive coverage of topics''),
         (''accuracy'', ''Focus on fact-checking and ensuring accurate information in explanations''),
         (''simplification'', ''Content should be presented in more digestible, simplified formats''),
         (''examples'', ''More practical examples and real-world applications needed'')]
        type of
        Some d \<Rightarrow> d
      | None \<Rightarrow> ''Improvement needed in this area of content delivery'')"

record pattern_insight =
  pi_pattern :: string
  pi_frequency :: nat
  pi_studentsAffected :: nat
  pi_averageVelocity :: rat
  pi_description :: string
  pi_teachingSuggestion :: string
  pi_impact :: severity

definition pattern_insight_of :: "string \<times> pattern_count \<Rightarrow> pattern_insight" where
  "pattern_insight_of e =
     (let pattern = fst e; d = snd e;
          avgVelocity = (if pc_count d > 0 then fdiv (pc_totalVelocity d) (of_nat (pc_count d)) else 0)
      in \<lparr>pi_pattern = pattern,
          pi_frequency = pc_count d,
          pi_studentsAffected = length (pc_students d),
          pi_averageVelocity = fdiv (of_int (js_round (fmul avgVelocity 100))) 100,
          pi_description = getPatternDescription pattern,
          pi_teachingSuggestion = getTeachingSuggestionForPattern pattern avgVelocity,
          pi_impact = (if length (pc_students d) \<ge> 3 then high
                       else if length (pc_students d) = 2 then medium else low)\<rparr>)"

definition learningPatternInsights :: "analytics_session list \<Rightarrow> pattern_insight list" where
  "learningPatternInsights analyticsData = map pattern_insight_of (foldl add_pattern [] analyticsData)"

text \<open>
  A row of \<^verbatim>\<open>feynman_feedback\<close>. The priority is a nullable column, and
  \<^verbatim>\<open>null <= 2\<close> is true. A severity outside the four known ones makes a \<^verbatim>\<open>NaN\<close> entry,
  here \<open>None\<close>.
\<close>

record feedback_row =
  fb_feedback_type :: string
  fb_suggested_improvement :: "string option"
  fb_severity :: "string option"
  fb_priority :: "int option"

record feedback_analysis =
  fa_count :: nat
  fa_highPriority :: nat
  fa_suggestions :: "string list"
  fa_severityBreakdown :: "(string \<times> nat option) list"

definition add_feedback ::
  "(string \<times> feedback_analysis) list \<Rightarrow> feedback_row \<Rightarrow> (string \<times> feedback_analysis) list" where
  "add_feedback feedbackAnalysis feedback =
     (let type = fb_feedback_type feedback;
          a0 = (case map_of feedbackAnalysis type of
                  None \<Rightarrow> \<lparr>fa_count = 0, fa_highPriority = 0, fa_suggestions = [],
                           fa_severityBreakdown =
                             [(''low'', Some 0), (''medium'', Some 0), (''high'', Some 0), (''critical'', Some 0)]\<rparr>
                | Some a \<Rightarrow> a);
          a1 = a0\<lparr>fa_count := fa_count a0 + 1\<rparr>;
          a2 = (if (case fb_priority feedback of None \<Rightarrow> True | Some p \<Rightarrow> p \<le> 2)
                then a1\<lparr>fa_highPriority := fa_highPriority a1 + 1\<rparr> else a1);
          a3 = (case fb_suggested_improvement feedback of
                  None \<Rightarrow> a2
                | Some t \<Rightarrow> if t = [] then a2 else a2\<lparr>fa_suggestions := set_add t (fa_suggestions a2)\<rparr>);
          sev = (case fb_severity feedback of None \<Rightarrow> ''medium'' | Some t \<Rightarrow> if t = [] then ''medium'' else t);
          a4 = a3\<lparr>fa_severityBreakdown :=
                    AList.update sev
                      (case map_of (fa_severityBreakdown a3) sev of
                         Some (Some n) \<Rightarrow> Some (n + 1) | _ \<Rightarrow> None)
                      (fa_severityBreakdown a3)\<rparr>
      in AList.update type a4 feedbackAnalysis)"

record content_suggestion =
  cs_area :: string
  cs_frequency :: nat
  cs_priority :: severity
  cs_suggestions :: "string list"
  cs_description :: string
  cs_impact :: severity
  cs_severityBreakdown :: "(string \<times> nat option) list"

definition content_suggestion_of :: "string \<times> feedback_analysis \<Rightarrow> content_suggestion option" where
  "content_suggestion_of e =
     (let type = fst e; d = snd e in
      if fa_count d \<ge> 2 then
        Some \<lparr>cs_area = type,
              cs_frequency = fa_count d,
              cs_priority = (if of_nat (fa_highPriority d) \<ge> fmul (of_nat (fa_count d)) (1 / 2)
                             then high else medium),
              cs_suggestions = take 3 (fa_suggestions d),
              cs_description = getFeedbackDescription type,
              cs_impact = (if fa_count d \<ge> 5 then high else if fa_count d \<ge> 3 then medium else low),
              cs_severityBreakdown = fa_severityBreakdown d\<rparr>
      else None)"

definition contentOptimizationSuggestions :: "feedback_row list option \<Rightarrow> content_suggestion list" where
  "contentOptimizationSuggestions feynmanFeedback =
     List.map_filter content_suggestion_of
       (foldl add_feedback [] (case feynmanFeedback of None \<Rightarrow> [] | Some rows \<Rightarrow> rows))"

record class_insight =
  ci_type :: string
  ci_title :: string
  ci_insight :: string
  ci_averageImprovement :: int
  ci_improvementRate :: int
  ci_studentsAnalyzed :: nat
  ci_trend :: string

definition classPerformanceInsights :: "analytics_session list \<Rightarrow> class_insight list" where
  "classPerformanceInsights analyticsData =
     (let overallPerformances =
            filter (\<lambda>p. p \<noteq> 0)
              (map (\<lambda>s. num_or (js_number (as_improvement_percentage s)) 0) analyticsData)
      in if length overallPerformances > 0 then
           (let avgImprovement = fdiv (js_sum overallPerformances) (of_nat (length overallPerformances));
                positiveImprovements = length (filter (\<lambda>p. p > 0) overallPerformances);
                improvementRate =
                  fmul (fdiv (of_nat positiveImprovements) (of_nat (length overallPerformances))) 100
            in [\<lparr>ci_type = ''overall_performance'',
                  ci_title = ''Class Learning Progress'',
                  ci_insight =
                    show_int (js_round improvementRate)
                    @ ''% of students show positive learning improvements with an average improvement of ''
                    @ show_int (js_round avgImprovement) @ ''%'',
                  ci_averageImprovement = js_round avgImprovement,
                  ci_improvementRate = js_round improvementRate,
                  ci_studentsAnalyzed = length (remdups (map as_user_id analyticsData)),
                  ci_trend = (if avgImprovement > 10 then ''positive''
                              else if avgImprovement < - 10 then ''concerning'' else ''stable'')\<rparr>])
         else [])"

subsection \<open>The handler of ai-insights-detailed\<close>

text \<open>
  What the handler reads: the header, the results of the store requests (\<open>None\<close> is
  \<^verbatim>\<open>data: null\<close>), with the analytics rows in the order the store returns them.
\<close>

record insights_env =
  ie_x_user_id :: "string option"
  ie_userProfile :: "user_profile option"
  ie_instructorCourses :: "course_row list option"
  ie_enrollmentError :: bool
  ie_enrolledStudents :: "enrolled_row list option"
  ie_analyticsData :: "analytics_session list option"
  ie_studentsInfo :: "student_info list option"
  ie_moduleProgressData :: "module_progress list option"
  ie_feynmanFeedback :: "feedback_row list option"

record insights_data =
  id_teachingRecommendations :: "teaching_recommendation list"
  id_studentInterventions :: "student_intervention list"
  id_learningPatternInsights :: "pattern_insight list"
  id_performanceAlerts :: "performance_alert list"
  id_contentOptimizationSuggestions :: "content_suggestion list"
  id_studyPlanRecommendations :: "unit list"
  id_classPerformanceInsights :: "class_insight list"

definition empty_insights_data :: insights_data where
  "empty_insights_data =
     \<lparr>id_teachingRecommendations = [], id_studentInterventions = [],
      id_learningPatternInsights = [], id_performanceAlerts = [],
      id_contentOptimizationSuggestions = [], id_studyPlanRecommendations = [],
      id_classPerformanceInsights = []\<rparr>"

definition GET_ai_insights :: "insights_env \<Rightarrow> insights_data response" where
  "GET_ai_insights env =
     (if falsy_string (ie_x_user_id env) then Error_response 401 ''Authentication required''
      else if not_instructor (ie_userProfile env)
        then Error_response 403 ''Access denied. Instructor role required.''
      else if no_rows (ie_instructorCourses env) then Success empty_insights_data
      else if ie_enrollmentError env then Error_response 500 ''Failed to fetch students''
      else
        (let studentIds = (case ie_enrolledStudents env of
                             None \<Rightarrow> [] | Some rows \<Rightarrow> map en_student_id rows)
         in if length studentIds = 0 then Success empty_insights_data
            else
              (case ie_analyticsData env of
                 None \<Rightarrow> Success empty_insights_data
               | Some analyticsData \<Rightarrow>
                   if length analyticsData = 0 then Success empty_insights_data
                   else
                     Success
                       \<lparr>id_teachingRecommendations =
                          take 10 (teachingRecommendations analyticsData (ie_studentsInfo env)),
                        id_studentInterventions =
                          take 15 (studentInterventions analyticsData (ie_studentsInfo env)),
                        id_learningPatternInsights = take 8 (learningPatternInsights analyticsData),
                        id_performanceAlerts = take 10 (performanceAlerts (ie_moduleProgressData env)),
                        id_contentOptimizationSuggestions =
                          take 8 (contentOptimizationSuggestions (ie_feynmanFeedback env)),
                        id_studyPlanRecommendations = [],
                        id_classPerformanceInsights = classPerformanceInsights analyticsData\<rparr>)))"


subsection \<open>Report assembler (export-report, courseAnalysis)\<close>

record export_module =
  em_id :: string
  em_title :: string
  em_description :: string
  em_course_id :: string
  em_order_index :: int
  em_passing_threshold :: rat
  em_available_techniques :: "string list"

record export_material =
  mat_id :: string
  mat_title :: string
  mat_file_type :: string
  mat_file_size :: nat
  mat_created_at :: string
  mat_module_id :: string

record export_progress =
  ep_user_id :: string
  ep_module_id :: string
  ep_best_score :: "rat option"
  ep_status :: string
  ep_passed :: bool
  ep_needs_remedial :: bool

record export_session =
  es_id :: string
  es_user_id :: string
  es_module_id :: string
  es_created_at :: string
  es_status :: string
  es_session_type :: string

record material_out =
  mo_id :: string
  mo_title :: string
  mo_fileType :: string
  mo_fileSize :: nat
  mo_createdAt :: string

text \<open>An aggregate is \<open>None\<close> where the JavaScript value would not be a finite number.\<close>

record module_analysis =
  ma_id :: string
  ma_title :: string
  ma_description :: string
  ma_orderIndex :: int
  ma_passingThreshold :: rat
  ma_availableTechniques :: "string list"
  ma_totalStudents :: nat
  ma_completedStudents :: nat
  ma_averageScore :: "int option"
  ma_totalSessions :: nat
  ma_totalMaterials :: nat
  ma_needRemedial :: nat
  ma_sessionsByType :: "(string \<times> nat) list"
  ma_materials :: "material_out list"

text \<open>\<^verbatim>\<open>Math.round(ps.reduce((sum, p) => sum + parseFloat(p.best_score || '0'), 0) / ps.length)\<close>.\<close>

definition mean_best_score :: "export_progress list \<Rightarrow> int option" where
  "mean_best_score ps =
     map_option js_round
       (js_div (foldl (\<lambda>sum p. fadd sum (num_or (js_number (ep_best_score p)) 0)) 0 ps) (of_nat (length ps)))"

definition sessions_of_type :: "string \<Rightarrow> export_session list \<Rightarrow> nat" where
  "sessions_of_type t sessions = length (filter (\<lambda>s. es_session_type s = t) sessions)"

definition module_analysis_of ::
  "export_progress list \<Rightarrow> export_session list \<Rightarrow> export_material list \<Rightarrow> export_module \<Rightarrow> module_analysis" where
  "module_analysis_of courseProgress courseSessions courseMats modul =
     (let moduleProgress = filter (\<lambda>p. ep_module_id p = em_id modul) courseProgress;
          moduleSessions = filter (\<lambda>s. es_module_id s = em_id modul) courseSessions;
          moduleMaterials = filter (\<lambda>m. mat_module_id m = em_id modul) courseMats
      in \<lparr>ma_id = em_id modul,
          ma_title = em_title modul,
          ma_description = em_description modul,
          ma_orderIndex = em_order_index modul,
          ma_passingThreshold = em_passing_threshold modul,
          ma_availableTechniques = em_available_techniques modul,
          ma_totalStudents = length moduleProgress,
          ma_completedStudents =
            length (filter (\<lambda>p. ep_status p = ''completed'' \<or> ep_passed p) moduleProgress),
          ma_averageScore = (if length moduleProgress > 0 then mean_best_score moduleProgress else Some 0),
          ma_totalSessions = length moduleSessions,
          ma_totalMaterials = length moduleMaterials,
          ma_needRemedial = length (filter ep_needs_remedial moduleProgress),
          ma_sessionsByType =
            [(''active_recall'', sessions_of_type ''active_recall'' moduleSessions),
             (''pomodoro'', sessions_of_type ''pomodoro'' moduleSessions),
             (''feynman'', sessions_of_type ''feynman'' moduleSessions),
             (''retrieval_practice'', sessions_of_type ''retrieval_practice'' moduleSessions)],
          ma_materials =
            map (\<lambda>mat. \<lparr>mo_id = mat_id mat, mo_title = mat_title mat, mo_fileType = mat_file_type mat,
                         mo_fileSize = mat_file_size mat, mo_createdAt = mat_created_at mat\<rparr>)
              moduleMaterials\<rparr>)"

text \<open>The \<^verbatim>\<open>modules\<close> field of a course: the array, or its length.\<close>

datatype modules_field = Module_count nat | Module_array "module_analysis list"

record course_analysis =
  ca_id :: string
  ca_title :: string
  ca_description :: string
  ca_status :: string
  ca_createdAt :: string
  ca_totalModules :: nat
  ca_totalMaterials :: nat
  ca_totalStudents :: nat
  ca_totalSessions :: nat
  ca_averageScore :: "int option"
  ca_completionRate :: "int option"
  ca_modules :: modules_field

text \<open>
  The function mapped over \<^verbatim>\<open>instructorCourses\<close>. \<open>includeDetails\<close> is the truthiness of
  the request field; a query result that is \<^verbatim>\<open>null\<close> counts as no rows
  (\<^verbatim>\<open>modules?.filter(...) || []\<close>).
\<close>

definition course_analysis_of ::
  "bool \<Rightarrow> export_module list option \<Rightarrow> export_material list option \<Rightarrow> export_progress list option
     \<Rightarrow> export_session list \<Rightarrow> course_row \<Rightarrow> course_analysis" where
  "course_analysis_of includeDetails modules courseMaterials userProgress allSessions course =
     (let courseModules = (case modules of None \<Rightarrow> []
                           | Some ms \<Rightarrow> filter (\<lambda>m. em_course_id m = co_id course) ms);
          courseMats = (case courseMaterials of None \<Rightarrow> []
                        | Some ms \<Rightarrow> filter (\<lambda>m. \<exists>m2 \<in> set courseModules. em_id m2 = mat_module_id m) ms);
          courseProgress = (case userProgress of None \<Rightarrow> []
                            | Some ps \<Rightarrow> filter (\<lambda>p. \<exists>m \<in> set courseModules. em_id m = ep_module_id p) ps);
          courseSessions = filter (\<lambda>s. \<exists>m \<in> set courseModules. em_id m = es_module_id s) allSessions;
          moduleAnalysis = map (module_analysis_of courseProgress courseSessions courseMats) courseModules
      in \<lparr>ca_id = co_id course,
          ca_title = co_title course,
          ca_description = co_description course,
          ca_status = co_status course,
          ca_createdAt = co_created_at course,
          ca_totalModules = length courseModules,
          ca_totalMaterials = length courseMats,
          ca_totalStudents = length (remdups (map ep_user_id courseProgress)),
          ca_totalSessions = length courseSessions,
          ca_averageScore = (if length courseProgress > 0 then mean_best_score courseProgress else Some 0),
          ca_completionRate =
            (if length courseProgress > 0
             then map_option (\<lambda>q. js_round (fmul q 100))
                    (js_div (of_nat (length (filter ep_passed courseProgress)))
                            (of_nat (length courseProgress)))
             else Some 0),
          ca_modules = (if includeDetails then Module_array moduleAnalysis
                        else Module_count (length moduleAnalysis))\<rparr>)"

definition courseAnalysis ::
  "bool \<Rightarrow> course_row list \<Rightarrow> export_module list option \<Rightarrow> export_material list option
     \<Rightarrow> export_progress list option \<Rightarrow> export_session list \<Rightarrow> course_analysis list" where
  "courseAnalysis includeDetails instructorCourses modules courseMaterials userProgress allSessions =
     map (course_analysis_of includeDetails modules courseMaterials userProgress allSessions)
       instructorCourses"

subsection \<open>The rules as the specification words them\<close>

text \<open>
  The alert rule of the specification: the thresholds in order, first match wins, no
  alert otherwise.
\<close>

definition alert_rule :: "rat \<Rightarrow> rat \<Rightarrow> rat \<Rightarrow> (alert_type \<times> severity) option" where
  "alert_rule fRate rRate avg =
     (if fRate \<ge> 30 then Some (critical, high)
      else if rRate \<ge> 40 then Some (warning, medium)
      else if avg < 70 then Some (info, low)
      else None)"

text \<open>
  The ranking of the specification: ascending priority, ties broken by descending
  frequency.
\<close>

definition ranks_before :: "teaching_recommendation \<Rightarrow> teaching_recommendation \<Rightarrow> bool" where
  "ranks_before a b =
     (tr_priority a < tr_priority b \<or> (tr_priority a = tr_priority b \<and> tr_frequency b \<le> tr_frequency a))"

text \<open>
  The occurrences of recommendation objects in the analytics rows, each with the id of
  the student whose row carries it, in the order in which the handler visits them; and
  those of one dictionary key.
\<close>

definition occurrences :: "analytics_session list \<Rightarrow> (string \<times> recommendation) list" where
  "occurrences analyticsData =
     concat (map (\<lambda>s. case as_recommendations s of
                          None \<Rightarrow> [] | Some recs \<Rightarrow> map (Pair (as_user_id s)) recs) analyticsData)"

definition key_occurrences :: "string \<Rightarrow> (string \<times> recommendation) list \<Rightarrow> (string \<times> recommendation) list" where
  "key_occurrences k occs = filter (\<lambda>oc. rec_key (snd oc) = k) occs"

text \<open>
  The confidence as the specification words it: the arithmetic mean of the scores, with
  0.7 where a score is absent. \<open>double_mean_confidence\<close> is that mean taken in double
  arithmetic, the scores read as doubles and added from the left, and
  \<open>used_confidence\<close> is the summand of the handler, which also replaces a score of 0.
\<close>

definition specified_confidence :: "recommendation list \<Rightarrow> rat" where
  "specified_confidence recs =
     sum_list (map (\<lambda>r. case rec_confidence_score r of None \<Rightarrow> 7 / 10 | Some c \<Rightarrow> c) recs)
       / of_nat (length recs)"

definition double_mean_confidence :: "recommendation list \<Rightarrow> rat" where
  "double_mean_confidence recs =
     fdiv (foldl fadd 0
             (map (\<lambda>r. case rec_confidence_score r of None \<Rightarrow> to_double (7 / 10)
                        | Some c \<Rightarrow> to_double c) recs))
       (of_nat (length recs))"

definition used_confidence :: "recommendation \<Rightarrow> rat" where
  "used_confidence r = num_or (js_number (rec_confidence_score r)) (to_double (7 / 10))"

definition mean_used_confidence :: "(string \<times> recommendation) list \<Rightarrow> rat" where
  "mean_used_confidence occs = fdiv (js_sum (map (used_confidence \<circ> snd) occs)) (of_nat (length occs))"

definition tr_key :: "teaching_recommendation \<Rightarrow> string" where
  "tr_key t = tr_type t @ ''-'' @ tr_title t"

text \<open>
  What a dictionary entry of \<^verbatim>\<open>recommendationCounts\<close> holds once the occurrences \<open>occs\<close>
  of its key have been merged into it.
\<close>

definition group_matches :: "rec_group \<Rightarrow> (string \<times> recommendation) list \<Rightarrow> bool" where
  "group_matches g occs =
     (occs \<noteq> [] \<and>
      rg_type g = rec_type (snd (hd occs)) \<and>
      rg_title g = rec_title (snd (hd occs)) \<and>
      rg_priority g = num_or (rec_priority (snd (hd occs))) 1 \<and>
      rg_frequency g = length occs \<and>
      rg_totalConfidence g = js_sum (map (used_confidence \<circ> snd) occs) \<and>
      rg_avgConfidence g = 0 \<and>
      set (rg_affectedStudents g) = fst ` set occs \<and>
      distinct (rg_affectedStudents g))"

definition groups_inv :: "(string \<times> rec_group) list \<Rightarrow> (string \<times> recommendation) list \<Rightarrow> bool" where
  "groups_inv m occs =
     (distinct (map fst m) \<and>
      (\<forall>k. case map_of m k of
             None \<Rightarrow> key_occurrences k occs = []
           | Some g \<Rightarrow> group_matches g (key_occurrences k occs)))"

definition add_occurrence ::
  "(string \<times> rec_group) list \<Rightarrow> string \<times> recommendation \<Rightarrow> (string \<times> rec_group) list" where
  "add_occurrence m oc = add_recommendation (fst oc) m (snd oc)"

text \<open>The request passes every guard of the handler, so the insights are computed.\<close>

definition insights_computed :: "insights_env \<Rightarrow> bool" where
  "insights_computed env =
     (\<not> falsy_string (ie_x_user_id env) \<and> \<not> not_instructor (ie_userProfile env) \<and>
      \<not> no_rows (ie_instructorCourses env) \<and> \<not> ie_enrollmentError env \<and>
      \<not> no_rows (ie_enrolledStudents env) \<and> \<not> no_rows (ie_analyticsData env))"

text \<open>
  The intervention rule of the specification, on the two issue counts and the trend, and
  the fixed priority order of the levels.
\<close>

definition level_rule :: "nat \<Rightarrow> nat \<Rightarrow> rat \<Rightarrow> intervention_level" where
  "level_rule criticalIssues highPriorityIssues trend =
     (if criticalIssues > 0 then level_urgent
      else if highPriorityIssues \<ge> 3 then level_high
      else if trend < - 20 then level_medium
      else level_none)"



text \<open>
  The analytics rows of one student in the order of the query result, which is by
  descending \<^verbatim>\<open>analyzed_at\<close>, the recommendation objects they carry, and the issue counts
  of the specification (priority at most 2, priority equal to 1). The trend is taken over
  the non-zero improvement percentages of those rows, read as doubles: when there are two
  or more, that of the last row minus that of the first row, one double subtraction; else
  0. The last row of the query result is the one analyzed first.
\<close>

definition student_sessions :: "string \<Rightarrow> analytics_session list \<Rightarrow> analytics_session list" where
  "student_sessions u analyticsData = filter (\<lambda>s. as_user_id s = u) analyticsData"

definition session_recs :: "analytics_session list \<Rightarrow> recommendation list" where
  "session_recs ss = concat (map (\<lambda>s. case as_recommendations s of None \<Rightarrow> [] | Some rs \<Rightarrow> rs) ss)"

definition critical_issues :: "analytics_session list \<Rightarrow> nat" where
  "critical_issues ss = length (filter (\<lambda>r. rec_priority r = Some 1) (session_recs ss))"

definition high_priority_issues :: "analytics_session list \<Rightarrow> nat" where
  "high_priority_issues ss = length (filter high_priority (session_recs ss))"

definition trend_of :: "analytics_session list \<Rightarrow> rat" where
  "trend_of ss =
     (let samples = filter (\<lambda>p. p \<noteq> 0)
                      (map (\<lambda>s. case as_improvement_percentage s of None \<Rightarrow> 0 | Some p \<Rightarrow> to_double p) ss)
      in if length samples \<ge> 2 then to_double (last samples - hd samples) else 0)"

definition analytics_matches :: "student_analytics \<Rightarrow> analytics_session list \<Rightarrow> bool" where
  "analytics_matches d ss =
     (ss \<noteq> [] \<and> sa_sessions d = ss \<and>
      sa_totalRecommendations d = length (session_recs ss) \<and>
      sa_highPriorityIssues d = high_priority_issues ss \<and>
      sa_criticalIssues d = critical_issues ss \<and>
      sa_improvementTrend d = 0)"

definition analytics_inv :: "(string \<times> student_analytics) list \<Rightarrow> analytics_session list \<Rightarrow> bool" where
  "analytics_inv m analyticsData =
     (distinct (map fst m) \<and>
      (\<forall>u. case map_of m u of
             None \<Rightarrow> student_sessions u analyticsData = []
           | Some d \<Rightarrow> analytics_matches d (student_sessions u analyticsData)))"

text \<open>The rows of the separately fetched student information.\<close>

definition fetched_students :: "student_info list option \<Rightarrow> student_info list" where
  "fetched_students studentsInfo = (case studentsInfo of None \<Rightarrow> [] | Some rows \<Rightarrow> rows)"

text \<open>
  The caller is an authenticated instructor with at least one course and the request for
  the enrolled students did not fail: the guards before the student set is looked at.
\<close>

definition study_guards_pass :: "study_env \<Rightarrow> bool" where
  "study_guards_pass env =
     (\<not> falsy_string (se_x_user_id env) \<and> \<not> not_instructor (se_userProfile env) \<and>
      \<not> no_rows (se_instructorCourses env) \<and> \<not> se_enrollmentError env)"

definition insights_guards_pass :: "insights_env \<Rightarrow> bool" where
  "insights_guards_pass env =
     (\<not> falsy_string (ie_x_user_id env) \<and> \<not> not_instructor (ie_userProfile env) \<and>
      \<not> no_rows (ie_instructorCourses env) \<and> \<not> ie_enrollmentError env)"

text \<open>
  The enrolled student ids; the sessions of a technique that count, which are the rows of
  its table from enrolled students in the time window; their distinct users; and the
  adoption rate, first as the specification words it,
  \<^verbatim>\<open>round(100 * distinctUsers / max(totalEnrolled, 1))\<close>, then with the quotient taken
  first and the quotient and the product each rounded to a double.
\<close>

definition enrolled_ids :: "study_env \<Rightarrow> string list" where
  "enrolled_ids env = (case se_enrolledStudents env of None \<Rightarrow> [] | Some rows \<Rightarrow> map en_student_id rows)"

definition technique_table :: "study_env \<Rightarrow> string \<Rightarrow> session_row list" where
  "technique_table env name =
     (case (if name = ''Active Recall'' then se_active_recall_sessions env
            else if name = ''Pomodoro'' then se_pomodoro_sessions env
            else if name = ''Feynman'' then se_feynman_sessions env
            else se_retrieval_practice_sessions env) of
        None \<Rightarrow> [] | Some rows \<Rightarrow> rows)"

definition technique_sessions :: "study_env \<Rightarrow> string \<Rightarrow> session_row list" where
  "technique_sessions env name =
     filter (\<lambda>s. sr_user_id s \<in> set (enrolled_ids env) \<and> se_since env (sr_created_at s))
       (technique_table env name)"

definition distinct_users :: "session_row list \<Rightarrow> nat" where
  "distinct_users sessions = card (sr_user_id ` set sessions)"

definition specified_adoption :: "nat \<Rightarrow> nat \<Rightarrow> int" where
  "specified_adoption users enrolled = js_round (100 * of_nat users / of_nat (max enrolled 1))"

definition double_adoption :: "nat \<Rightarrow> nat \<Rightarrow> int" where
  "double_adoption users enrolled =
     js_round (to_double (to_double (of_nat users / of_nat (max enrolled 1)) * 100))"

definition double_sessions_per_user :: "nat \<Rightarrow> nat \<Rightarrow> int" where
  "double_sessions_per_user sessions users =
     (if users = 0 then 0 else js_round (to_double (of_nat sessions / of_nat users)))"

text \<open>
  The dates of the specification's window: the calendar days from \<open>today - (days - 1)\<close> to
  \<open>today\<close>, one each, in order, for a day number \<open>today\<close>.
\<close>

definition window_days :: "int \<Rightarrow> nat \<Rightarrow> string list" where
  "window_days today days = map day_text [today - (int days - 1) .. today]"

text \<open>The number of enrolled student ids, and the range token after the default.\<close>

definition total_enrolled :: "study_env \<Rightarrow> nat" where
  "total_enrolled env = (case se_enrolledStudents env of None \<Rightarrow> 0 | Some rows \<Rightarrow> length rows)"

definition resolved_range :: "study_env \<Rightarrow> string" where
  "resolved_range env =
     (case se_timeRange env of None \<Rightarrow> ''month'' | Some t \<Rightarrow> if t = [] then ''month'' else t)"

text \<open>
  The progress rows of a course, the denominator of its aggregates: the rows whose module
  is a module of the course.
\<close>

definition course_progress ::
  "export_module list option \<Rightarrow> export_progress list option \<Rightarrow> course_row \<Rightarrow> export_progress list" where
  "course_progress modules userProgress course =
     (case userProgress of
        None \<Rightarrow> []
      | Some ps \<Rightarrow>
          filter (\<lambda>p. \<exists>m \<in> set (case modules of None \<Rightarrow> []
                                     | Some ms \<Rightarrow> filter (\<lambda>m. em_course_id m = co_id course) ms).
                         em_id m = ep_module_id p) ps)"

text \<open>
  The occurrences of one pair of type and title, and the priority as the specification
  words its default. Two conditions on one pair keep the handler's shortcuts out of
  sight: the dictionary key of the pair is the key of no occurrence of another pair, and
  none of the given occurrences has a score that reads as 0 (which \<^verbatim>\<open>||\<close> would replace).
\<close>

definition pair_occurrences ::
  "string \<Rightarrow> string \<Rightarrow> (string \<times> recommendation) list \<Rightarrow> (string \<times> recommendation) list" where
  "pair_occurrences ty ti occs = filter (\<lambda>oc. rec_type (snd oc) = ty \<and> rec_title (snd oc) = ti) occs"

definition specified_priority :: "recommendation \<Rightarrow> int" where
  "specified_priority r = (case rec_priority r of None \<Rightarrow> 3 | Some p \<Rightarrow> p)"

definition key_unshared :: "string \<Rightarrow> string \<Rightarrow> (string \<times> recommendation) list \<Rightarrow> bool" where
  "key_unshared ty ti occs =
     list_all (\<lambda>oc. rec_key (snd oc) = ty @ ''-'' @ ti \<longrightarrow> rec_type (snd oc) = ty \<and> rec_title (snd oc) = ti)
       occs"

definition no_zero_score :: "(string \<times> recommendation) list \<Rightarrow> bool" where
  "no_zero_score occs = list_all (\<lambda>oc. js_number (rec_confidence_score (snd oc)) \<noteq> Some 0) occs"

text \<open>
  The progress rows of one module and the score read from a row
  (\<^verbatim>\<open>parseFloat(mp.best_score || '0')\<close>, a double). The failing rows have a positive score
  below 60; the remedial count adds the rows with a score from 60 to below 70 to the rows
  flagged as needing remedial work. A rate is a count as a percentage of the rows, the
  quotient and the product each a double; the average is over the positive scores, added
  from the left as doubles, and 0 when there is none.
\<close>

definition progress_rows :: "module_progress list option \<Rightarrow> module_progress list" where
  "progress_rows moduleProgressData = (case moduleProgressData of None \<Rightarrow> [] | Some rows \<Rightarrow> rows)"

definition module_rows :: "string \<Rightarrow> module_progress list \<Rightarrow> module_progress list" where
  "module_rows m rows = filter (\<lambda>r. mp_module_id r = m) rows"

definition row_score :: "module_progress \<Rightarrow> rat" where
  "row_score r = (case mp_best_score r of None \<Rightarrow> 0 | Some s \<Rightarrow> to_double s)"

definition failing_count :: "module_progress list \<Rightarrow> nat" where
  "failing_count rs = length (filter (\<lambda>r. 0 < row_score r \<and> row_score r < 60) rs)"

definition remedial_count :: "module_progress list \<Rightarrow> nat" where
  "remedial_count rs =
     length (filter (\<lambda>r. 60 \<le> row_score r \<and> row_score r < 70) rs) + length (filter mp_needs_remedial rs)"

definition percent_of_rows :: "nat \<Rightarrow> module_progress list \<Rightarrow> rat" where
  "percent_of_rows k rs = to_double (to_double (of_nat k / of_nat (length rs)) * 100)"

definition positive_scores :: "module_progress list \<Rightarrow> rat list" where
  "positive_scores rs = filter (\<lambda>s. 0 < s) (map row_score rs)"

definition mean_positive_score :: "module_progress list \<Rightarrow> rat" where
  "mean_positive_score rs =
     (if positive_scores rs = [] then 0
      else to_double (foldl (\<lambda>sum s. to_double (sum + s)) 0 (positive_scores rs)
                      / of_nat (length (positive_scores rs))))"

text \<open>
  What the entry of a module in the performance map holds once its rows have been added.
\<close>

definition perf_matches :: "module_perf \<Rightarrow> module_progress list \<Rightarrow> bool" where
  "perf_matches d rs =
     (rs \<noteq> [] \<and>
      md_title d = mp_modules_title (hd rs) \<and>
      md_totalStudents d = length rs \<and>
      md_scores d = positive_scores rs \<and>
      md_failing d = failing_count rs \<and>
      md_needsRemedial d = remedial_count rs)"

definition perf_inv :: "(string \<times> module_perf) list \<Rightarrow> module_progress list \<Rightarrow> bool" where
  "perf_inv m rows =
     (distinct (map fst m) \<and>
      (\<forall>k. case map_of m k of
             None \<Rightarrow> module_rows k rows = []
           | Some d \<Rightarrow> perf_matches d (module_rows k rows)))"

subsection \<open>Example inputs\<close>

definition example_progress :: "string \<Rightarrow> rat \<Rightarrow> module_progress" where
  "example_progress m s = \<lparr>mp_user_id = ''u'', mp_module_id = m, mp_best_score = Some s,
     mp_status = ''in_progress'', mp_needs_remedial = False, mp_modules_title = ''Algebra'',
     mp_modules_course_id = ''c1''\<rparr>"

text \<open>
  The rows of four modules. Module \<open>m1\<close> has twenty rows: seven scores below 60, ten
  between 60 and 70, three above. Module \<open>m2\<close> has ten rows: two below 60, four between
  60 and 70, four above. Module \<open>m3\<close> has the scores 60.3, 70.1 and 79.6, and module
  \<open>m4\<close> has 80 and 90.
\<close>

definition example_alert_rows :: "module_progress list" where
  "example_alert_rows =
     replicate 7 (example_progress ''m1'' 50) @ replicate 10 (example_progress ''m1'' 65)
     @ replicate 3 (example_progress ''m1'' 90)
     @ replicate 2 (example_progress ''m2'' 50) @ replicate 4 (example_progress ''m2'' 65)
     @ replicate 4 (example_progress ''m2'' 90)
     @ [example_progress ''m3'' (603 / 10), example_progress ''m3'' (701 / 10),
        example_progress ''m3'' (796 / 10)]
     @ [example_progress ''m4'' 80, example_progress ''m4'' 90]"

definition example_rec :: "string \<Rightarrow> string \<Rightarrow> int option \<Rightarrow> rat option \<Rightarrow> recommendation" where
  "example_rec ty ti p c =
     \<lparr>rec_type = ty, rec_title = ti, rec_description = ''Students rush through the material'',
      rec_actionable_advice = Some ''Schedule a review session'', rec_actionableAdvice = None,
      rec_priority = p, rec_confidence_score = c\<rparr>"

definition example_session :: "string \<Rightarrow> recommendation list \<Rightarrow> analytics_session" where
  "example_session u recs =
     \<lparr>as_user_id = u, as_session_type = ''feynman'', as_analyzed_at = 0,
      as_improvement_percentage = None, as_pattern_type = None, as_learning_velocity = None,
      as_recommendations = Some recs\<rparr>"

text \<open>Two students with the same recommendation, one of them without a confidence score.\<close>

definition example_two_students :: "analytics_session list" where
  "example_two_students =
     [example_session ''s1'' [example_rec ''pacing'' ''Slow down'' (Some 2) (Some (4 / 5))],
      example_session ''s2'' [example_rec ''pacing'' ''Slow down'' (Some 2) None]]"

text \<open>Twelve different recommendations of one student, with priorities 1, 2, 3 in turn.\<close>

definition example_twelve :: "analytics_session list" where
  "example_twelve =
     [example_session ''s1''
        (map (\<lambda>i. example_rec ''pacing'' (show_nat i) (Some (int (i mod 3) + 1)) None) [0 ..< 12])]"

definition example_info :: "student_info list" where
  "example_info = [\<lparr>su_id = ''s1'', su_name = ''Ada'', su_email = ''ada@example.org''\<rparr>]"

definition example_env :: "analytics_session list \<Rightarrow> student_info list option \<Rightarrow> insights_env" where
  "example_env a sinfo =
     \<lparr>ie_x_user_id = Some ''i1'',
      ie_userProfile = Some \<lparr>up_role = ''instructor'', up_id = ''i1'', up_name = ''Grace''\<rparr>,
      ie_instructorCourses = Some [\<lparr>co_id = ''c1'', co_title = ''Algebra'', co_description = '''',
                                    co_status = ''active'', co_created_at = ''2024-01-01''\<rparr>],
      ie_enrollmentError = False,
      ie_enrolledStudents = Some [\<lparr>en_student_id = ''s1''\<rparr>, \<lparr>en_student_id = ''s2''\<rparr>],
      ie_analyticsData = Some a,
      ie_studentsInfo = sinfo,
      ie_moduleProgressData = None,
      ie_feynmanFeedback = None\<rparr>"

text \<open>
  Three students with analytics rows: \<open>s1\<close> has three recommendations of priority 2,
  \<open>s2\<close> has one of priority 1, \<open>s3\<close> has one of priority 3.
\<close>

definition example_three_students :: "analytics_session list" where
  "example_three_students =
     [example_session ''s1'' (map (\<lambda>i. example_rec ''pacing'' (show_nat i) (Some 2) None) [0 ..< 3]),
      example_session ''s2'' [example_rec ''focus'' ''Shorter sessions'' (Some 1) None],
      example_session ''s3'' [example_rec ''focus'' ''Shorter sessions'' (Some 3) None]]"





text \<open>
  A request for the study technique analytics at noon UTC on 20 January 2024, on a server
  whose time zone is UTC, with a range token, the enrolled students and the rows of the
  active recall table.
\<close>

definition utc_zone :: time_zone where
  "utc_zone = \<lparr>tz_offset = 0, tz_changes = []\<rparr>"

definition example_study_env :: "string \<Rightarrow> enrolled_row list \<Rightarrow> session_row list \<Rightarrow> study_env" where
  "example_study_env token enrolled sessions =
     \<lparr>se_x_user_id = Some ''i1'',
      se_userProfile = Some \<lparr>up_role = ''instructor'', up_id = ''i1'', up_name = ''Grace''\<rparr>,
      se_timeRange = Some token,
      se_instructorCourses = Some [\<lparr>co_id = ''c1'', co_title = ''Algebra'', co_description = '''',
                                    co_status = ''active'', co_created_at = ''2024-01-01''\<rparr>],
      se_enrollmentError = False,
      se_enrolledStudents = Some enrolled,
      se_since = (\<lambda>t. True),
      se_now = 1705752000000,
      se_zone = utc_zone,
      se_active_recall_sessions = Some sessions,
      se_active_recall_attempts = Some [],
      se_pomodoro_sessions = Some [],
      se_pomodoro_cycles = None,
      se_feynman_sessions = Some [],
      se_feynman_explanations = None,
      se_retrieval_practice_sessions = None,
      se_retrieval_practice_attempts = None,
      se_study_session_analytics = None\<rparr>"

definition example_sessions :: "session_row list" where
  "example_sessions =
     [\<lparr>sr_user_id = ''s1'', sr_status = ''completed'', sr_created_at = ''2024-01-20T10:00:00+00:00''\<rparr>,
      \<lparr>sr_user_id = ''s1'', sr_status = ''studying'', sr_created_at = ''2024-01-18T09:30:00+00:00''\<rparr>,
      \<lparr>sr_user_id = ''s9'', sr_status = ''completed'', sr_created_at = ''2024-01-18T11:00:00+00:00''\<rparr>]"

definition example_enrolled :: "enrolled_row list" where
  "example_enrolled = [\<lparr>en_student_id = ''s1''\<rparr>, \<lparr>en_student_id = ''s2''\<rparr>, \<lparr>en_student_id = ''s3''\<rparr>]"

text \<open>
  The time zone of New York in 2024: five hours behind UTC, four hours behind from
  10 March, 7:00 UTC, to 3 November, 6:00 UTC. The same request for the week range on a
  server in that zone, at 0:30 UTC on 5 November 2024, which is 19:30 on 4 November there.
\<close>

definition new_york_2024 :: time_zone where
  "new_york_2024 =
     \<lparr>tz_offset = - 18000000,
      tz_changes = [(1710054000000, - 14400000), (1730613600000, - 18000000)]\<rparr>"

definition example_autumn_env :: study_env where
  "example_autumn_env =
     (example_study_env ''week'' example_enrolled example_sessions)
       \<lparr>se_now := 1730766600000, se_zone := new_york_2024\<rparr>"

text \<open>Forty enrolled students, 23 of them with one active recall session each.\<close>

definition example_forty_env :: study_env where
  "example_forty_env =
     example_study_env ''week'' (map (\<lambda>i. \<lparr>en_student_id = show_nat i\<rparr>) [0 ..< 40])
       (map (\<lambda>i. \<lparr>sr_user_id = show_nat i, sr_status = ''completed'',
                   sr_created_at = ''2024-01-19T10:00:00+00:00''\<rparr>) [0 ..< 23])"

text \<open>The same instructor with courses and analytics rows in the store, but no enrolled student.\<close>

definition example_env_no_students :: insights_env where
  "example_env_no_students =
     (example_env example_three_students (Some example_info))\<lparr>ie_enrolledStudents := Some []\<rparr>"

text \<open>Two courses: one with two modules and progress rows, one with a module and no row.\<close>

definition example_courses :: "course_row list" where
  "example_courses =
     [\<lparr>co_id = ''c1'', co_title = ''Algebra'', co_description = '''', co_status = ''active'',
       co_created_at = ''2024-01-01''\<rparr>,
      \<lparr>co_id = ''c2'', co_title = ''Logic'', co_description = '''', co_status = ''active'',
       co_created_at = ''2024-01-02''\<rparr>]"

definition example_module :: "string \<Rightarrow> string \<Rightarrow> export_module" where
  "example_module i c =
     \<lparr>em_id = i, em_title = ''Module '' @ i, em_description = '''', em_course_id = c,
      em_order_index = 1, em_passing_threshold = 70, em_available_techniques = [''feynman'']\<rparr>"

definition example_modules :: "export_module list" where
  "example_modules = [example_module ''m1'' ''c1'', example_module ''m2'' ''c1'', example_module ''m3'' ''c2'']"

definition example_export_progress :: "export_progress list" where
  "example_export_progress =
     [\<lparr>ep_user_id = ''s1'', ep_module_id = ''m1'', ep_best_score = Some 80, ep_status = ''completed'',
       ep_passed = True, ep_needs_remedial = False\<rparr>,
      \<lparr>ep_user_id = ''s2'', ep_module_id = ''m1'', ep_best_score = Some 55, ep_status = ''in_progress'',
       ep_passed = False, ep_needs_remedial = True\<rparr>,
      \<lparr>ep_user_id = ''s1'', ep_module_id = ''m2'', ep_best_score = None, ep_status = ''in_progress'',
       ep_passed = False, ep_needs_remedial = False\<rparr>]"

text \<open>Two students with the same recommendation, with scores 0.8 and 0.6.\<close>

definition example_two_scores :: "analytics_session list" where
  "example_two_scores =
     [example_session ''s1'' [example_rec ''pacing'' ''Slow down'' (Some 2) (Some (4 / 5))],
      example_session ''s2'' [example_rec ''pacing'' ''Slow down'' (Some 2) (Some (3 / 5))]]"

text \<open>One recommendation with the score 0.575.\<close>

definition example_one_score :: "analytics_session list" where
  "example_one_score =
     [example_session ''s1'' [example_rec ''pacing'' ''Slow down'' (Some 2) (Some (23 / 40))]]"

text \<open>A module with 8 failing rows out of 27: the failure rate is below 30 and rounds to 30.\<close>

definition example_perf_rounding :: module_perf where
  "example_perf_rounding = \<lparr>md_title = ''Algebra'',
      md_scores = replicate 8 50 @ replicate 19 90,
      md_needsRemedial = 0, md_failing = 8, md_totalStudents = 27\<rparr>"

section \<open>Properties\<close>

subsection \<open>Rounding\<close>

lemma js_round_of_int: "js_round (of_int n) = n"
proof -
  have "\<lfloor>(of_int n :: rat) + 1 / 2\<rfloor> = n" by (rule floor_unique) simp_all
  then show ?thesis by (simp add: js_round_def)
qed

lemma js_round_numeral: "js_round (numeral k) = numeral k"
  using js_round_of_int[of "numeral k"] by simp

lemma js_round_0: "js_round 0 = 0"
  using js_round_of_int[of 0] by simp

lemma js_round_1: "js_round 1 = 1"
  using js_round_of_int[of 1] by simp

lemma js_round_fraction:
  "js_round (numeral a / numeral b) = (2 * numeral a + numeral b) div (2 * numeral b)"
proof -
  have "(numeral a / numeral b :: rat) + 1 / 2 = of_int (2 * numeral a + numeral b) / of_int (2 * numeral b)"
    by (simp add: field_simps)
  then show ?thesis unfolding js_round_def by (simp only: floor_divide_of_int_eq)
qed

lemmas js_round_simps = js_round_numeral js_round_0 js_round_1 js_round_fraction

subsection \<open>Doubles\<close>

lemma round_half_even_of_int: "round_half_even (of_int n) = n"
  by (simp add: round_half_even_def)

lemma round_half_even_lower: "\<lfloor>m\<rfloor> \<le> round_half_even m"
  by (simp add: round_half_even_def Let_def)

lemma round_half_even_mono:
  assumes "m \<le> n"
  shows "round_half_even m \<le> round_half_even n"
proof (cases "\<lfloor>m\<rfloor> = \<lfloor>n\<rfloor>")
  case True
  then show ?thesis using assms by (auto simp: round_half_even_def Let_def)
next
  case False
  then have "\<lfloor>m\<rfloor> + 1 \<le> \<lfloor>n\<rfloor>" using assms floor_mono [of m n] by linarith
  moreover have "round_half_even m \<le> \<lfloor>m\<rfloor> + 1"
    by (simp add: round_half_even_def Let_def)
  ultimately show ?thesis using round_half_even_lower [of n] by linarith
qed

lemma round_half_even_minus: "round_half_even (- m) = - round_half_even m"
proof (cases "m = of_int \<lfloor>m\<rfloor>")
  case True
  then obtain k where "m = of_int k" ..
  then show ?thesis using round_half_even_of_int [of "- k"] round_half_even_of_int [of k] by simp
next
  case False
  then have c: "\<lceil>m\<rceil> = \<lfloor>m\<rfloor> + 1" by (metis ceiling_altdef)
  have f: "\<lfloor>- m\<rfloor> = - \<lfloor>m\<rfloor> - 1" using c by (simp add: ceiling_def)
  show ?thesis unfolding round_half_even_def Let_def f by auto
qed

text \<open>The exponent of a non-zero number is the one that brackets it.\<close>

lemma binade_bounds:
  assumes "x \<noteq> 0"
  shows "2 powi binade x \<le> \<bar>x\<bar> \<and> \<bar>x\<bar> < 2 powi (binade x + 1)"
proof -
  obtain p q where pq: "quotient_of \<bar>x\<bar> = (p, q)" by (cases "quotient_of \<bar>x\<bar>")
  have q: "0 < q" using pq quotient_of_denom_pos by blast
  have x: "\<bar>x\<bar> = of_int p / of_int q" using pq quotient_of_div by blast
  have "0 < \<bar>x\<bar>" using assms by simp
  then have p: "0 < p" unfolding x using q by (simp add: zero_less_divide_iff)
  let ?k = "bitlen p - bitlen q"
  have bp: "1 \<le> bitlen p" and bq: "1 \<le> bitlen q" using p q by (auto simp: bitlen_alt_def)
  have p1: "(2::rat) powi (bitlen p - 1) \<le> of_int p"
  proof -
    have "(2::int) ^ nat (bitlen p - 1) \<le> p" using bitlen_bounds [OF p] by simp
    then have "(of_int ((2::int) ^ nat (bitlen p - 1)) :: rat) \<le> of_int p" by (simp only: of_int_le_iff)
    then show ?thesis using bp by (simp add: power_int_def)
  qed
  have p2: "of_int p < (2::rat) powi (bitlen p)"
  proof -
    have "p < (2::int) ^ nat (bitlen p)" using bitlen_bounds [OF p] by simp
    then have "(of_int p :: rat) < of_int ((2::int) ^ nat (bitlen p))" by (simp only: of_int_less_iff)
    then show ?thesis using bp by (simp add: power_int_def)
  qed
  have q1: "(2::rat) powi (bitlen q - 1) \<le> of_int q"
  proof -
    have "(2::int) ^ nat (bitlen q - 1) \<le> q" using bitlen_bounds [OF q] by simp
    then have "(of_int ((2::int) ^ nat (bitlen q - 1)) :: rat) \<le> of_int q" by (simp only: of_int_le_iff)
    then show ?thesis using bq by (simp add: power_int_def)
  qed
  have q2: "of_int q < (2::rat) powi (bitlen q)"
  proof -
    have "q < (2::int) ^ nat (bitlen q)" using bitlen_bounds [OF q] by simp
    then have "(of_int q :: rat) < of_int ((2::int) ^ nat (bitlen q))" by (simp only: of_int_less_iff)
    then show ?thesis using bq by (simp add: power_int_def)
  qed
  have qpos: "(0::rat) < of_int q" using q by simp
  have lo: "(2::rat) powi (?k - 1) < \<bar>x\<bar>"
  proof -
    have "(2::rat) powi (?k - 1) * of_int q < 2 powi (?k - 1) * 2 powi (bitlen q)"
      using q2 by simp
    also have "\<dots> = 2 powi (bitlen p - 1)"
      by (simp flip: power_int_add)
    also have "\<dots> \<le> of_int p" by (rule p1)
    finally show ?thesis unfolding x using qpos by (simp add: pos_less_divide_eq)
  qed
  have hi: "\<bar>x\<bar> < (2::rat) powi (?k + 1)"
  proof -
    have "of_int p < (2::rat) powi (bitlen p)" by (rule p2)
    also have "\<dots> = 2 powi (?k + 1) * 2 powi (bitlen q - 1)"
      by (simp flip: power_int_add)
    also have "\<dots> \<le> 2 powi (?k + 1) * of_int q"
      using q1 by simp
    finally show ?thesis unfolding x using qpos by (simp add: pos_divide_less_eq)
  qed
  show ?thesis
  proof (cases "(2::rat) powi ?k \<le> \<bar>x\<bar>")
    case True
    then have "binade x = ?k" by (simp add: binade_def pq)
    then show ?thesis using True hi by simp
  next
    case False
    then have "binade x = ?k - 1" by (simp add: binade_def pq)
    then show ?thesis using False lo by simp
  qed
qed

lemma pow2_quotient: "(2::rat) powi a / 2 powi b = 2 powi (a - b)"
  by (simp add: power_int_diff)

lemma pow2_product: "(2::rat) powi a * 2 powi b = 2 powi (a + b)"
  by (simp add: power_int_add)

lemma binade_minus: "binade (- x) = binade x"
  by (simp add: binade_def)

lemma ulp_minus: "ulp (- x) = ulp x"
  by (simp add: ulp_def binade_minus)

lemma ulp_pos: "0 < ulp x"
  by (simp add: ulp_def)

lemma to_double_eq: "to_double x = of_int (round_half_even (x / ulp x)) * ulp x"
proof -
  obtain p q where pq: "quotient_of x = (p, q)" by (cases "quotient_of x")
  have x: "of_int p / of_int q = x" using quotient_of_div[OF pq] by simp
  show ?thesis unfolding to_double_def pq round_quotient.simps Let_def x by (rule refl)
qed

lemma to_double_minus: "to_double (- x) = - to_double x"
  by (simp add: to_double_eq ulp_minus round_half_even_minus)

lemma binade_mono:
  assumes "0 < x" "x \<le> y"
  shows "binade x \<le> binade y"
proof (rule ccontr)
  assume "\<not> binade x \<le> binade y"
  then have "binade y + 1 \<le> binade x" by simp
  then have "(2::rat) powi (binade y + 1) \<le> 2 powi binade x"
    by (intro power_int_increasing) auto
  moreover have "\<bar>y\<bar> < 2 powi (binade y + 1)" using binade_bounds [of y] assms by auto
  moreover have "2 powi binade x \<le> \<bar>x\<bar>" using binade_bounds [of x] assms by auto
  ultimately show False using assms by linarith
qed

text \<open>Rounding to a double keeps the order and the sign, and 0, 1 and 100 are doubles.\<close>

lemma to_double_mono_pos:
  assumes "0 < x" "x \<le> y"
  shows "to_double x \<le> to_double y"
proof -
  let ?ex = "max (binade x) (- 1022)" and ?ey = "max (binade y) (- 1022)"
  have le: "?ex \<le> ?ey" using binade_mono [OF assms] by simp
  show ?thesis
  proof (cases "?ex = ?ey")
    case True
    then have u: "ulp x = ulp y" by (simp add: ulp_def)
    have "x / ulp y \<le> y / ulp y" using assms ulp_pos [of y] by (simp add: divide_right_mono)
    then have "round_half_even (x / ulp y) \<le> round_half_even (y / ulp y)" by (rule round_half_even_mono)
    then show ?thesis unfolding to_double_eq u using ulp_pos [of y] by simp
  next
    case False
    then have lt: "?ex + 1 \<le> ?ey" using le by linarith
    then have ey: "?ey = binade y" by linarith
    have y0: "0 < y" using assms by simp
    have "x < 2 powi (binade x + 1)" using binade_bounds [of x] assms by auto
    also have "\<dots> \<le> 2 powi (?ex + 1)" by (intro power_int_increasing) auto
    finally have "x / ulp x < 2 powi (?ex + 1) / ulp x" using ulp_pos [of x] by (simp add: divide_strict_right_mono)
    also have "2 powi (?ex + 1) / ulp x = (2::rat) powi 53"
      unfolding ulp_def pow2_quotient by simp
    finally have "x / ulp x \<le> of_int (2 ^ 53)" by simp
    then have "round_half_even (x / ulp x) \<le> round_half_even (of_int (2 ^ 53))"
      by (rule round_half_even_mono)
    then have "(of_int (round_half_even (x / ulp x)) :: rat) \<le> of_int (2 ^ 53)"
      unfolding round_half_even_of_int by (simp only: of_int_le_iff)
    then have "to_double x \<le> of_int (2 ^ 53) * ulp x" unfolding to_double_eq using ulp_pos [of x]
      by (simp only: mult_right_mono less_imp_le)
    also have "\<dots> = 2 powi 53 * 2 powi (?ex - 52)" unfolding ulp_def by simp
    also have "\<dots> = 2 powi (?ex + 1)" unfolding pow2_product by (simp add: add.commute)
    also have "\<dots> \<le> 2 powi ?ey" using lt by (intro power_int_increasing) auto
    finally have a: "to_double x \<le> 2 powi ?ey" .
    have "2 powi ?ey \<le> y" using binade_bounds [of y] y0 ey by auto
    then have "2 powi ?ey / ulp y \<le> y / ulp y" using ulp_pos [of y] by (simp add: divide_right_mono)
    moreover have "2 powi ?ey / ulp y = (2::rat) powi 52"
      unfolding ulp_def pow2_quotient by simp
    ultimately have "of_int (2 ^ 52) \<le> y / ulp y" by simp
    then have "round_half_even (of_int (2 ^ 52)) \<le> round_half_even (y / ulp y)"
      by (rule round_half_even_mono)
    then have "(of_int (2 ^ 52) :: rat) \<le> of_int (round_half_even (y / ulp y))"
      unfolding round_half_even_of_int by (simp only: of_int_le_iff)
    then have "of_int (2 ^ 52) * ulp y \<le> to_double y" unfolding to_double_eq using ulp_pos [of y]
      by (simp only: mult_right_mono less_imp_le)
    moreover have "(2::rat) powi 52 * ulp y = 2 powi ?ey" unfolding ulp_def pow2_product by simp
    ultimately have "2 powi ?ey \<le> to_double y" by simp
    then show ?thesis using a by linarith
  qed
qed

lemma to_double_0: "to_double 0 = 0"
  by (simp add: to_double_eq round_half_even_def)

lemma to_double_nonneg:
  assumes "0 \<le> x"
  shows "0 \<le> to_double x"
proof -
  have "0 \<le> x / ulp x" using assms ulp_pos [of x] by simp
  then have "round_half_even 0 \<le> round_half_even (x / ulp x)" by (rule round_half_even_mono)
  then have "0 \<le> round_half_even (x / ulp x)" using round_half_even_of_int [of 0] by simp
  then show ?thesis unfolding to_double_eq using ulp_pos [of x] by simp
qed

lemma to_double_mono:
  assumes "x \<le> y"
  shows "to_double x \<le> to_double y"
proof -
  consider "0 < x" | "x \<le> 0" "0 \<le> y" | "y < 0" by linarith
  then show ?thesis
  proof cases
    case 1
    then show ?thesis using assms by (rule to_double_mono_pos)
  next
    case 2
    have "0 \<le> to_double (- x)" using 2 by (intro to_double_nonneg) simp
    then have "to_double x \<le> 0" by (simp add: to_double_minus)
    then show ?thesis using to_double_nonneg [of y] 2 by linarith
  next
    case 3
    have "to_double (- y) \<le> to_double (- x)" using 3 assms by (intro to_double_mono_pos) auto
    then show ?thesis by (simp add: to_double_minus)
  qed
qed

lemma to_double_1: "to_double 1 = 1"
  by code_simp

lemma to_double_100: "to_double 100 = 100"
  by code_simp

text \<open>
  The double nearest to 0.1; the sum of the doubles of 0.1 and 0.2, which is not the
  double of 0.3; and two numbers below the least positive double, a tie that goes to 0
  and a tie that goes to twice the least positive double.
\<close>

lemma double_examples:
  "to_double (1 / 10) = 3602879701896397 / 36028797018963968 \<and>
   fadd (to_double (1 / 10)) (to_double (2 / 10)) = 1351079888211149 / 4503599627370496 \<and>
   fadd (to_double (1 / 10)) (to_double (2 / 10)) \<noteq> to_double (3 / 10) \<and>
   to_double (1 / 2 ^ 1075) = 0 \<and>
   to_double (3 / 2 ^ 1075) = 1 / 2 ^ 1073"
  by code_simp

lemma js_sum_snoc: "js_sum (xs @ [x]) = fadd (js_sum xs) x"
  by (simp add: js_sum_def)

lemma js_round_mono: "x \<le> y \<Longrightarrow> js_round x \<le> js_round y"
  by (simp add: js_round_def floor_mono)

subsection \<open>Dictionaries\<close>

lemma set_update_subset: "set (AList.update k v al) \<subseteq> insert (k, v) (set al)"
  by (induct al) auto

lemma map_filter_distinct_key:
  assumes "distinct (map fst xs)" "e \<in> set xs" "\<And>x a. f x = Some a \<Longrightarrow> k a = fst x"
  shows "filter (\<lambda>a. k a = fst e) (List.map_filter f xs) = (case f e of None \<Rightarrow> [] | Some a \<Rightarrow> [a])"
  using assms(1,2)
proof (induction xs)
  case Nil then show ?case by simp
next
  case (Cons x xs)
  have others: "filter (\<lambda>a. k a = fst e) (List.map_filter f ys) = []"
    if "fst e \<notin> fst ` set ys" for ys
    using that assms(3) by (induction ys) (auto simp: List.map_filter_simps split: option.splits)
  show ?case
  proof (cases "x = e")
    case True
    then have "fst e \<notin> fst ` set xs" using Cons.prems by auto
    then show ?thesis using True others[of xs] assms(3)[of e]
      by (auto simp: List.map_filter_simps split: option.splits)
  next
    case False
    then have "e \<in> set xs" "fst x \<noteq> fst e" using Cons.prems by (auto simp: rev_image_eqI)
    then show ?thesis using Cons assms(3)[of x]
      by (auto simp: List.map_filter_simps split: option.splits)
  qed
qed

subsection \<open>Sorting with a comparator\<close>

lemma mset_insert_by: "mset (insert_by cmp x xs) = add_mset x (mset xs)"
  by (induction xs) auto

lemma mset_js_sort: "mset (js_sort cmp xs) = mset xs"
  unfolding js_sort_def by (induction xs) (auto simp: mset_insert_by)

lemma set_js_sort: "set (js_sort cmp xs) = set xs"
  by (metis mset_js_sort set_mset_mset)


lemma set_insert_by: "set (insert_by cmp x xs) = insert x (set xs)"
  by (metis mset_insert_by set_mset_add_mset_insert set_mset_mset)

lemma sorted_insert_by:
  assumes total: "\<And>a b. cmp a b \<le> 0 \<or> cmp b a \<le> 0"
      and trans: "\<And>a b c. cmp a b \<le> 0 \<Longrightarrow> cmp b c \<le> 0 \<Longrightarrow> cmp a c \<le> 0"
  shows "sorted_wrt (\<lambda>a b. cmp a b \<le> 0) xs \<Longrightarrow> sorted_wrt (\<lambda>a b. cmp a b \<le> 0) (insert_by cmp x xs)"
proof (induction xs)
  case Nil then show ?case by simp
next
  case (Cons y ys)
  show ?case
  proof (cases "cmp x y \<le> 0")
    case True
    then show ?thesis using Cons.prems trans by auto
  next
    case False
    then have "cmp y x \<le> 0" using total by blast
    then show ?thesis using False Cons by (auto simp: set_insert_by)
  qed
qed

text \<open>A comparator that is total and transitive leaves the list in its order.\<close>

lemma sorted_js_sort:
  assumes "\<And>a b. cmp a b \<le> 0 \<or> cmp b a \<le> 0"
      and "\<And>a b c. cmp a b \<le> 0 \<Longrightarrow> cmp b c \<le> 0 \<Longrightarrow> cmp a c \<le> 0"
  shows "sorted_wrt (\<lambda>a b. cmp a b \<le> 0) (js_sort cmp xs)"
  unfolding js_sort_def
  by (induction xs) (auto intro: sorted_insert_by[OF assms])

lemma sorted_wrt_take_drop:
  "sorted_wrt R xs \<Longrightarrow> x \<in> set (take n xs) \<Longrightarrow> y \<in> set (drop n xs) \<Longrightarrow> R x y"
  by (metis append_take_drop_id sorted_wrt_append)

subsection \<open>Recommendation deduplicator\<close>

lemma set_set_add: "set (set_add x xs) = insert x (set xs)"
  by (auto simp: set_add_def)

lemma distinct_set_add: "distinct xs \<Longrightarrow> distinct (set_add x xs)"
  by (auto simp: set_add_def)

lemma foldl_session_occurrences:
  "foldl add_session_recommendations m analyticsData = foldl add_occurrence m (occurrences analyticsData)"
proof (induction analyticsData arbitrary: m)
  case Nil then show ?case by (simp add: occurrences_def)
next
  case (Cons s rest)
  have one: "add_session_recommendations m s =
        foldl add_occurrence m
          (case as_recommendations s of None \<Rightarrow> [] | Some recs \<Rightarrow> map (Pair (as_user_id s)) recs)"
    by (simp add: add_session_recommendations_def add_occurrence_def foldl_map split: option.splits)
  show ?case
    using Cons.IH[of "add_session_recommendations m s"] one
    by (simp add: occurrences_def)
qed

lemma recommendationCounts_occurrences:
  "recommendationCounts analyticsData = foldl add_occurrence [] (occurrences analyticsData)"
  by (simp add: recommendationCounts_def foldl_session_occurrences)

lemma groups_inv_step:
  assumes "groups_inv m occs"
  shows "groups_inv (add_occurrence m oc) (occs @ [oc])"
proof -
  obtain u r where oc: "oc = (u, r)" by (cases oc)
  define key where "key = rec_key r"
  have dist: "distinct (map fst m)" using assms by (simp add: groups_inv_def)
  have at: "case map_of m k of None \<Rightarrow> key_occurrences k occs = []
            | Some g \<Rightarrow> group_matches g (key_occurrences k occs)" for k
    using assms by (simp add: groups_inv_def)
  obtain g1 where upd: "add_occurrence m oc = AList.update key g1 m"
    and g1: "group_matches g1 (key_occurrences key occs @ [oc])"
  proof (cases "map_of m key")
    case None
    then have "key_occurrences key occs = []" using at[of key] by simp
    then show ?thesis using None that oc
      by (simp add: add_occurrence_def add_recommendation_def key_def Let_def group_matches_def
          set_set_add used_confidence_def set_add_def js_sum_def)
  next
    case (Some g)
    then have "group_matches g (key_occurrences key occs)" using at[of key] by simp
    then show ?thesis using Some that oc
      by (simp add: add_occurrence_def add_recommendation_def key_def Let_def group_matches_def
          set_set_add distinct_set_add used_confidence_def js_sum_snoc)
  qed
  have "case map_of (AList.update key g1 m) k of None \<Rightarrow> key_occurrences k (occs @ [oc]) = []
            | Some g \<Rightarrow> group_matches g (key_occurrences k (occs @ [oc]))" for k
  proof (cases "k = key")
    case True
    have "key_occurrences k (occs @ [oc]) = key_occurrences key occs @ [oc]"
      using True oc by (simp add: key_occurrences_def key_def)
    then show ?thesis using g1 True by (simp add: update_conv')
  next
    case False
    have "key_occurrences k (occs @ [oc]) = key_occurrences k occs"
      using False oc by (simp add: key_occurrences_def key_def)
    then show ?thesis using at[of k] False by (simp add: update_conv' split: option.splits)
  qed
  then show ?thesis using dist upd by (simp add: groups_inv_def distinct_update)
qed

lemma groups_inv_foldl:
  "groups_inv m occs \<Longrightarrow> groups_inv (foldl add_occurrence m rest) (occs @ rest)"
proof (induction rest arbitrary: m occs)
  case Nil then show ?case by simp
next
  case (Cons oc rest)
  show ?case using Cons.IH[OF groups_inv_step[OF Cons.prems, of oc]] by simp
qed

lemma groups_inv_recommendationCounts:
  "groups_inv (recommendationCounts analyticsData) (occurrences analyticsData)"
  using groups_inv_foldl[of "[]" "[]" "occurrences analyticsData"]
  by (simp add: recommendationCounts_occurrences groups_inv_def key_occurrences_def)

subsection \<open>Alert generator\<close>

lemma row_score_read: "row_score r = num_or (js_number (mp_best_score r)) 0"
  by (simp add: row_score_def num_or_def js_number_def split: option.splits)

lemma perf_inv_step:
  assumes "perf_inv m rows"
  shows "perf_inv (add_module_progress m mp) (rows @ [mp])"
proof -
  define k0 where "k0 = mp_module_id mp"
  have dist: "distinct (map fst m)" using assms by (simp add: perf_inv_def)
  have at: "case map_of m k of None \<Rightarrow> module_rows k rows = []
            | Some d \<Rightarrow> perf_matches d (module_rows k rows)" for k
    using assms by (simp add: perf_inv_def)
  obtain d3 where upd: "add_module_progress m mp = AList.update k0 d3 m"
    and d3: "perf_matches d3 (module_rows k0 rows @ [mp])"
  proof (cases "map_of m k0")
    case None
    then have "module_rows k0 rows = []" using at[of k0] by simp
    then show ?thesis using None that
      by (simp add: add_module_progress_def k0_def Let_def perf_matches_def row_score_read
          positive_scores_def failing_count_def remedial_count_def)
  next
    case (Some d)
    then have "perf_matches d (module_rows k0 rows)" using at[of k0] by simp
    then show ?thesis using Some that
      by (simp add: add_module_progress_def k0_def Let_def perf_matches_def row_score_read
          positive_scores_def failing_count_def remedial_count_def)
  qed
  have "case map_of (AList.update k0 d3 m) k of None \<Rightarrow> module_rows k (rows @ [mp]) = []
            | Some d \<Rightarrow> perf_matches d (module_rows k (rows @ [mp]))" for k
  proof (cases "k = k0")
    case True
    have "module_rows k (rows @ [mp]) = module_rows k0 rows @ [mp]"
      using True by (simp add: module_rows_def k0_def)
    then show ?thesis using d3 True by (simp add: update_conv')
  next
    case False
    have "module_rows k (rows @ [mp]) = module_rows k rows"
      using False by (auto simp: module_rows_def k0_def)
    then show ?thesis using at[of k] False by (simp add: update_conv' split: option.splits)
  qed
  then show ?thesis using dist upd by (simp add: perf_inv_def distinct_update)
qed

lemma perf_inv_foldl:
  "perf_inv m rows \<Longrightarrow> perf_inv (foldl add_module_progress m rest) (rows @ rest)"
proof (induction rest arbitrary: m rows)
  case Nil then show ?case by simp
next
  case (Cons r rest)
  show ?case using Cons.IH[OF perf_inv_step[OF Cons.prems, of r]] by simp
qed

lemma perf_inv_modulePerformanceMap:
  "perf_inv (modulePerformanceMap mpd) (progress_rows mpd)"
proof (cases mpd)
  case None
  then show ?thesis by (simp add: modulePerformanceMap_def progress_rows_def perf_inv_def module_rows_def)
next
  case (Some rows)
  then show ?thesis using perf_inv_foldl[of "[]" "[]" rows]
    by (simp add: modulePerformanceMap_def progress_rows_def perf_inv_def module_rows_def)
qed

lemma modulePerformanceMap_entry:
  assumes "e \<in> set (modulePerformanceMap mpd)"
  shows "perf_matches (snd e) (module_rows (fst e) (progress_rows mpd))"
proof -
  have "map_of (modulePerformanceMap mpd) (fst e) = Some (snd e)"
    using assms perf_inv_modulePerformanceMap[of mpd] by (simp add: perf_inv_def)
  moreover have "case map_of (modulePerformanceMap mpd) (fst e) of
      None \<Rightarrow> module_rows (fst e) (progress_rows mpd) = []
    | Some d \<Rightarrow> perf_matches d (module_rows (fst e) (progress_rows mpd))"
    using perf_inv_modulePerformanceMap[of mpd] by (simp add: perf_inv_def)
  ultimately show ?thesis by simp
qed

lemma module_alert_id: "module_alert e = Some a \<Longrightarrow> pa_moduleId a = fst e"
  by (auto simp: module_alert_def Let_def split: if_splits)

lemma module_alert_rule:
  "map_option (\<lambda>a. (pa_type a, pa_severity a)) (module_alert e) =
     alert_rule (failureRate (snd e)) (remedialRate (snd e)) (avgScore (snd e))"
  by (simp add: module_alert_def alert_rule_def Let_def)

text \<open>The rates and the average of an entry are those of the rows of its module.\<close>

lemma entry_rates:
  assumes "perf_matches d rs"
  shows "failureRate d = percent_of_rows (failing_count rs) rs"
    and "remedialRate d = percent_of_rows (remedial_count rs) rs"
    and "avgScore d = mean_positive_score rs"
proof -
  have sum: "js_sum xs = foldl (\<lambda>sum s. to_double (sum + s)) 0 xs" for xs
  proof -
    have "fadd = (\<lambda>sum s. to_double (sum + s))" by (intro ext) (simp add: fadd_def)
    then show ?thesis by (simp add: js_sum_def)
  qed
  show "failureRate d = percent_of_rows (failing_count rs) rs"
    using assms by (simp add: failureRate_def percent_of_rows_def perf_matches_def fmul_def fdiv_def)
  show "remedialRate d = percent_of_rows (remedial_count rs) rs"
    using assms by (simp add: remedialRate_def percent_of_rows_def perf_matches_def fmul_def fdiv_def)
  show "avgScore d = mean_positive_score rs"
    using assms by (simp add: avgScore_def mean_positive_score_def perf_matches_def fdiv_def sum)
qed

lemma module_alerts:
  assumes "module_rows m (progress_rows mpd) \<noteq> []"
  shows "\<exists>d. (m, d) \<in> set (modulePerformanceMap mpd) \<and>
             perf_matches d (module_rows m (progress_rows mpd)) \<and>
             filter (\<lambda>a. pa_moduleId a = m) (performanceAlerts mpd) =
               (case module_alert (m, d) of None \<Rightarrow> [] | Some a \<Rightarrow> [a])"
proof -
  have "case map_of (modulePerformanceMap mpd) m of
      None \<Rightarrow> module_rows m (progress_rows mpd) = []
    | Some d \<Rightarrow> perf_matches d (module_rows m (progress_rows mpd))"
    using perf_inv_modulePerformanceMap[of mpd] by (simp add: perf_inv_def)
  then obtain d where d: "map_of (modulePerformanceMap mpd) m = Some d"
    and pm: "perf_matches d (module_rows m (progress_rows mpd))"
    using assms by (cases "map_of (modulePerformanceMap mpd) m") auto
  have mem: "(m, d) \<in> set (modulePerformanceMap mpd)" using d by (rule map_of_SomeD)
  have "distinct (map fst (modulePerformanceMap mpd))"
    using perf_inv_modulePerformanceMap[of mpd] by (simp add: perf_inv_def)
  then have "filter (\<lambda>a. pa_moduleId a = fst (m, d)) (performanceAlerts mpd) =
           (case module_alert (m, d) of None \<Rightarrow> [] | Some a \<Rightarrow> [a])"
    unfolding performanceAlerts_def
    using map_filter_distinct_key[of "modulePerformanceMap mpd" "(m, d)" module_alert pa_moduleId]
      mem module_alert_id by blast
  then show ?thesis using mem pm by auto
qed


text \<open>
  The comparison is on the unrounded rate: 8 failing rows of 27 give a rate below 30 that
  is shown as 30, and the module is not critical.
\<close>

lemma alert_threshold_unrounded:
  "failureRate example_perf_rounding < 30 \<and> js_round (failureRate example_perf_rounding) = 30 \<and>
   alert_rule (failureRate example_perf_rounding) (remedialRate example_perf_rounding)
     (avgScore example_perf_rounding) = None"
  by code_simp

lemma example_module_rows:
  "module_rows ''m1'' (progress_rows (Some example_alert_rows)) \<noteq> [] \<and>
   module_rows ''m2'' (progress_rows (Some example_alert_rows)) \<noteq> [] \<and>
   module_rows ''m3'' (progress_rows (Some example_alert_rows)) \<noteq> [] \<and>
   module_rows ''m4'' (progress_rows (Some example_alert_rows)) \<noteq> []"
  by code_simp

lemma example_critical:
  "percent_of_rows (failing_count (module_rows ''m1'' (progress_rows (Some example_alert_rows))))
     (module_rows ''m1'' (progress_rows (Some example_alert_rows))) = 35 \<and>
   percent_of_rows (remedial_count (module_rows ''m1'' (progress_rows (Some example_alert_rows))))
     (module_rows ''m1'' (progress_rows (Some example_alert_rows))) = 50"
  by code_simp

lemma example_warning:
  "percent_of_rows (failing_count (module_rows ''m2'' (progress_rows (Some example_alert_rows))))
     (module_rows ''m2'' (progress_rows (Some example_alert_rows))) = 20 \<and>
   percent_of_rows (remedial_count (module_rows ''m2'' (progress_rows (Some example_alert_rows))))
     (module_rows ''m2'' (progress_rows (Some example_alert_rows))) = 40"
  by code_simp

text \<open>
  The scores 60.3, 70.1 and 79.6 have the mean 70; their doubles add up to a double below
  210, and the double average is below 70.
\<close>

lemma example_info:
  "percent_of_rows (failing_count (module_rows ''m3'' (progress_rows (Some example_alert_rows))))
     (module_rows ''m3'' (progress_rows (Some example_alert_rows))) = 0 \<and>
   percent_of_rows (remedial_count (module_rows ''m3'' (progress_rows (Some example_alert_rows))))
     (module_rows ''m3'' (progress_rows (Some example_alert_rows))) < 40 \<and>
   mean_positive_score (module_rows ''m3'' (progress_rows (Some example_alert_rows))) < 70 \<and>
   (603 / 10 + 701 / 10 + 796 / 10) / 3 = (70 :: rat)"
  by code_simp

lemma example_no_alert:
  "percent_of_rows (failing_count (module_rows ''m4'' (progress_rows (Some example_alert_rows))))
     (module_rows ''m4'' (progress_rows (Some example_alert_rows))) = 0 \<and>
   percent_of_rows (remedial_count (module_rows ''m4'' (progress_rows (Some example_alert_rows))))
     (module_rows ''m4'' (progress_rows (Some example_alert_rows))) = 0 \<and>
   mean_positive_score (module_rows ''m4'' (progress_rows (Some example_alert_rows))) = 85"
  by code_simp

lemma example_alert_list:
  "map (\<lambda>a. (pa_moduleId a, pa_type a, pa_severity a, pa_value a)) (performanceAlerts (Some example_alert_rows))
     = [(''m1'', critical, high, 35), (''m2'', warning, medium, 40), (''m3'', info, low, 70)]"
  by code_simp

text \<open>
  C1. For every module with at least one progress row, the alerts of that module in the
  list are given by the ordered threshold rule on the unrounded rates of its rows: failure
  rate at least 30 gives one alert, critical with severity high; else remedial rate at
  least 40 gives one, warning with severity medium; else average score below 70 gives
  one, info with severity low; else there is none. The failure rate is the percentage of
  rows with a positive score below 60, the remedial rate that of the rows with a score
  from 60 to below 70 plus the rows flagged for remedial work, and the average is over the
  positive scores, all in double arithmetic.
\<close>

theorem alert_classification:
  assumes "module_rows m (progress_rows moduleProgressData) \<noteq> []"
  shows "map (\<lambda>a. (pa_type a, pa_severity a))
           (filter (\<lambda>a. pa_moduleId a = m) (performanceAlerts moduleProgressData)) =
         (case alert_rule
                 (percent_of_rows (failing_count (module_rows m (progress_rows moduleProgressData)))
                    (module_rows m (progress_rows moduleProgressData)))
                 (percent_of_rows (remedial_count (module_rows m (progress_rows moduleProgressData)))
                    (module_rows m (progress_rows moduleProgressData)))
                 (mean_positive_score (module_rows m (progress_rows moduleProgressData))) of
            None \<Rightarrow> []
          | Some ts \<Rightarrow> [ts])"
proof -
  obtain d where pm: "perf_matches d (module_rows m (progress_rows moduleProgressData))"
    and f: "filter (\<lambda>a. pa_moduleId a = m) (performanceAlerts moduleProgressData) =
              (case module_alert (m, d) of None \<Rightarrow> [] | Some a \<Rightarrow> [a])"
    using module_alerts[OF assms] by blast
  have "alert_rule (failureRate d) (remedialRate d) (avgScore d) =
          map_option (\<lambda>a. (pa_type a, pa_severity a)) (module_alert (m, d))"
    using module_alert_rule[of "(m, d)"] by simp
  then have r: "alert_rule
                 (percent_of_rows (failing_count (module_rows m (progress_rows moduleProgressData)))
                    (module_rows m (progress_rows moduleProgressData)))
                 (percent_of_rows (remedial_count (module_rows m (progress_rows moduleProgressData)))
                    (module_rows m (progress_rows moduleProgressData)))
                 (mean_positive_score (module_rows m (progress_rows moduleProgressData))) =
          map_option (\<lambda>a. (pa_type a, pa_severity a)) (module_alert (m, d))"
    unfolding entry_rates[OF pm] .
  show ?thesis unfolding f r by (cases "module_alert (m, d)") simp_all
qed

text \<open>
  Four modules. The first is the module of the specification's example, with failure rate
  35 and remedial rate 50: critical, not warning. The second has failure rate 20 and
  remedial rate 40: warning. The third has neither and a double average below 70: info.
  The fourth has an average of 85: no alert.
\<close>

theorem alert_classification_witness:
  "map (\<lambda>a. (pa_type a, pa_severity a))
     (filter (\<lambda>a. pa_moduleId a = ''m1'') (performanceAlerts (Some example_alert_rows))) = [(critical, high)] \<and>
   map (\<lambda>a. (pa_type a, pa_severity a))
     (filter (\<lambda>a. pa_moduleId a = ''m2'') (performanceAlerts (Some example_alert_rows))) = [(warning, medium)] \<and>
   map (\<lambda>a. (pa_type a, pa_severity a))
     (filter (\<lambda>a. pa_moduleId a = ''m3'') (performanceAlerts (Some example_alert_rows))) = [(info, low)] \<and>
   map (\<lambda>a. (pa_type a, pa_severity a))
     (filter (\<lambda>a. pa_moduleId a = ''m4'') (performanceAlerts (Some example_alert_rows))) = [] \<and>
   percent_of_rows (failing_count (module_rows ''m1'' (progress_rows (Some example_alert_rows))))
     (module_rows ''m1'' (progress_rows (Some example_alert_rows))) = 35 \<and>
   percent_of_rows (remedial_count (module_rows ''m1'' (progress_rows (Some example_alert_rows))))
     (module_rows ''m1'' (progress_rows (Some example_alert_rows))) = 50 \<and>
   mean_positive_score (module_rows ''m3'' (progress_rows (Some example_alert_rows))) < 70 \<and>
   mean_positive_score (module_rows ''m4'' (progress_rows (Some example_alert_rows))) = 85 \<and>
   map (\<lambda>a. (pa_moduleId a, pa_type a, pa_severity a, pa_value a)) (performanceAlerts (Some example_alert_rows))
     = [(''m1'', critical, high, 35), (''m2'', warning, medium, 40), (''m3'', info, low, 70)]"
proof -
  note rows = example_module_rows
  have m1: "map (\<lambda>a. (pa_type a, pa_severity a))
     (filter (\<lambda>a. pa_moduleId a = ''m1'') (performanceAlerts (Some example_alert_rows))) = [(critical, high)]"
    using alert_classification[of "''m1''" "Some example_alert_rows"] rows example_critical
    by (simp add: alert_rule_def)
  have m2: "map (\<lambda>a. (pa_type a, pa_severity a))
     (filter (\<lambda>a. pa_moduleId a = ''m2'') (performanceAlerts (Some example_alert_rows))) = [(warning, medium)]"
    using alert_classification[of "''m2''" "Some example_alert_rows"] rows example_warning
    by (simp add: alert_rule_def)
  have m3: "map (\<lambda>a. (pa_type a, pa_severity a))
     (filter (\<lambda>a. pa_moduleId a = ''m3'') (performanceAlerts (Some example_alert_rows))) = [(info, low)]"
    using alert_classification[of "''m3''" "Some example_alert_rows"] rows example_info
    by (simp add: alert_rule_def)
  have m4: "map (\<lambda>a. (pa_type a, pa_severity a))
     (filter (\<lambda>a. pa_moduleId a = ''m4'') (performanceAlerts (Some example_alert_rows))) = []"
    using alert_classification[of "''m4''" "Some example_alert_rows"] rows example_no_alert
    by (simp add: alert_rule_def)
  show ?thesis using m1 m2 m3 m4 example_critical example_info example_no_alert example_alert_list
    by simp
qed
lemma foldl_push_recommendation:
  "foldl (push_recommendation smap) acc gs =
     acc @ map (\<lambda>p. recommendation_of smap (fst p) (snd p)) (zip [length acc ..< length acc + length gs] gs)"
proof (induction gs arbitrary: acc)
  case Nil then show ?case by simp
next
  case (Cons g gs)
  have "[length acc ..< length acc + length (g # gs)] = length acc # [Suc (length acc) ..< Suc (length acc) + length gs]"
    by (simp add: upt_rec)
  then show ?case using Cons.IH[of "push_recommendation smap acc g"]
    by (simp add: push_recommendation_def)
qed

lemma tr_key_recommendation_of:
  "tr_key (recommendation_of smap n g) = rg_type g @ ''-'' @ rg_title g"
  by (simp add: tr_key_def recommendation_of_def finish_group_def Let_def)

lemma group_key:
  assumes "groups_inv m occs" "(k, g) \<in> set m"
  shows "group_matches g (key_occurrences k occs) \<and> rg_type g @ ''-'' @ rg_title g = k"
proof -
  have "map_of m k = Some g" using assms by (simp add: groups_inv_def)
  then have gm: "group_matches g (key_occurrences k occs)"
    using assms(1) unfolding groups_inv_def by (metis option.simps(5))
  then have "hd (key_occurrences k occs) \<in> set (key_occurrences k occs)"
    by (simp add: group_matches_def)
  then have "rec_key (snd (hd (key_occurrences k occs))) = k"
    by (simp add: key_occurrences_def)
  then show ?thesis using gm by (simp add: group_matches_def rec_key_def)
qed

lemma unsorted_keys:
  "map tr_key (foldl (push_recommendation smap) [] (map snd (recommendationCounts a)))
     = map fst (recommendationCounts a)"
proof -
  have gen: "\<forall>e \<in> set m. rg_type (snd e) @ ''-'' @ rg_title (snd e) = fst e \<Longrightarrow>
        map (\<lambda>p. tr_key (recommendation_of smap (fst p) (snd p))) (zip [n ..< n + length m] (map snd m)) = map fst m"
    for m :: "(string \<times> rec_group) list" and n
  proof (induction m arbitrary: n)
    case Nil then show ?case by simp
  next
    case (Cons e m)
    have "[n ..< n + length (e # m)] = n # [Suc n ..< Suc n + length m]" by (simp add: upt_rec)
    then show ?case using Cons.IH[of "Suc n"] Cons.prems by (simp add: tr_key_recommendation_of)
  qed
  have "\<forall>e \<in> set (recommendationCounts a). rg_type (snd e) @ ''-'' @ rg_title (snd e) = fst e"
    using group_key[OF groups_inv_recommendationCounts] by (metis prod.collapse)
  from gen[OF this, of 0] show ?thesis
    using foldl_push_recommendation[of smap "[]" "map snd (recommendationCounts a)"]
    by (simp add: comp_def)
qed

lemma teachingRecommendations_elem:
  assumes "t \<in> set (teachingRecommendations a sinfo)"
  shows "\<exists>n k g. (k, g) \<in> set (recommendationCounts a) \<and> t = recommendation_of (studentMap sinfo) n g"
proof -
  have "t \<in> set (foldl (push_recommendation (studentMap sinfo)) [] (map snd (recommendationCounts a)))"
    using assms by (simp add: teachingRecommendations_def set_js_sort)
  then obtain p where "p \<in> set (zip [0 ..< length (recommendationCounts a)] (map snd (recommendationCounts a)))"
    and t: "t = recommendation_of (studentMap sinfo) (fst p) (snd p)"
    by (auto simp: foldl_push_recommendation)
  then have "snd p \<in> snd ` set (recommendationCounts a)"
    by (metis in_set_zipE list.set_map prod.collapse)
  then show ?thesis using t by force
qed

lemma distinct_length_card: "distinct xs \<Longrightarrow> set xs = f ` set ys \<Longrightarrow> length xs = length (remdups (map f ys))"
  by (metis distinct_card length_remdups_card_conv list.set_map)

lemma recommendation_of_group:
  assumes "group_matches g occs"
  shows "tr_frequency (recommendation_of smap n g) = length occs \<and>
         tr_affectedStudentsCount (recommendation_of smap n g) = length (remdups (map fst occs)) \<and>
         tr_confidence (recommendation_of smap n g) = js_round (fmul (mean_used_confidence occs) 100)"
  using assms distinct_length_card[of "rg_affectedStudents g" fst occs]
  by (simp add: group_matches_def recommendation_of_def finish_group_def Let_def mean_used_confidence_def)

lemma sorted_teachingRecommendations:
  "sorted_wrt ranks_before (teachingRecommendations analyticsData studentsInfo)"
proof -
  have le: "compare_recommendations x y \<le> 0 \<longleftrightarrow> ranks_before x y" for x y
    by (auto simp: compare_recommendations_def ranks_before_def)
  have "sorted_wrt (\<lambda>x y. compare_recommendations x y \<le> 0)
          (teachingRecommendations analyticsData studentsInfo)"
    unfolding teachingRecommendations_def
    by (rule sorted_js_sort) (auto simp: le ranks_before_def)
  then show ?thesis by (simp add: le)
qed

lemma keys_teachingRecommendations:
  "mset (map tr_key (teachingRecommendations a sinfo)) = mset (map fst (recommendationCounts a))"
  unfolding teachingRecommendations_def
  using unsorted_keys[of "studentMap sinfo" a] mset_js_sort
  by (metis mset_map)

lemma occurrence_has_group:
  assumes "oc \<in> set (occurrences a)"
  shows "rec_key (snd oc) \<in> fst ` set (recommendationCounts a)"
proof -
  have "key_occurrences (rec_key (snd oc)) (occurrences a) \<noteq> []"
    using assms by (auto simp: key_occurrences_def filter_empty_conv)
  then have "map_of (recommendationCounts a) (rec_key (snd oc)) \<noteq> None"
    using groups_inv_recommendationCounts[of a] unfolding groups_inv_def
    by (metis option.simps(4))
  then show ?thesis by (metis map_of_eq_None_iff)
qed

lemma teaching_recommendation_counts:
  "(\<forall>t \<in> set (teachingRecommendations a sinfo).
      key_occurrences (tr_key t) (occurrences a) \<noteq> [] \<and>
      tr_frequency t = length (key_occurrences (tr_key t) (occurrences a)) \<and>
      tr_affectedStudentsCount t = length (remdups (map fst (key_occurrences (tr_key t) (occurrences a)))) \<and>
      tr_confidence t = js_round (fmul (mean_used_confidence (key_occurrences (tr_key t) (occurrences a))) 100)) \<and>
   (\<forall>oc \<in> set (occurrences a). \<exists>t \<in> set (teachingRecommendations a sinfo). tr_key t = rec_key (snd oc)) \<and>
   distinct (map tr_key (teachingRecommendations a sinfo))"
proof (intro conjI ballI)
  fix t assume "t \<in> set (teachingRecommendations a sinfo)"
  then obtain n k g where kg: "(k, g) \<in> set (recommendationCounts a)"
    and t: "t = recommendation_of (studentMap sinfo) n g"
    using teachingRecommendations_elem by blast
  have gm: "group_matches g (key_occurrences k (occurrences a))" and k: "tr_key t = k"
    using group_key[OF groups_inv_recommendationCounts kg] t by (simp_all add: tr_key_recommendation_of)
  show "key_occurrences (tr_key t) (occurrences a) \<noteq> []"
    using gm k by (simp add: group_matches_def)
  show "tr_frequency t = length (key_occurrences (tr_key t) (occurrences a))"
    using recommendation_of_group[OF gm] k t by simp
  show "tr_affectedStudentsCount t = length (remdups (map fst (key_occurrences (tr_key t) (occurrences a))))"
    using recommendation_of_group[OF gm] k t by simp
  show "tr_confidence t = js_round (fmul (mean_used_confidence (key_occurrences (tr_key t) (occurrences a))) 100)"
    using recommendation_of_group[OF gm] k t by simp
next
  fix oc assume "oc \<in> set (occurrences a)"
  then have "rec_key (snd oc) \<in> set (map fst (recommendationCounts a))"
    using occurrence_has_group by simp
  then have "rec_key (snd oc) \<in> set (map tr_key (teachingRecommendations a sinfo))"
    using keys_teachingRecommendations[of a sinfo] by (metis set_mset_mset)
  then show "\<exists>t \<in> set (teachingRecommendations a sinfo). tr_key t = rec_key (snd oc)"
    by auto
next
  have "distinct (map fst (recommendationCounts a))"
    using groups_inv_recommendationCounts[of a] by (simp add: groups_inv_def)
  then show "distinct (map tr_key (teachingRecommendations a sinfo))"
    using keys_teachingRecommendations[of a sinfo] by (metis mset_eq_imp_distinct_iff)
qed

lemma two_students_merge:
  assumes "as_recommendations s1 = Some [r1]" "as_recommendations s2 = Some [r2]"
    "rec_type r1 = rec_type r2" "rec_title r1 = rec_title r2" "as_user_id s1 \<noteq> as_user_id s2"
  shows "map (\<lambda>t. (tr_frequency t, tr_affectedStudentsCount t)) (teachingRecommendations [s1, s2] sinfo) = [(2, 2)]"
  using assms
  by (simp add: teachingRecommendations_def recommendationCounts_def add_session_recommendations_def
      add_recommendation_def rec_key_def Let_def js_sort_def push_recommendation_def
      recommendation_of_def finish_group_def set_add_def)

text \<open>
  The dictionary key determines the pair of type and title when the types have no hyphen.
\<close>

lemma rec_key_inj:
  assumes "CHR ''-'' \<notin> set (rec_type r)" "CHR ''-'' \<notin> set (rec_type r')"
  shows "rec_key r = rec_key r' \<longleftrightarrow> rec_type r = rec_type r' \<and> rec_title r = rec_title r'"
proof
  assume eq: "rec_key r = rec_key r'"
  have "takeWhile (\<lambda>c. c \<noteq> CHR ''-'') (xs @ ''-'' @ ys) = xs" if "CHR ''-'' \<notin> set xs" for xs ys
    using that by (induction xs) auto
  then have "rec_type r = rec_type r'" using assms eq unfolding rec_key_def by metis
  then show "rec_type r = rec_type r' \<and> rec_title r = rec_title r'"
    using eq by (simp add: rec_key_def)
qed (simp add: rec_key_def)

lemma key_unshared_no_hyphen:
  assumes "CHR ''-'' \<notin> set ty" "\<forall>oc \<in> set occs. CHR ''-'' \<notin> set (rec_type (snd oc))"
  shows "key_unshared ty ti occs"
proof -
  have "rec_type (snd oc) = ty \<and> rec_title (snd oc) = ti"
    if "oc \<in> set occs" "rec_key (snd oc) = ty @ ''-'' @ ti" for oc
  proof -
    define r where "r = (snd oc)\<lparr>rec_type := ty, rec_title := ti\<rparr>"
    have "rec_key (snd oc) = rec_key r" using that(2) by (simp add: r_def rec_key_def)
    moreover have "CHR ''-'' \<notin> set (rec_type r)" using assms(1) by (simp add: r_def)
    ultimately have "rec_type (snd oc) = rec_type r \<and> rec_title (snd oc) = rec_title r"
      using rec_key_inj[of "snd oc" r] assms(2) that(1) by blast
    then show ?thesis by (simp add: r_def)
  qed
  then show ?thesis by (auto simp: key_unshared_def list_all_iff)
qed

text \<open>Two different pairs of type and title with the same key are merged into one group.\<close>

lemma key_collision_example:
  "map (\<lambda>t. (tr_type t, tr_title t, tr_frequency t))
     (teachingRecommendations
        [example_session ''s1'' [example_rec ''a-b'' ''c'' (Some 2) None],
         example_session ''s2'' [example_rec ''a'' ''b-c'' (Some 2) None]] None)
   = [(''a-b'', ''c'', 2)]"
  by code_simp

text \<open>A score of 0 is present and in range, and is averaged as 0.7.\<close>

lemma confidence_zero_example:
  "map tr_confidence
     (teachingRecommendations [example_session ''s1'' [example_rec ''pacing'' ''Slow down'' (Some 2) (Some 0)]] None)
     = [70] \<and>
   specified_confidence [example_rec ''pacing'' ''Slow down'' (Some 2) (Some 0)] = 0"
  by code_simp

lemma teaching_recommendation_first:
  assumes "t \<in> set (teachingRecommendations a sinfo)"
  shows "\<exists>oc \<in> set (occurrences a). rec_key (snd oc) = tr_key t \<and>
           rec_type (snd oc) = tr_type t \<and> rec_title (snd oc) = tr_title t"
proof -
  obtain n k g where kg: "(k, g) \<in> set (recommendationCounts a)"
    and t: "t = recommendation_of (studentMap sinfo) n g"
    using teachingRecommendations_elem[OF assms] by blast
  let ?os = "key_occurrences k (occurrences a)"
  have gm: "group_matches g ?os" and k: "rg_type g @ ''-'' @ rg_title g = k"
    using group_key[OF groups_inv_recommendationCounts kg] by simp_all
  have ne: "?os \<noteq> []" using gm by (simp add: group_matches_def)
  then have "hd ?os \<in> set ?os" by simp
  then have mem: "hd ?os \<in> set (occurrences a)" and key: "rec_key (snd (hd ?os)) = k"
    by (simp_all add: key_occurrences_def)
  have ty: "tr_type t = rec_type (snd (hd ?os))" and ti: "tr_title t = rec_title (snd (hd ?os))"
    using gm by (simp_all add: t recommendation_of_def finish_group_def Let_def group_matches_def)
  have "tr_key t = k" using k by (simp add: t tr_key_recommendation_of)
  then show ?thesis using mem key ty ti by auto
qed

text \<open>
  When the key of a pair is shared with no other pair, the occurrences of the key are
  those of the pair.
\<close>

lemma key_occurrences_pair:
  assumes "key_unshared ty ti occs"
  shows "key_occurrences (ty @ ''-'' @ ti) occs = pair_occurrences ty ti occs"
proof -
  have "rec_key (snd oc) = ty @ ''-'' @ ti \<longleftrightarrow> rec_type (snd oc) = ty \<and> rec_title (snd oc) = ti"
    if "oc \<in> set occs" for oc
    using assms that by (auto simp: key_unshared_def list_all_iff rec_key_def)
  then show ?thesis unfolding key_occurrences_def pair_occurrences_def
    by (intro filter_cong refl) auto
qed

text \<open>
  When no score of the occurrences reads as 0, the handler's mean is the mean with 0.7
  for the absent scores only.
\<close>

lemma mean_used_double:
  assumes "no_zero_score occs"
  shows "mean_used_confidence occs = double_mean_confidence (map snd occs)"
proof -
  have "used_confidence (snd oc) =
          (case rec_confidence_score (snd oc) of None \<Rightarrow> to_double (7 / 10) | Some c \<Rightarrow> to_double c)"
    if "oc \<in> set occs" for oc
    using assms that
    by (auto simp: no_zero_score_def list_all_iff used_confidence_def num_or_def js_number_def
        split: option.splits)
  then have "map (used_confidence \<circ> snd) occs =
             map ((\<lambda>r. case rec_confidence_score r of None \<Rightarrow> to_double (7 / 10) | Some c \<Rightarrow> to_double c) \<circ> snd) occs"
    by (intro map_cong refl) simp
  then have eq: "map (used_confidence \<circ> snd) occs =
             map (\<lambda>r. case rec_confidence_score r of None \<Rightarrow> to_double (7 / 10) | Some c \<Rightarrow> to_double c)
               (map snd occs)"
    by (simp only: map_map)
  show ?thesis
    unfolding mean_used_confidence_def double_mean_confidence_def eq length_map js_sum_def by (rule refl)
qed

text \<open>
  C3 (as amended). Every emitted recommendation has the type and title of an occurrence.
  If the dictionary key of its pair of type and title is the key of no other pair, its
  frequency is the number of occurrences of the pair and its count of affected students is
  the number of distinct student ids among them; if moreover none of their scores reads
  as 0, its confidence is the mean of their scores, with 0.7 for an absent score, taken
  in double arithmetic, multiplied by 100 as a double and rounded to the nearest integer.
  Every occurrence of such a pair has its recommendation, and no pair has two. Two
  occurrences with the same type and title from two different students give frequency 2
  and 2 affected students.
\<close>

theorem recommendation_groups:
  "(\<forall>t \<in> set (teachingRecommendations a sinfo).
      pair_occurrences (tr_type t) (tr_title t) (occurrences a) \<noteq> [] \<and>
      (key_unshared (tr_type t) (tr_title t) (occurrences a) \<longrightarrow>
         tr_frequency t = length (pair_occurrences (tr_type t) (tr_title t) (occurrences a)) \<and>
         tr_affectedStudentsCount t =
           length (remdups (map fst (pair_occurrences (tr_type t) (tr_title t) (occurrences a)))) \<and>
         (no_zero_score (pair_occurrences (tr_type t) (tr_title t) (occurrences a)) \<longrightarrow>
            tr_confidence t =
              js_round (fmul (double_mean_confidence
                                (map snd (pair_occurrences (tr_type t) (tr_title t) (occurrences a)))) 100)))) \<and>
   (\<forall>oc \<in> set (occurrences a).
      key_unshared (rec_type (snd oc)) (rec_title (snd oc)) (occurrences a) \<longrightarrow>
      (\<exists>t \<in> set (teachingRecommendations a sinfo).
         tr_type t = rec_type (snd oc) \<and> tr_title t = rec_title (snd oc))) \<and>
   distinct (map (\<lambda>t. (tr_type t, tr_title t)) (teachingRecommendations a sinfo)) \<and>
   (as_recommendations s1 = Some [r1] \<and> as_recommendations s2 = Some [r2] \<and>
    rec_type r1 = rec_type r2 \<and> rec_title r1 = rec_title r2 \<and> as_user_id s1 \<noteq> as_user_id s2 \<longrightarrow>
      map (\<lambda>t. (tr_frequency t, tr_affectedStudentsCount t))
        (teachingRecommendations [s1, s2] sinfo) = [(2, 2)])"
proof (intro conjI ballI impI)
  fix t assume t: "t \<in> set (teachingRecommendations a sinfo)"
  let ?os = "pair_occurrences (tr_type t) (tr_title t) (occurrences a)"
  show "?os \<noteq> []"
    using teaching_recommendation_first[OF t]
    by (auto simp: pair_occurrences_def filter_empty_conv)
  assume sep: "key_unshared (tr_type t) (tr_title t) (occurrences a)"
  have ko: "key_occurrences (tr_key t) (occurrences a) = ?os"
    unfolding tr_key_def by (rule key_occurrences_pair[OF sep])
  have counts: "tr_frequency t = length (key_occurrences (tr_key t) (occurrences a)) \<and>
      tr_affectedStudentsCount t = length (remdups (map fst (key_occurrences (tr_key t) (occurrences a)))) \<and>
      tr_confidence t =
        js_round (fmul (mean_used_confidence (key_occurrences (tr_key t) (occurrences a))) 100)"
    using teaching_recommendation_counts[of a sinfo] t by blast
  show "tr_frequency t = length ?os" using counts unfolding ko by blast
  show "tr_affectedStudentsCount t = length (remdups (map fst ?os))" using counts unfolding ko by blast
  assume "no_zero_score ?os"
  then have "mean_used_confidence ?os = double_mean_confidence (map snd ?os)"
    by (rule mean_used_double)
  then show "tr_confidence t = js_round (fmul (double_mean_confidence (map snd ?os)) 100)"
    using counts unfolding ko by simp
next
  fix oc assume oc: "oc \<in> set (occurrences a)"
    and sep: "key_unshared (rec_type (snd oc)) (rec_title (snd oc)) (occurrences a)"
  obtain t where t: "t \<in> set (teachingRecommendations a sinfo)" "tr_key t = rec_key (snd oc)"
    using teaching_recommendation_counts[of a sinfo] oc by blast
  obtain oc0 where oc0: "oc0 \<in> set (occurrences a)" "rec_key (snd oc0) = tr_key t"
    "rec_type (snd oc0) = tr_type t" "rec_title (snd oc0) = tr_title t"
    using teaching_recommendation_first[OF t(1)] by blast
  have "rec_key (snd oc0) = rec_type (snd oc) @ ''-'' @ rec_title (snd oc)"
    using oc0(2) t(2) by (simp add: rec_key_def)
  then have "rec_type (snd oc0) = rec_type (snd oc) \<and> rec_title (snd oc0) = rec_title (snd oc)"
    using sep oc0(1) by (auto simp: key_unshared_def list_all_iff)
  then show "\<exists>t \<in> set (teachingRecommendations a sinfo).
         tr_type t = rec_type (snd oc) \<and> tr_title t = rec_title (snd oc)"
    using t(1) oc0(3,4) by auto
next
  have "distinct (map tr_key (teachingRecommendations a sinfo))"
    using teaching_recommendation_counts[of a sinfo] by blast
  moreover have "map tr_key (teachingRecommendations a sinfo) =
      map (\<lambda>p. fst p @ ''-'' @ snd p) (map (\<lambda>t. (tr_type t, tr_title t)) (teachingRecommendations a sinfo))"
    by (simp add: tr_key_def comp_def)
  ultimately have "distinct (map (\<lambda>p. fst p @ ''-'' @ snd p)
      (map (\<lambda>t. (tr_type t, tr_title t)) (teachingRecommendations a sinfo)))"
    by simp
  then show "distinct (map (\<lambda>t. (tr_type t, tr_title t)) (teachingRecommendations a sinfo))"
    by (simp only: distinct_map)
next
  assume "as_recommendations s1 = Some [r1] \<and> as_recommendations s2 = Some [r2] \<and>
    rec_type r1 = rec_type r2 \<and> rec_title r1 = rec_title r2 \<and> as_user_id s1 \<noteq> as_user_id s2"
  then show "map (\<lambda>t. (tr_frequency t, tr_affectedStudentsCount t))
        (teachingRecommendations [s1, s2] sinfo) = [(2, 2)]"
    using two_students_merge[of s1 r1 s2 r2 sinfo] by blast
qed

lemma example_two_students_occurrences:
  "occurrences example_two_students =
     [(''s1'', example_rec ''pacing'' ''Slow down'' (Some 2) (Some (4 / 5))),
      (''s2'', example_rec ''pacing'' ''Slow down'' (Some 2) None)]"
  by (simp add: example_two_students_def occurrences_def example_session_def)

lemma example_two_students_pair:
  "map tr_type (teachingRecommendations example_two_students None) = [''pacing''] \<and>
   map tr_title (teachingRecommendations example_two_students None) = [''Slow down'']"
  by code_simp

lemma example_two_students_conditions:
  "key_unshared ''pacing'' ''Slow down'' (occurrences example_two_students) \<and>
   no_zero_score (pair_occurrences ''pacing'' ''Slow down'' (occurrences example_two_students)) \<and>
   map fst (pair_occurrences ''pacing'' ''Slow down'' (occurrences example_two_students)) = [''s1'', ''s2''] \<and>
   js_round (fmul (double_mean_confidence
       (map snd (pair_occurrences ''pacing'' ''Slow down'' (occurrences example_two_students)))) 100) = 75"
  by code_simp

text \<open>
  Two students with the same recommendation, one score 0.8 and one absent: frequency 2,
  2 students, and confidence 75.
\<close>

theorem recommendation_groups_witness:
  "key_unshared ''pacing'' ''Slow down'' (occurrences example_two_students) \<and>
   no_zero_score (pair_occurrences ''pacing'' ''Slow down'' (occurrences example_two_students)) \<and>
   map (\<lambda>t. (tr_type t, tr_title t, tr_frequency t, tr_affectedStudentsCount t, tr_confidence t))
     (teachingRecommendations example_two_students None) = [(''pacing'', ''Slow down'', 2, 2, 75)] \<and>
   map fst (pair_occurrences ''pacing'' ''Slow down'' (occurrences example_two_students)) = [''s1'', ''s2'']"
proof -
  obtain t where t: "teachingRecommendations example_two_students None = [t]"
    and ty: "tr_type t = ''pacing''" and ti: "tr_title t = ''Slow down''"
    using example_two_students_pair by (auto simp: map_eq_Cons_conv)
  note c = example_two_students_conditions
  note inst = recommendation_groups[of example_two_students None
      "example_session ''s1'' []" "example_rec ''pacing'' ''Slow down'' None None"
      "example_session ''s1'' []" "example_rec ''pacing'' ''Slow down'' None None"]
  have "t \<in> set (teachingRecommendations example_two_students None)" using t by simp
  then have "key_unshared (tr_type t) (tr_title t) (occurrences example_two_students) \<longrightarrow>
         tr_frequency t = length (pair_occurrences (tr_type t) (tr_title t) (occurrences example_two_students)) \<and>
         tr_affectedStudentsCount t =
           length (remdups (map fst (pair_occurrences (tr_type t) (tr_title t) (occurrences example_two_students)))) \<and>
         (no_zero_score (pair_occurrences (tr_type t) (tr_title t) (occurrences example_two_students)) \<longrightarrow>
            tr_confidence t =
              js_round (fmul (double_mean_confidence
                 (map snd (pair_occurrences (tr_type t) (tr_title t) (occurrences example_two_students)))) 100))"
    using inst by blast
  then have "tr_frequency t = length (pair_occurrences ''pacing'' ''Slow down'' (occurrences example_two_students)) \<and>
        tr_affectedStudentsCount t =
          length (remdups (map fst (pair_occurrences ''pacing'' ''Slow down'' (occurrences example_two_students)))) \<and>
        tr_confidence t = 75"
    unfolding ty ti using c by simp
  then have "tr_frequency t = 2 \<and> tr_affectedStudentsCount t = 2 \<and> tr_confidence t = 75"
    using c by (simp add: length_map[symmetric, of _ fst] del: length_map)
  then show ?thesis using t ty ti c by simp
qed

text \<open>
  C3 as stated fails on the emitted confidence. For two occurrences with scores 0.8 and
  0.6 the mean is 0.7 and the emitted confidence is 70. For one occurrence with score
  0.575 the mean is 0.575 and the emitted confidence is 57, where the mean as a
  percentage would round to 58.
\<close>

theorem confidence_percentage_counterexample:
  "map tr_confidence (teachingRecommendations example_two_scores None) = [70] \<and>
   specified_confidence (map snd (occurrences example_two_scores)) = 7 / 10 \<and>
   map tr_confidence (teachingRecommendations example_one_score None) = [57] \<and>
   specified_confidence (map snd (occurrences example_one_score)) = 23 / 40 \<and>
   js_round (specified_confidence (map snd (occurrences example_one_score)) * 100) = 58"
  by code_simp

text \<open>
  C4. A recommendation without a priority: the deduplicator ranks its group with
  priority 1, where the default of the specification is 3, while the intervention count
  of the same handler takes it for neither a high priority issue nor a critical one, as a
  priority of 3 would be.
\<close>

theorem absent_priority_example:
  "map tr_priority
     (teachingRecommendations [example_session ''s1'' [example_rec ''pacing'' ''Slow down'' None None]] None) = [1] \<and>
   specified_priority (example_rec ''pacing'' ''Slow down'' None None) = 3 \<and>
   map (\<lambda>e. (sa_highPriorityIssues (snd e), sa_criticalIssues (snd e)))
     (studentAnalytics [example_session ''s1'' [example_rec ''pacing'' ''Slow down'' None None]]) = [(0, 0)]"
  by (simp add: teachingRecommendations_def recommendationCounts_def add_session_recommendations_def
      add_recommendation_def rec_key_def Let_def js_sort_def push_recommendation_def
      recommendation_of_def finish_group_def example_session_def example_rec_def
      num_or_def studentAnalytics_def add_student_session_def count_issue_def specified_priority_def)

subsection \<open>Ranking and truncation\<close>

text \<open>What the handler answers when the request passes every guard.\<close>

lemma GET_ai_insights_computed:
  assumes "insights_computed env" "ie_analyticsData env = Some a"
  shows "GET_ai_insights env = Success
           \<lparr>id_teachingRecommendations = take 10 (teachingRecommendations a (ie_studentsInfo env)),
            id_studentInterventions = take 15 (studentInterventions a (ie_studentsInfo env)),
            id_learningPatternInsights = take 8 (learningPatternInsights a),
            id_performanceAlerts = take 10 (performanceAlerts (ie_moduleProgressData env)),
            id_contentOptimizationSuggestions = take 8 (contentOptimizationSuggestions (ie_feynmanFeedback env)),
            id_studyPlanRecommendations = [],
            id_classPerformanceInsights = classPerformanceInsights a\<rparr>"
  using assms
  by (auto simp: GET_ai_insights_def insights_computed_def no_rows_def Let_def split: option.splits)

lemma ranked_keys:
  "set (map tr_key (teachingRecommendations a sinfo)) = (rec_key \<circ> snd) ` set (occurrences a)"
proof
  show "set (map tr_key (teachingRecommendations a sinfo)) \<subseteq> (rec_key \<circ> snd) ` set (occurrences a)"
  proof
    fix k assume "k \<in> set (map tr_key (teachingRecommendations a sinfo))"
    then obtain t where "t \<in> set (teachingRecommendations a sinfo)" "k = tr_key t" by auto
    then have "key_occurrences k (occurrences a) \<noteq> []"
      using teaching_recommendation_counts[of a sinfo] by blast
    then obtain oc where "oc \<in> set (occurrences a)" "rec_key (snd oc) = k"
      by (auto simp: key_occurrences_def filter_empty_conv)
    then show "k \<in> (rec_key \<circ> snd) ` set (occurrences a)" by auto
  qed
  show "(rec_key \<circ> snd) ` set (occurrences a) \<subseteq> set (map tr_key (teachingRecommendations a sinfo))"
  proof
    fix k assume "k \<in> (rec_key \<circ> snd) ` set (occurrences a)"
    then obtain oc where "oc \<in> set (occurrences a)" "k = rec_key (snd oc)" by auto
    then obtain t where "t \<in> set (teachingRecommendations a sinfo)" "tr_key t = k"
      using teaching_recommendation_counts[of a sinfo] by blast
    then show "k \<in> set (map tr_key (teachingRecommendations a sinfo))" by auto
  qed
qed

text \<open>
  C9. The list of recommendations is in ascending order of priority, ties in descending
  order of frequency; it has a recommendation for every key of the complete input, each
  with the frequency counted over the complete input; the handler emits its first ten
  elements, so every emitted recommendation ranks before every one that is cut off.
\<close>

theorem ranked_then_truncated:
  "sorted_wrt ranks_before (teachingRecommendations a sinfo) \<and>
   set (map tr_key (teachingRecommendations a sinfo)) = (rec_key \<circ> snd) ` set (occurrences a) \<and>
   (\<forall>t \<in> set (teachingRecommendations a sinfo).
      tr_frequency t = length (key_occurrences (tr_key t) (occurrences a))) \<and>
   (\<forall>x \<in> set (take 10 (teachingRecommendations a sinfo)).
      \<forall>y \<in> set (drop 10 (teachingRecommendations a sinfo)). ranks_before x y) \<and>
   (insights_computed env \<and> ie_analyticsData env = Some a \<and> ie_studentsInfo env = sinfo \<longrightarrow>
      (\<exists>d. GET_ai_insights env = Success d \<and>
           id_teachingRecommendations d = take 10 (teachingRecommendations a sinfo)))"
proof (intro conjI)
  show "sorted_wrt ranks_before (teachingRecommendations a sinfo)"
    by (rule sorted_teachingRecommendations)
  show "set (map tr_key (teachingRecommendations a sinfo)) = (rec_key \<circ> snd) ` set (occurrences a)"
    by (rule ranked_keys)
  show "\<forall>t \<in> set (teachingRecommendations a sinfo).
      tr_frequency t = length (key_occurrences (tr_key t) (occurrences a))"
    using teaching_recommendation_counts[of a sinfo] by blast
  show "\<forall>x \<in> set (take 10 (teachingRecommendations a sinfo)).
      \<forall>y \<in> set (drop 10 (teachingRecommendations a sinfo)). ranks_before x y"
    using sorted_wrt_take_drop[OF sorted_teachingRecommendations] by blast
  show "insights_computed env \<and> ie_analyticsData env = Some a \<and> ie_studentsInfo env = sinfo \<longrightarrow>
      (\<exists>d. GET_ai_insights env = Success d \<and>
           id_teachingRecommendations d = take 10 (teachingRecommendations a sinfo))"
    using GET_ai_insights_computed[of env a] by auto
qed

lemma example_twelve_ranked:
  "map tr_title (teachingRecommendations example_twelve (Some example_info)) =
     [''0'', ''3'', ''6'', ''9'', ''1'', ''4'', ''7'', ''10'', ''2'', ''5'', ''8'', ''11'']"
  by code_simp

lemma example_env_computed: "insights_computed (example_env example_twelve (Some example_info))"
  by code_simp

text \<open>
  Twelve groups: the tenth and eleventh group of the input are kept or cut by rank, not by
  their place in the input.
\<close>

theorem ranked_then_truncated_witness:
  "map tr_title (take 10 (teachingRecommendations example_twelve (Some example_info))) =
     [''0'', ''3'', ''6'', ''9'', ''1'', ''4'', ''7'', ''10'', ''2'', ''5''] \<and>
   map tr_title (drop 10 (teachingRecommendations example_twelve (Some example_info))) = [''8'', ''11''] \<and>
   list_all (\<lambda>x. list_all (ranks_before x)
                  (drop 10 (teachingRecommendations example_twelve (Some example_info))))
     (take 10 (teachingRecommendations example_twelve (Some example_info))) \<and>
   insights_computed (example_env example_twelve (Some example_info)) \<and>
   (\<exists>d. GET_ai_insights (example_env example_twelve (Some example_info)) = Success d \<and>
        map tr_title (id_teachingRecommendations d) =
          [''0'', ''3'', ''6'', ''9'', ''1'', ''4'', ''7'', ''10'', ''2'', ''5''])"
proof -
  let ?all = "teachingRecommendations example_twelve (Some example_info)"
  let ?env = "example_env example_twelve (Some example_info)"
  have t: "map tr_title (take 10 ?all) = [''0'', ''3'', ''6'', ''9'', ''1'', ''4'', ''7'', ''10'', ''2'', ''5'']"
    using example_twelve_ranked by (simp add: take_map[symmetric])
  have d: "map tr_title (drop 10 ?all) = [''8'', ''11'']"
    using example_twelve_ranked by (simp add: drop_map[symmetric])
  have env: "ie_analyticsData ?env = Some example_twelve" "ie_studentsInfo ?env = Some example_info"
    by (simp_all add: example_env_def)
  note inst = ranked_then_truncated[of example_twelve "Some example_info" "?env"]
  from inst example_env_computed env
  have "\<exists>d. GET_ai_insights ?env = Success d \<and> id_teachingRecommendations d = take 10 ?all"
    by blast
  then show ?thesis using inst t d example_env_computed by (auto simp: list_all_iff)
qed

subsection \<open>Intervention aggregator\<close>

lemma foldl_count_issue:
  "sa_sessions (foldl count_issue d recs) = sa_sessions d \<and>
   sa_totalRecommendations (foldl count_issue d recs) = sa_totalRecommendations d \<and>
   sa_improvementTrend (foldl count_issue d recs) = sa_improvementTrend d \<and>
   sa_highPriorityIssues (foldl count_issue d recs) = sa_highPriorityIssues d + length (filter high_priority recs) \<and>
   sa_criticalIssues (foldl count_issue d recs) =
     sa_criticalIssues d + length (filter (\<lambda>r. rec_priority r = Some 1) recs)"
proof (induction recs arbitrary: d)
  case Nil then show ?case by simp
next
  case (Cons r recs)
  show ?case using Cons.IH[of "count_issue d r"]
    by (auto simp: count_issue_def Let_def high_priority_def split: option.splits)
qed

lemma analytics_inv_step:
  assumes "analytics_inv m a"
  shows "analytics_inv (add_student_session m s) (a @ [s])"
proof -
  define u where "u = as_user_id s"
  define recs where "recs = (case as_recommendations s of None \<Rightarrow> [] | Some rs \<Rightarrow> rs)"
  have dist: "distinct (map fst m)" using assms by (simp add: analytics_inv_def)
  have at: "case map_of m k of None \<Rightarrow> student_sessions k a = []
            | Some d \<Rightarrow> analytics_matches d (student_sessions k a)" for k
    using assms by (simp add: analytics_inv_def)
  have sr: "session_recs (ss @ [s]) = session_recs ss @ recs" for ss
    by (simp add: session_recs_def recs_def)
  obtain d2 where upd: "add_student_session m s = AList.update u d2 m"
    and d2: "analytics_matches d2 (student_sessions u a @ [s])"
  proof (cases "map_of m u")
    case None
    then have "student_sessions u a = []" using at[of u] by simp
    then show ?thesis using None that foldl_count_issue
      by (simp add: add_student_session_def u_def Let_def analytics_matches_def
          session_recs_def critical_issues_def high_priority_issues_def split: option.splits)
  next
    case (Some d)
    then have "analytics_matches d (student_sessions u a)" using at[of u] by simp
    then show ?thesis using Some that foldl_count_issue sr
      by (simp add: add_student_session_def u_def Let_def analytics_matches_def
          critical_issues_def high_priority_issues_def recs_def split: option.splits)
  qed
  have "case map_of (AList.update u d2 m) k of None \<Rightarrow> student_sessions k (a @ [s]) = []
            | Some d \<Rightarrow> analytics_matches d (student_sessions k (a @ [s]))" for k
  proof (cases "k = u")
    case True
    have "student_sessions k (a @ [s]) = student_sessions u a @ [s]"
      using True by (simp add: student_sessions_def u_def)
    then show ?thesis using d2 True by (simp add: update_conv')
  next
    case False
    have "student_sessions k (a @ [s]) = student_sessions k a"
      using False by (auto simp: student_sessions_def u_def)
    then show ?thesis using at[of k] False by (simp add: update_conv' split: option.splits)
  qed
  then show ?thesis using dist upd by (simp add: analytics_inv_def distinct_update)
qed

lemma analytics_inv_foldl:
  "analytics_inv m a \<Longrightarrow> analytics_inv (foldl add_student_session m rest) (a @ rest)"
proof (induction rest arbitrary: m a)
  case Nil then show ?case by simp
next
  case (Cons s rest)
  show ?case using Cons.IH[OF analytics_inv_step[OF Cons.prems, of s]] by simp
qed

lemma analytics_inv_studentAnalytics: "analytics_inv (studentAnalytics a) a"
  using analytics_inv_foldl[of "[]" "[]" a]
  by (simp add: studentAnalytics_def analytics_inv_def student_sessions_def)

lemma studentAnalytics_entry:
  assumes "(u, d) \<in> set (studentAnalytics a)"
  shows "analytics_matches d (student_sessions u a)"
proof -
  have "map_of (studentAnalytics a) u = Some d"
    using assms analytics_inv_studentAnalytics[of a] by (simp add: analytics_inv_def)
  then show ?thesis
    using analytics_inv_studentAnalytics[of a] unfolding analytics_inv_def by (metis option.simps(5))
qed

lemma improvementTrend_matches:
  assumes "analytics_matches d ss"
  shows "improvementTrend d = trend_of ss"
proof -
  define samples where
    "samples = filter (\<lambda>p. p \<noteq> 0)
                 (map (\<lambda>s. case as_improvement_percentage s of None \<Rightarrow> 0 | Some p \<Rightarrow> to_double p) ss)"
  have read: "num_or (js_number x) 0 = (case x of None \<Rightarrow> 0 | Some p \<Rightarrow> to_double p)" for x
    by (simp add: num_or_def js_number_def split: option.splits)
  have nth: "fsub (xs ! (length xs - 1)) (xs ! 0) = to_double (last xs - hd xs)"
    if "2 \<le> length xs" for xs :: "rat list"
    using that by (cases xs) (auto simp: last_conv_nth hd_conv_nth fsub_def)
  have "improvementTrend d =
          (if length samples \<ge> 2 then fsub (samples ! (length samples - 1)) (samples ! 0) else 0)"
    using assms unfolding improvementTrend_def analytics_matches_def samples_def Let_def read by metis
  moreover have "trend_of ss = (if length samples \<ge> 2 then to_double (last samples - hd samples) else 0)"
    unfolding trend_of_def samples_def Let_def by (rule refl)
  ultimately show ?thesis using nth[of samples] by presburger
qed

text \<open>
  For two rows with non-zero percentages, the trend is that of the second row of the
  query result, the earlier analysis, minus that of the first row, the later analysis.
\<close>

lemma trend_of_two_rows:
  assumes "as_improvement_percentage later = Some p" "as_improvement_percentage earlier = Some q"
    "to_double p \<noteq> 0" "to_double q \<noteq> 0"
  shows "trend_of [later, earlier] = to_double (to_double q - to_double p)"
  using assms by (simp add: trend_of_def)

lemma interventionLevel_rule:
  assumes "analytics_matches d ss"
  shows "fst (interventionLevel d) = level_rule (critical_issues ss) (high_priority_issues ss) (trend_of ss)"
  using assms improvementTrend_matches[OF assms]
  by (simp add: interventionLevel_def level_rule_def analytics_matches_def)

lemma set_foldl_update:
  "set (foldl (\<lambda>acc x. AList.update (k x) x acc) m xs) \<subseteq> set m \<union> (\<lambda>x. (k x, x)) ` set xs"
proof (induction xs arbitrary: m)
  case Nil then show ?case by simp
next
  case (Cons x xs)
  show ?case using Cons.IH[of "AList.update (k x) x m"] set_update_subset[of "k x" x m] by auto
qed

lemma studentMap_lookup:
  assumes "map_of (studentMap sinfo) u = Some s"
  shows "s \<in> set (fetched_students sinfo) \<and> su_id s = u"
proof -
  have "(u, s) \<in> set (studentMap sinfo)" using assms by (rule map_of_SomeD)
  then show ?thesis
    using set_foldl_update[of su_id "[]" "fetched_students sinfo"]
    by (auto simp: studentMap_def fetched_students_def)
qed

lemma push_intervention_Some:
  assumes "push_intervention smap e = Some iv"
  shows "si_studentId iv = fst e" and "map_of smap (fst e) \<noteq> None"
    and "si_interventionLevel iv = fst (interventionLevel (snd e))"
    and "si_interventionLevel iv \<noteq> level_none"
  using assms
  by (auto simp: push_intervention_def Let_def split: option.splits if_splits list.splits)

lemma set_map_filter: "set (List.map_filter f xs) = {y. \<exists>x \<in> set xs. f x = Some y}"
  by (induction xs) (auto split: option.splits)

lemma studentInterventions_elem:
  assumes "iv \<in> set (studentInterventions a sinfo)"
  shows "\<exists>e \<in> set (studentAnalytics a). push_intervention (studentMap sinfo) e = Some iv"
  using assms by (auto simp: studentInterventions_def set_js_sort set_map_filter)

lemma intervention_of_student:
  assumes "iv \<in> set (studentInterventions a sinfo)"
  shows "si_interventionLevel iv =
           level_rule (critical_issues (student_sessions (si_studentId iv) a))
                      (high_priority_issues (student_sessions (si_studentId iv) a))
                      (trend_of (student_sessions (si_studentId iv) a)) \<and>
         si_interventionLevel iv \<noteq> level_none \<and>
         student_sessions (si_studentId iv) a \<noteq> [] \<and>
         si_studentId iv \<in> su_id ` set (fetched_students sinfo)"
proof -
  obtain u d where e: "(u, d) \<in> set (studentAnalytics a)"
    and p: "push_intervention (studentMap sinfo) (u, d) = Some iv"
    using studentInterventions_elem[OF assms] by auto
  note m = studentAnalytics_entry[OF e]
  note f = push_intervention_Some[OF p]
  obtain s where "map_of (studentMap sinfo) u = Some s" using f(2) by auto
  then have mem: "u \<in> su_id ` set (fetched_students sinfo)" using studentMap_lookup by blast
  have ne: "student_sessions u a \<noteq> []" using m by (simp add: analytics_matches_def)
  have lvl: "si_interventionLevel iv =
      level_rule (critical_issues (student_sessions u a)) (high_priority_issues (student_sessions u a))
        (trend_of (student_sessions u a))"
    using f(3) interventionLevel_rule[OF m] by simp
  have id: "si_studentId iv = u" using f(1) by simp
  show ?thesis unfolding id by (intro conjI lvl f(4) ne mem)
qed







text \<open>
  C10. Every intervention refers to a student among the fetched student rows; a student
  who is not among them has no intervention, whatever the level, and the handler still
  answers with success.
\<close>

theorem interventions_need_student_info:
  "(\<forall>iv \<in> set (studentInterventions a sinfo). si_studentId iv \<in> su_id ` set (fetched_students sinfo)) \<and>
   (u \<notin> su_id ` set (fetched_students sinfo) \<longrightarrow> u \<notin> si_studentId ` set (studentInterventions a sinfo)) \<and>
   (insights_computed env \<and> ie_analyticsData env = Some a \<and> ie_studentsInfo env = sinfo \<longrightarrow>
      (\<exists>d. GET_ai_insights env = Success d \<and>
           id_studentInterventions d = take 15 (studentInterventions a sinfo) \<and>
           si_studentId ` set (id_studentInterventions d) \<subseteq> su_id ` set (fetched_students sinfo)))"
proof (intro conjI)
  show all: "\<forall>iv \<in> set (studentInterventions a sinfo). si_studentId iv \<in> su_id ` set (fetched_students sinfo)"
    using intervention_of_student[of _ a sinfo] by blast
  then show "u \<notin> su_id ` set (fetched_students sinfo) \<longrightarrow> u \<notin> si_studentId ` set (studentInterventions a sinfo)"
    by force
  have "si_studentId ` set (take 15 (studentInterventions a sinfo)) \<subseteq> su_id ` set (fetched_students sinfo)"
    using all set_take_subset[of 15 "studentInterventions a sinfo"] by blast
  then show "insights_computed env \<and> ie_analyticsData env = Some a \<and> ie_studentsInfo env = sinfo \<longrightarrow>
      (\<exists>d. GET_ai_insights env = Success d \<and>
           id_studentInterventions d = take 15 (studentInterventions a sinfo) \<and>
           si_studentId ` set (id_studentInterventions d) \<subseteq> su_id ` set (fetched_students sinfo))"
    using GET_ai_insights_computed[of env a] by auto
qed

lemma example_three_rule:
  "level_rule (critical_issues (student_sessions ''s3'' example_three_students))
     (high_priority_issues (student_sessions ''s3'' example_three_students))
     (trend_of (student_sessions ''s3'' example_three_students)) = level_none \<and>
   level_rule (critical_issues (student_sessions ''s2'' example_three_students))
     (high_priority_issues (student_sessions ''s2'' example_three_students))
     (trend_of (student_sessions ''s2'' example_three_students)) = level_urgent \<and>
   critical_issues (student_sessions ''s2'' example_three_students) = 1 \<and>
   high_priority_issues (student_sessions ''s1'' example_three_students) = 3"
  by code_simp

lemma example_three_env: "insights_computed (example_env example_three_students (Some example_info))"
  by code_simp

lemma example_three_emitted:
  "map si_studentId (take 15 (studentInterventions example_three_students (Some example_info))) = [''s1'']"
  by code_simp

lemma example_three_absent: "''s2'' \<notin> su_id ` set (fetched_students (Some example_info))"
  by code_simp






text \<open>
  The student with the critical issue is not among the fetched students: the answer is a
  success without an intervention for that student.
\<close>

theorem interventions_need_student_info_witness:
  "level_rule (critical_issues (student_sessions ''s2'' example_three_students))
     (high_priority_issues (student_sessions ''s2'' example_three_students))
     (trend_of (student_sessions ''s2'' example_three_students)) = level_urgent \<and>
   ''s2'' \<notin> su_id ` set (fetched_students (Some example_info)) \<and>
   ''s2'' \<notin> si_studentId ` set (studentInterventions example_three_students (Some example_info)) \<and>
   (\<exists>d. GET_ai_insights (example_env example_three_students (Some example_info)) = Success d \<and>
        map si_studentId (id_studentInterventions d) = [''s1''])"
proof -
  let ?env = "example_env example_three_students (Some example_info)"
  note inst = interventions_need_student_info[of example_three_students "Some example_info" "''s2''" "?env"]
  have env: "ie_analyticsData ?env = Some example_three_students" "ie_studentsInfo ?env = Some example_info"
    by (simp_all add: example_env_def)
  from inst example_three_env env
  have "\<exists>d. GET_ai_insights ?env = Success d \<and>
           id_studentInterventions d = take 15 (studentInterventions example_three_students (Some example_info))"
    by blast
  then have "\<exists>d. GET_ai_insights ?env = Success d \<and> map si_studentId (id_studentInterventions d) = [''s1'']"
    using example_three_emitted by auto
  moreover from inst example_three_absent
  have "''s2'' \<notin> si_studentId ` set (studentInterventions example_three_students (Some example_info))"
    by blast
  ultimately show ?thesis using example_three_rule example_three_absent by blast
qed

subsection \<open>Empty student set\<close>

text \<open>
  C5. For an authenticated instructor with courses, when the request for the enrolled
  students succeeds and gives no student, both analytics handlers answer with success
  and every field of the data is the empty list or the empty object.
\<close>

theorem empty_student_set:
  "(study_guards_pass env \<and> no_rows (se_enrolledStudents env) \<longrightarrow>
      GET_study_techniques env =
        Success \<lparr>std_activeRecallAnalytics = None, std_pomodoroAnalytics = None,
                 std_feynmanAnalytics = None, std_retrievalPracticeAnalytics = None,
                 std_techniqueComparison = [], std_timeBasedAnalysis = [],
                 std_effectivenessMetrics = []\<rparr>) \<and>
   (insights_guards_pass ienv \<and> no_rows (ie_enrolledStudents ienv) \<longrightarrow>
      GET_ai_insights ienv =
        Success \<lparr>id_teachingRecommendations = [], id_studentInterventions = [],
                 id_learningPatternInsights = [], id_performanceAlerts = [],
                 id_contentOptimizationSuggestions = [], id_studyPlanRecommendations = [],
                 id_classPerformanceInsights = []\<rparr>)"
proof (intro conjI impI)
  assume "study_guards_pass env \<and> no_rows (se_enrolledStudents env)"
  then show "GET_study_techniques env =
        Success \<lparr>std_activeRecallAnalytics = None, std_pomodoroAnalytics = None,
                 std_feynmanAnalytics = None, std_retrievalPracticeAnalytics = None,
                 std_techniqueComparison = [], std_timeBasedAnalysis = [],
                 std_effectivenessMetrics = []\<rparr>"
    by (auto simp: GET_study_techniques_def study_guards_pass_def no_rows_def Let_def
        empty_study_techniques_data_def split: option.splits)
next
  assume "insights_guards_pass ienv \<and> no_rows (ie_enrolledStudents ienv)"
  then show "GET_ai_insights ienv =
        Success \<lparr>id_teachingRecommendations = [], id_studentInterventions = [],
                 id_learningPatternInsights = [], id_performanceAlerts = [],
                 id_contentOptimizationSuggestions = [], id_studyPlanRecommendations = [],
                 id_classPerformanceInsights = []\<rparr>"
    by (auto simp: GET_ai_insights_def insights_guards_pass_def no_rows_def Let_def
        empty_insights_data_def split: option.splits)
qed


text \<open>
  An instructor with a course and an empty list of enrolled students, with session and
  analytics rows in the store: both answers are the all-empty success.
\<close>

theorem empty_student_set_witness:
  "study_guards_pass (example_study_env ''week'' [] example_sessions) \<and>
   no_rows (se_enrolledStudents (example_study_env ''week'' [] example_sessions)) \<and>
   GET_study_techniques (example_study_env ''week'' [] example_sessions) =
     Success \<lparr>std_activeRecallAnalytics = None, std_pomodoroAnalytics = None,
              std_feynmanAnalytics = None, std_retrievalPracticeAnalytics = None,
              std_techniqueComparison = [], std_timeBasedAnalysis = [],
              std_effectivenessMetrics = []\<rparr> \<and>
   insights_guards_pass example_env_no_students \<and>
   no_rows (ie_enrolledStudents example_env_no_students) \<and>
   GET_ai_insights example_env_no_students =
     Success \<lparr>id_teachingRecommendations = [], id_studentInterventions = [],
              id_learningPatternInsights = [], id_performanceAlerts = [],
              id_contentOptimizationSuggestions = [], id_studyPlanRecommendations = [],
              id_classPerformanceInsights = []\<rparr>"
proof -
  have s: "study_guards_pass (example_study_env ''week'' [] example_sessions) \<and>
           no_rows (se_enrolledStudents (example_study_env ''week'' [] example_sessions))"
    by (simp add: study_guards_pass_def example_study_env_def falsy_string_def not_instructor_def
        no_rows_def)
  have i: "insights_guards_pass example_env_no_students \<and>
           no_rows (ie_enrolledStudents example_env_no_students)"
    by (simp add: insights_guards_pass_def example_env_no_students_def example_env_def
        falsy_string_def not_instructor_def no_rows_def)
  show ?thesis
    using empty_student_set[of "example_study_env ''week'' [] example_sessions" example_env_no_students] s i
    by blast
qed
subsection \<open>Technique comparison\<close>

lemma userEngagement_select_le:
  "userEngagement (select_sessions since studentIds table) \<le> length studentIds"
proof -
  have "set (map sr_user_id (select_sessions since studentIds table)) \<subseteq> set studentIds"
    by (auto simp: select_sessions_def split: option.splits)
  then have "card (set (map sr_user_id (select_sessions since studentIds table))) \<le> card (set studentIds)"
    by (simp add: card_mono)
  also have "\<dots> \<le> length studentIds" by (rule card_length)
  finally show ?thesis by (simp add: userEngagement_def length_remdups_card_conv)
qed

lemma js_round_bounds: "0 \<le> x \<Longrightarrow> x \<le> of_int n \<Longrightarrow> 0 \<le> js_round x \<and> js_round x \<le> n"
proof -
  assume a: "0 \<le> x" "x \<le> of_int n"
  have "0 \<le> \<lfloor>x + 1 / 2\<rfloor>" using a by simp
  moreover have "\<lfloor>x + 1 / 2\<rfloor> \<le> n"
  proof -
    have "x + 1 / 2 < of_int (n + 1)" using a by simp
    then have "\<lfloor>x + 1 / 2\<rfloor> < n + 1" by (simp only: floor_less_iff)
    then show ?thesis by simp
  qed
  ultimately show ?thesis by (simp add: js_round_def)
qed

lemma double_adoption_bounds:
  assumes "users \<le> enrolled"
  shows "0 \<le> double_adoption users enrolled \<and> double_adoption users enrolled \<le> 100"
proof -
  let ?q = "(of_nat users :: rat) / of_nat (max enrolled 1)"
  have pos: "(0::rat) < of_nat (max enrolled 1)" by simp
  have "0 \<le> ?q" by simp
  then have q0: "0 \<le> to_double ?q" by (rule to_double_nonneg)
  have "?q \<le> 1" using assms pos by (simp add: divide_le_eq_1)
  then have "to_double ?q \<le> to_double 1" by (rule to_double_mono)
  then have q1: "to_double ?q \<le> 1" by (simp only: to_double_1)
  have "0 \<le> to_double ?q * 100" using q0 by simp
  then have p0: "0 \<le> to_double (to_double ?q * 100)" by (rule to_double_nonneg)
  have "to_double ?q * 100 \<le> 100" using q1 by simp
  then have "to_double (to_double ?q * 100) \<le> to_double 100" by (rule to_double_mono)
  then have p1: "to_double (to_double ?q * 100) \<le> of_int 100" by (simp add: to_double_100)
  show ?thesis unfolding double_adoption_def by (rule js_round_bounds[OF p0 p1])
qed

lemma double_adoption_0: "double_adoption 0 enrolled = 0"
  by (simp add: double_adoption_def to_double_0 js_round_0)

lemma compare_technique_rates:
  "tc_adoptionRate (compare_technique enrolled (name, sessions, users)) =
     Some (double_adoption users enrolled) \<and>
   tc_sessionsPerUser (compare_technique enrolled (name, sessions, users)) =
     Some (double_sessions_per_user sessions users)"
  by (simp add: compare_technique_def js_div_def fdiv_def fmul_def double_adoption_def
      double_sessions_per_user_def)

lemma userEngagement_distinct: "userEngagement sessions = distinct_users sessions"
  by (simp add: userEngagement_def distinct_users_def length_remdups_card_conv)

lemma GET_study_techniques_comparison:
  assumes "GET_study_techniques env = Success d" "t \<in> set (std_techniqueComparison d)"
  shows "\<exists>name. name \<in> set [''Active Recall'', ''Pomodoro'', ''Feynman'', ''Retrieval Practice''] \<and>
           t = compare_technique (total_enrolled env)
                 (name, length (technique_sessions env name), userEngagement (technique_sessions env name))"
proof -
  have sel: "select_sessions (se_since env) (enrolled_ids env) tab =
             filter (\<lambda>s. sr_user_id s \<in> set (enrolled_ids env) \<and> se_since env (sr_created_at s))
               (case tab of None \<Rightarrow> [] | Some rows \<Rightarrow> rows)" for tab
    by (simp add: select_sessions_def split: option.splits)
  have n: "length (enrolled_ids env) = total_enrolled env"
    by (simp add: enrolled_ids_def total_enrolled_def split: option.splits)
  have "std_techniqueComparison d =
          techniqueComparison (enrolled_ids env)
            (select_sessions (se_since env) (enrolled_ids env) (se_active_recall_sessions env))
            (select_sessions (se_since env) (enrolled_ids env) (se_pomodoro_sessions env))
            (select_sessions (se_since env) (enrolled_ids env) (se_feynman_sessions env))
            (select_sessions (se_since env) (enrolled_ids env) (se_retrieval_practice_sessions env))"
    using assms
    by (auto simp: GET_study_techniques_def Let_def empty_study_techniques_data_def enrolled_ids_def
        split: if_splits option.splits)
  then have "t \<in> set (map (compare_technique (total_enrolled env))
       [(''Active Recall'', length (technique_sessions env ''Active Recall''),
           userEngagement (technique_sessions env ''Active Recall'')),
        (''Pomodoro'', length (technique_sessions env ''Pomodoro''),
           userEngagement (technique_sessions env ''Pomodoro'')),
        (''Feynman'', length (technique_sessions env ''Feynman''),
           userEngagement (technique_sessions env ''Feynman'')),
        (''Retrieval Practice'', length (technique_sessions env ''Retrieval Practice''),
           userEngagement (technique_sessions env ''Retrieval Practice''))])"
    using assms(2)
    by (simp add: techniqueComparison_def Let_def set_js_sort sel n technique_sessions_def
        technique_table_def)
  then show ?thesis by auto
qed

lemma distinct_users_enrolled: "distinct_users (technique_sessions env name) \<le> total_enrolled env"
proof -
  have "sr_user_id ` set (technique_sessions env name) \<subseteq> set (enrolled_ids env)"
    by (auto simp: technique_sessions_def)
  then have "card (sr_user_id ` set (technique_sessions env name)) \<le> card (set (enrolled_ids env))"
    by (simp add: card_mono)
  also have "\<dots> \<le> length (enrolled_ids env)" by (rule card_length)
  also have "\<dots> = total_enrolled env"
    by (simp add: enrolled_ids_def total_enrolled_def split: option.splits)
  finally show ?thesis by (simp add: distinct_users_def)
qed

text \<open>
  C7 as stated fails on the formula. With 23 users of 40 enrolled students the quotient
  0.575 is a double just below 23/40, its product with 100 is a double below 57.5, and
  the emitted rate is 57, where round(100 * 23 / 40) is 58, also when the product is taken
  first in doubles.
\<close>

theorem adoption_rate_counterexample:
  "(case GET_study_techniques example_forty_env of
      Success d \<Rightarrow> map (\<lambda>t. (tc_technique t, tc_users t, tc_adoptionRate t)) (std_techniqueComparison d)
    | Error_response c m \<Rightarrow> [])
   = [(''Active Recall'', 23, Some 57), (''Pomodoro'', 0, Some 0), (''Feynman'', 0, Some 0),
      (''Retrieval Practice'', 0, Some 0)] \<and>
   total_enrolled example_forty_env = 40 \<and>
   specified_adoption 23 40 = 58 \<and>
   js_round (fdiv (fmul 100 23) 40) = 58"
  by code_simp

text \<open>
  C7 (as amended). Every entry of the comparison that the handler emits is that of one of
  the four techniques; its sessions are the rows of the technique's table from enrolled
  students in the time window, and its users are the distinct users of those sessions,
  never more than the enrolled students. The adoption rate and the sessions per user are
  numbers (no division by zero). The adoption rate is users / max(enrolled, 1) as a
  double, times 100 as a double, rounded to the nearest integer, and lies between 0 and
  100; the sessions per user are 0 for no user and else sessions / users as a double,
  rounded. A technique with no user has adoption rate 0 and 0 sessions per user.
\<close>

theorem adoption_rate_bounds:
  assumes "GET_study_techniques env = Success d" "t \<in> set (std_techniqueComparison d)"
  shows "tc_technique t \<in> set [''Active Recall'', ''Pomodoro'', ''Feynman'', ''Retrieval Practice''] \<and>
         tc_sessions t = length (technique_sessions env (tc_technique t)) \<and>
         tc_users t = distinct_users (technique_sessions env (tc_technique t)) \<and>
         tc_users t \<le> total_enrolled env \<and>
         tc_adoptionRate t = Some (double_adoption (tc_users t) (total_enrolled env)) \<and>
         0 \<le> double_adoption (tc_users t) (total_enrolled env) \<and>
         double_adoption (tc_users t) (total_enrolled env) \<le> 100 \<and>
         tc_sessionsPerUser t = Some (double_sessions_per_user (tc_sessions t) (tc_users t)) \<and>
         (tc_users t = 0 \<longrightarrow> tc_adoptionRate t = Some 0 \<and> tc_sessionsPerUser t = Some 0)"
proof -
  obtain name where name: "name \<in> set [''Active Recall'', ''Pomodoro'', ''Feynman'', ''Retrieval Practice'']"
    and t: "t = compare_technique (total_enrolled env)
                  (name, length (technique_sessions env name), userEngagement (technique_sessions env name))"
    using GET_study_techniques_comparison[OF assms] by blast
  have tn: "tc_technique t = name" and ts: "tc_sessions t = length (technique_sessions env name)"
    and tu: "tc_users t = distinct_users (technique_sessions env name)"
    by (simp_all add: t compare_technique_def userEngagement_distinct)
  have le: "tc_users t \<le> total_enrolled env" unfolding tu by (rule distinct_users_enrolled)
  have rates: "tc_adoptionRate t = Some (double_adoption (tc_users t) (total_enrolled env)) \<and>
               tc_sessionsPerUser t = Some (double_sessions_per_user (tc_sessions t) (tc_users t))"
    unfolding tu ts unfolding t userEngagement_distinct by (rule compare_technique_rates)
  have zero: "tc_users t = 0 \<longrightarrow> tc_adoptionRate t = Some 0 \<and> tc_sessionsPerUser t = Some 0"
    using rates by (auto simp: double_adoption_0 double_sessions_per_user_def)
  show ?thesis
    using name le rates zero double_adoption_bounds[OF le] unfolding tn[symmetric] ts tu by simp
qed

lemma example_comparison:
  "(case GET_study_techniques (example_study_env ''week'' example_enrolled example_sessions) of
      Success d \<Rightarrow> map (\<lambda>t. (tc_technique t, tc_users t)) (std_techniqueComparison d)
    | Error_response c m \<Rightarrow> [])
   = [(''Active Recall'', 1), (''Pomodoro'', 0), (''Feynman'', 0), (''Retrieval Practice'', 0)]"
  by code_simp

lemma example_double_adoption:
  "double_adoption 1 (total_enrolled (example_study_env ''week'' example_enrolled example_sessions)) = 33 \<and>
   map sr_user_id (technique_sessions (example_study_env ''week'' example_enrolled example_sessions)
                     ''Active Recall'') = [''s1'', ''s1''] \<and>
   map sr_user_id (technique_table (example_study_env ''week'' example_enrolled example_sessions)
                     ''Active Recall'') = [''s1'', ''s1'', ''s9'']"
  by code_simp

text \<open>
  Three enrolled students, one of them with two active recall sessions, and a session of a
  student who is not enrolled: one user and adoption 33 for active recall, 0 for a
  technique nobody used.
\<close>

theorem adoption_rate_bounds_witness:
  "\<exists>d t u. GET_study_techniques (example_study_env ''week'' example_enrolled example_sessions) = Success d \<and>
     t \<in> set (std_techniqueComparison d) \<and> u \<in> set (std_techniqueComparison d) \<and>
     tc_technique t = ''Active Recall'' \<and> tc_users t = 1 \<and> tc_sessions t = 2 \<and> tc_adoptionRate t = Some 33 \<and>
     tc_technique u = ''Pomodoro'' \<and> tc_users u = 0 \<and> tc_adoptionRate u = Some 0 \<and>
     tc_sessionsPerUser u = Some 0"
proof -
  let ?env = "example_study_env ''week'' example_enrolled example_sessions"
  obtain d where d: "GET_study_techniques ?env = Success d"
    using example_comparison by (cases "GET_study_techniques ?env") auto
  then have m: "map (\<lambda>t. (tc_technique t, tc_users t)) (std_techniqueComparison d)
      = [(''Active Recall'', 1), (''Pomodoro'', 0), (''Feynman'', 0), (''Retrieval Practice'', 0)]"
    using example_comparison by simp
  then obtain t u rest where l: "std_techniqueComparison d = t # u # rest"
    by (cases "std_techniqueComparison d"; cases "tl (std_techniqueComparison d)") auto
  have t: "tc_technique t = ''Active Recall''" "tc_users t = 1"
    and u: "tc_technique u = ''Pomodoro''" "tc_users u = 0"
    using m l by simp_all
  have tin: "t \<in> set (std_techniqueComparison d)" and uin: "u \<in> set (std_techniqueComparison d)"
    using l by simp_all
  have "length (map sr_user_id (technique_sessions ?env ''Active Recall'')) = 2"
    using example_double_adoption by simp
  then have n: "length (technique_sessions ?env ''Active Recall'') = 2" by simp
  have "tc_adoptionRate t = Some 33 \<and> tc_sessions t = 2"
    using adoption_rate_bounds[OF d tin] t example_double_adoption n by simp
  moreover have "tc_adoptionRate u = Some 0 \<and> tc_sessionsPerUser u = Some 0"
    using adoption_rate_bounds[OF d uin] u(2) by blast
  ultimately show ?thesis using d tin uin t u by blast
qed

subsection \<open>Time series\<close>

lemma upto_days: "map (\<lambda>i. today - int i) (rev [0 ..< n]) = [today - int n + 1 .. today]"
proof (induction n)
  case 0 then show ?case by simp
next
  case (Suc n)
  have "[today - int (Suc n) + 1 .. today] = (today - int n) # [today - int n + 1 .. today]"
    by (simp add: upto_rec1[of "today - int n" today])
  then show ?case using Suc by simp
qed

lemma timeBasedAnalysis_length:
  "length (timeBasedAnalysis zone now tr ar po fe re) = range_days tr"
  by (simp add: timeBasedAnalysis_def)

lemma timeBasedAnalysis_bucket:
  assumes "b \<in> set (timeBasedAnalysis zone now tr ar po fe re)"
  shows "db_activeRecall b = sessions_on (db_date b) ar \<and> db_pomodoro b = sessions_on (db_date b) po \<and>
         db_feynman b = sessions_on (db_date b) fe \<and> db_retrievalPractice b = sessions_on (db_date b) re \<and>
         db_total b = db_activeRecall b + db_pomodoro b + db_feynman b + db_retrievalPractice b"
  using assms by (auto simp: timeBasedAnalysis_def day_bucket_of_def Let_def)

text \<open>
  On a server whose offset from UTC never changes, the dates are those of the window that
  ends on the UTC day of the request.
\<close>

lemma setDate_back_fixed_offset:
  assumes "tz_changes zone = []"
  shows "iso_date (setDate_back zone now i) = day_text (now div msPerDay - int i)"
proof -
  have "setDate_back zone now i = now - int i * msPerDay"
    using assms by (simp add: setDate_back_def utc_time_def local_time_def)
  moreover have "(now - int i * msPerDay) div msPerDay = now div msPerDay - int i"
    by (simp add: msPerDay_def)
  ultimately show ?thesis by (simp add: iso_date_def)
qed

lemma timeBasedAnalysis_fixed_offset:
  assumes "tz_changes zone = []"
  shows "map db_date (timeBasedAnalysis zone now tr ar po fe re) =
           window_days (now div msPerDay) (range_days tr)"
proof -
  have "map db_date (timeBasedAnalysis zone now tr ar po fe re)
          = map day_text (map (\<lambda>i. now div msPerDay - int i) (rev [0 ..< range_days tr]))"
    by (simp add: timeBasedAnalysis_def day_bucket_of_def Let_def comp_def
        setDate_back_fixed_offset[OF assms])
  also have "\<dots> = map day_text [now div msPerDay - int (range_days tr) + 1 .. now div msPerDay]"
    by (simp only: upto_days)
  finally show ?thesis by (simp add: window_days_def algebra_simps)
qed

lemma example_week_utc:
  "(case GET_study_techniques (example_study_env ''week'' example_enrolled example_sessions) of
      Success d \<Rightarrow> map (\<lambda>b. (db_date b, db_activeRecall b, db_total b)) (std_timeBasedAnalysis d)
    | Error_response c m \<Rightarrow> [])
   = [(''2024-01-14'', 0, 0), (''2024-01-15'', 0, 0), (''2024-01-16'', 0, 0), (''2024-01-17'', 0, 0),
      (''2024-01-18'', 1, 1), (''2024-01-19'', 0, 0), (''2024-01-20'', 1, 1)]"
  by code_simp

text \<open>
  C8. The loop pushes one bucket per iteration, so the list has as many buckets as the
  range has days, but the buckets are not one per calendar day. The date of a bucket is
  moved in the local time of the server and printed in UTC. On a server in New York, for
  a request at 19:30 local time on 4 November 2024 with the range week, the local time
  19:30 is 0:30 UTC of the next day after the change of 3 November and 23:30 UTC of the
  same day before it: the dates go from 2 November to 4 November, 3 November has no
  bucket, and the first bucket is 29 October. The window of seven days that ends today is
  30 October to 5 November by the UTC date of the request, and 29 October to 4 November
  by its local date.
\<close>

theorem time_series_skips_day:
  "(case GET_study_techniques example_autumn_env of
      Success d \<Rightarrow> map db_date (std_timeBasedAnalysis d)
    | Error_response c m \<Rightarrow> [])
   = [''2024-10-29'', ''2024-10-30'', ''2024-10-31'', ''2024-11-01'', ''2024-11-02'', ''2024-11-04'',
      ''2024-11-05''] \<and>
   window_days (se_now example_autumn_env div msPerDay) 7
   = [''2024-10-30'', ''2024-10-31'', ''2024-11-01'', ''2024-11-02'', ''2024-11-03'', ''2024-11-04'',
      ''2024-11-05''] \<and>
   window_days (local_time (se_zone example_autumn_env) (se_now example_autumn_env) div msPerDay) 7
   = [''2024-10-29'', ''2024-10-30'', ''2024-10-31'', ''2024-11-01'', ''2024-11-02'', ''2024-11-03'',
      ''2024-11-04'']"
  by code_simp

subsection \<open>Report assembler\<close>

lemma mean_best_score_Some: "ps \<noteq> [] \<Longrightarrow> \<exists>a. mean_best_score ps = Some a"
  by (simp add: mean_best_score_def js_div_def)

lemma course_analysis_of_shape:
  fixes includeDetails modules mats progress sessions course
  defines "c \<equiv> course_analysis_of includeDetails modules mats progress sessions course"
  shows "(includeDetails \<longrightarrow> (\<exists>arr. ca_modules c = Module_array arr \<and> length arr = ca_totalModules c)) \<and>
         (\<not> includeDetails \<longrightarrow> ca_modules c = Module_count (ca_totalModules c))"
  by (simp add: c_def course_analysis_of_def Let_def)

lemma course_analysis_of_progress:
  "ca_averageScore (course_analysis_of includeDetails modules mats progress sessions course) =
     (if course_progress modules progress course = [] then Some 0
      else mean_best_score (course_progress modules progress course)) \<and>
   ca_completionRate (course_analysis_of includeDetails modules mats progress sessions course) =
     (if course_progress modules progress course = [] then Some 0
      else Some (js_round (fmul (fdiv (of_nat (length (filter ep_passed (course_progress modules progress course))))
                                      (of_nat (length (course_progress modules progress course)))) 100))) \<and>
   ca_totalStudents (course_analysis_of includeDetails modules mats progress sessions course) =
     length (remdups (map ep_user_id (course_progress modules progress course)))"
  by (cases progress; cases modules)
     (simp_all add: course_analysis_of_def course_progress_def Let_def js_div_def)

lemma course_analysis_of_aggregates:
  fixes includeDetails modules mats progress sessions course
  defines "c \<equiv> course_analysis_of includeDetails modules mats progress sessions course"
  shows "\<exists>a r. ca_averageScore c = Some a \<and> ca_completionRate c = Some r \<and>
               (ca_totalStudents c = 0 \<longrightarrow> a = 0 \<and> r = 0)"
proof (cases "course_progress modules progress course = []")
  case True
  then show ?thesis
    using course_analysis_of_progress[of includeDetails modules mats progress sessions course]
    by (simp add: c_def)
next
  case False
  then obtain a where "mean_best_score (course_progress modules progress course) = Some a"
    using mean_best_score_Some by blast
  moreover have "length (remdups (map ep_user_id (course_progress modules progress course))) \<noteq> 0"
    using False by simp
  ultimately show ?thesis
    using False course_analysis_of_progress[of includeDetails modules mats progress sessions course]
    by (simp add: c_def)
qed

text \<open>
  C6. In every course of the report, the modules field is the array of module analyses
  when details are included, and its length is the module count of the course; it is that
  count (an integer) when they are not, and the count is the same either way. The average
  score and the completion rate of a course are always numbers, and both are 0 when the
  course has no progress row, the denominator of both.
\<close>

theorem course_report_shape:
  "(\<forall>c \<in> set (courseAnalysis includeDetails courses modules mats progress sessions).
      (includeDetails \<longrightarrow> (\<exists>arr. ca_modules c = Module_array arr \<and> length arr = ca_totalModules c)) \<and>
      (\<not> includeDetails \<longrightarrow> ca_modules c = Module_count (ca_totalModules c)) \<and>
      (\<exists>a r. ca_averageScore c = Some a \<and> ca_completionRate c = Some r \<and>
             (ca_totalStudents c = 0 \<longrightarrow> a = 0 \<and> r = 0))) \<and>
   map ca_totalModules (courseAnalysis True courses modules mats progress sessions) =
     map ca_totalModules (courseAnalysis False courses modules mats progress sessions) \<and>
   (course_progress modules progress course = [] \<longrightarrow>
      ca_averageScore (course_analysis_of includeDetails modules mats progress sessions course) = Some 0 \<and>
      ca_completionRate (course_analysis_of includeDetails modules mats progress sessions course) = Some 0)"
proof (intro conjI ballI)
  fix c assume "c \<in> set (courseAnalysis includeDetails courses modules mats progress sessions)"
  then obtain course where c: "c = course_analysis_of includeDetails modules mats progress sessions course"
    by (auto simp: courseAnalysis_def)
  show "includeDetails \<longrightarrow> (\<exists>arr. ca_modules c = Module_array arr \<and> length arr = ca_totalModules c)"
    "\<not> includeDetails \<longrightarrow> ca_modules c = Module_count (ca_totalModules c)"
    unfolding c using course_analysis_of_shape by blast+
  show "\<exists>a r. ca_averageScore c = Some a \<and> ca_completionRate c = Some r \<and>
             (ca_totalStudents c = 0 \<longrightarrow> a = 0 \<and> r = 0)"
    unfolding c by (rule course_analysis_of_aggregates)
next
  show "map ca_totalModules (courseAnalysis True courses modules mats progress sessions) =
     map ca_totalModules (courseAnalysis False courses modules mats progress sessions)"
    by (simp add: courseAnalysis_def course_analysis_of_def Let_def)
  show "course_progress modules progress course = [] \<longrightarrow>
      ca_averageScore (course_analysis_of includeDetails modules mats progress sessions course) = Some 0 \<and>
      ca_completionRate (course_analysis_of includeDetails modules mats progress sessions course) = Some 0"
    using course_analysis_of_progress[of includeDetails modules mats progress sessions course] by simp
qed

lemma example_report:
  "map (\<lambda>c. (ca_id c, ca_totalModules c, ca_modules c, ca_averageScore c, ca_completionRate c))
     (courseAnalysis False example_courses (Some example_modules) None (Some example_export_progress) [])
   = [(''c1'', 2, Module_count 2, Some 45, Some 33), (''c2'', 1, Module_count 1, Some 0, Some 0)] \<and>
   map (\<lambda>c. (ca_id c, ca_totalModules c, ca_totalStudents c))
     (courseAnalysis True example_courses (Some example_modules) None (Some example_export_progress) [])
   = [(''c1'', 2, 2), (''c2'', 1, 0)]"
  by code_simp

lemma example_report_counts:
  "map ca_totalModules
     (courseAnalysis True example_courses (Some example_modules) None (Some example_export_progress) []) = [2, 1]"
  by code_simp

lemma example_report_progress:
  "course_progress (Some example_modules) (Some example_export_progress) (example_courses ! 1) = []"
  by code_simp

text \<open>
  Two courses, the second with a module and no progress row: counts 2 and 1 without
  details, arrays of those lengths with details, and aggregates 0 for the second course.
\<close>

theorem course_report_shape_witness:
  "map (\<lambda>c. (ca_id c, ca_totalModules c, ca_modules c, ca_averageScore c, ca_completionRate c))
     (courseAnalysis False example_courses (Some example_modules) None (Some example_export_progress) [])
   = [(''c1'', 2, Module_count 2, Some 45, Some 33), (''c2'', 1, Module_count 1, Some 0, Some 0)] \<and>
   list_all (\<lambda>c. \<exists>arr. ca_modules c = Module_array arr \<and> length arr = ca_totalModules c)
     (courseAnalysis True example_courses (Some example_modules) None (Some example_export_progress) []) \<and>
   map ca_totalModules
     (courseAnalysis True example_courses (Some example_modules) None (Some example_export_progress) []) = [2, 1] \<and>
   course_progress (Some example_modules) (Some example_export_progress) (example_courses ! 1) = [] \<and>
   ca_averageScore (course_analysis_of True (Some example_modules) None (Some example_export_progress) []
                      (example_courses ! 1)) = Some 0 \<and>
   ca_completionRate (course_analysis_of True (Some example_modules) None (Some example_export_progress) []
                      (example_courses ! 1)) = Some 0"
proof -
  note inst = course_report_shape[of True example_courses "Some example_modules" None
      "Some example_export_progress" "[]" "example_courses ! 1"]
  show ?thesis using inst example_report example_report_counts example_report_progress
    by (simp add: list_all_iff)
qed


end
